theory Spec2Isabelle
  imports Main "HOL-Library.Word" "HOL-Library.Signed_Division"
begin

unbundle bit_operations_syntax

section \<open>Machine integers, errors and results\<close>

type_synonym u8 = "8 word"
type_synonym u16 = "16 word"
type_synonym u32 = "32 word"
type_synonym u64 = "64 word"

text \<open>
  The build is either 32-bit or 64-bit (\<^verbatim>\<open>_WIN64\<close>). A \<^verbatim>\<open>uintptr_t\<close> is kept
  zero-extended in 64 bits; \<open>uptr\<close> cuts the result of an arithmetic operation down to
  the width of the build, which is where a 32-bit build wraps around.
\<close>

definition uptr :: "bool \<Rightarrow> u64 \<Rightarrow> u64" where
  "uptr win64 x = (if win64 then x else take_bit 32 x)"

definition sizeof_uintptr :: "bool \<Rightarrow> nat" where
  "sizeof_uintptr win64 = (if win64 then 8 else 4)"

text \<open>
  Every \<^verbatim>\<open>throw\<close> of the source is \<open>RuntimeError\<close> with the message of the source, a
  failed \<^verbatim>\<open>assert\<close> is \<open>AssertionFailed\<close>, and a read or write outside a buffer, through
  a null pointer or of indeterminate memory is \<open>UndefinedBehaviour\<close>.
\<close>

datatype error = RuntimeError string | AssertionFailed | UndefinedBehaviour

type_synonym 'a result = "error + 'a"

section \<open>The neutral instruction record of the decoder\<close>

datatype x86_insn =
  X86_INS_INVALID | X86_INS_ADD | X86_INS_SUB | X86_INS_MOV | X86_INS_PUSH
  | X86_INS_JMP | X86_INS_LJMP | X86_INS_OTHER nat

datatype x86_op_type = X86_OP_INVALID | X86_OP_REG | X86_OP_IMM | X86_OP_MEM

datatype x86_reg =
  X86_REG_INVALID | X86_REG_EAX | X86_REG_EBP | X86_REG_ESP | X86_REG_EDI
  | X86_REG_RSP | X86_REG_OTHER nat

datatype cs_group_type = CS_GRP_JUMP | CS_GRP_CALL | CS_GRP_RET | CS_GRP_INT

record x86_op_mem =
  segment :: x86_reg
  base :: x86_reg
  index :: x86_reg
  scale :: int
  disp :: u64

text \<open>
  In the decoder library \<^verbatim>\<open>reg\<close>, \<^verbatim>\<open>imm\<close> and \<^verbatim>\<open>mem\<close> share storage. The record keeps
  the three views as fields of their own: what a view holds when the operand has
  another type is the decoder's to say.
\<close>

record cs_x86_op =
  op_type :: x86_op_type
  reg :: x86_reg
  imm :: u64
  mem :: x86_op_mem

record cs_x86 =
  op_count :: u8
  operands :: "nat \<Rightarrow> cs_x86_op"
  eflags :: u64

record cs_detail =
  groups :: "cs_group_type list"
  x86 :: cs_x86

record cs_insn =
  insn_id :: x86_insn
  address :: u64
  insn_size :: u16
  detail :: cs_detail

section \<open>Relocations within an instruction\<close>

text \<open>
  \<^verbatim>\<open>std::lower_bound\<close>: the binary search of the standard library over the index range
  \<open>[first, first + len)\<close>; iterators are indices and \<^verbatim>\<open>cend()\<close> is \<open>length xs\<close>.
\<close>

function lower_bound_from :: "u64 list \<Rightarrow> u64 \<Rightarrow> nat \<Rightarrow> nat \<Rightarrow> nat" where
  "lower_bound_from xs v first len =
     (if len = 0 then first
      else let half = len div 2; middle = first + half
           in if xs ! middle < v
              then lower_bound_from xs v (middle + 1) (len - half - 1)
              else lower_bound_from xs v first half)"
  by pat_completeness auto
termination
  by (relation "measure (\<lambda>(xs, v, first, len). len)") auto

declare lower_bound_from.simps [simp del]

definition lower_bound :: "u64 list \<Rightarrow> u64 \<Rightarrow> nat" where
  "lower_bound xs v = lower_bound_from xs v 0 (length xs)"

text \<open>
  The first loop of \<^verbatim>\<open>GetRelocationsWithinInstruction\<close>: the index of the first byte
  of the instruction that has a relocation, \<open>None\<close> when the loop ends without
  one. \<^verbatim>\<open>i\<close> is an \<^verbatim>\<open>int\<close> below a 16-bit size and \<^verbatim>\<open>instruction.address + i\<close> is
  64-bit arithmetic.
\<close>

function first_reloc_from :: "cs_insn \<Rightarrow> u64 list \<Rightarrow> nat \<Rightarrow> nat option" where
  "first_reloc_from instruction relocations_to_search i =
     (if i < unat (insn_size instruction)
      then let instruction_rva = address instruction + of_nat i;
               it = lower_bound relocations_to_search instruction_rva
           in if it \<noteq> length relocations_to_search
                 \<and> relocations_to_search ! it = instruction_rva
              then Some it
              else first_reloc_from instruction relocations_to_search (i + 1)
      else None)"
  by pat_completeness auto
termination
  by (relation "measure (\<lambda>(ins, rs, i). unat (insn_size ins) - i)") auto

declare first_reloc_from.simps [simp del]

text \<open>The second loop: it walks on from the entry found and stops at the first one outside.\<close>

fun relocs_following :: "cs_insn \<Rightarrow> u64 list \<Rightarrow> u64 list" where
  "relocs_following instruction [] = []"
| "relocs_following instruction (reloc_rva # rest) =
     (if reloc_rva \<ge> address instruction
         \<and> reloc_rva < address instruction + ucast (insn_size instruction)
      then reloc_rva # relocs_following instruction rest
      else [])"

definition GetRelocationsWithinInstruction :: "cs_insn \<Rightarrow> u64 list \<Rightarrow> u64 list" where
  "GetRelocationsWithinInstruction instruction relocations_to_search =
     (case first_reloc_from instruction relocations_to_search 0 of
        None \<Rightarrow> []
      | Some it \<Rightarrow>
          relocations_to_search ! it
            # relocs_following instruction (drop (it + 1) relocations_to_search))"

text \<open>
  The mathematical reading of "the relocation lies within the instruction", with no
  wrap-around: \<open>a \<le> r < a + s\<close> on the unsigned values.
\<close>

definition within :: "cs_insn \<Rightarrow> u64 \<Rightarrow> bool" where
  "within ins r \<longleftrightarrow>
     unat (address ins) \<le> unat r \<and> unat r < unat (address ins) + unat (insn_size ins)"

text \<open>
  An instruction of which only the address and the size are set, as the rollback callback
  builds one (\<^verbatim>\<open>temp_instruction\<close>); the other fields are never read there.
\<close>

definition blank_detail :: cs_detail where
  "blank_detail =
     \<lparr>groups = [],
      x86 = \<lparr>op_count = 0,
             operands = (\<lambda>_. \<lparr>op_type = X86_OP_INVALID, reg = X86_REG_INVALID, imm = 0,
                               mem = \<lparr>segment = X86_REG_INVALID, base = X86_REG_INVALID,
                                      index = X86_REG_INVALID, scale = 0, disp = 0\<rparr>\<rparr>),
             eflags = 0\<rparr>\<rparr>"

definition temp_instruction :: "u64 \<Rightarrow> u16 \<Rightarrow> cs_insn" where
  "temp_instruction addr sz =
     \<lparr>insn_id = X86_INS_INVALID, address = addr, insn_size = sz, detail = blank_detail\<rparr>"


section \<open>Bytes in memory\<close>

text \<open>Little-endian storage of 16-, 32- and 64-bit values, as x86 holds them.\<close>

definition le16 :: "u16 \<Rightarrow> u8 list" where
  "le16 w = [ucast w, ucast (drop_bit 8 w)]"

definition le32 :: "u32 \<Rightarrow> u8 list" where
  "le32 w = [ucast w, ucast (drop_bit 8 w), ucast (drop_bit 16 w), ucast (drop_bit 24 w)]"

definition le64 :: "u64 \<Rightarrow> u8 list" where
  "le64 w = le32 (ucast w) @ le32 (ucast (drop_bit 32 w))"

definition of_le32 :: "u8 list \<Rightarrow> u32" where
  "of_le32 bs =
     ucast (bs ! 0) OR push_bit 8 (ucast (bs ! 1)) OR push_bit 16 (ucast (bs ! 2))
       OR push_bit 24 (ucast (bs ! 3))"

definition of_le64 :: "u8 list \<Rightarrow> u64" where
  "of_le64 bs = ucast (of_le32 (take 4 bs)) OR push_bit 32 (ucast (of_le32 (take 4 (drop 4 bs))))"

text \<open>
  A read through a pointer into a buffer: the bytes are there, or the read is outside
  the buffer.
\<close>

definition read_bytes :: "u8 list \<Rightarrow> nat \<Rightarrow> nat \<Rightarrow> u8 list option" where
  "read_bytes buf pos n = (if pos + n \<le> length buf then Some (take n (drop pos buf)) else None)"

definition read_u32 :: "u8 list \<Rightarrow> nat \<Rightarrow> u32 option" where
  "read_u32 buf pos = map_option of_le32 (read_bytes buf pos 4)"

definition read_u64 :: "u8 list \<Rightarrow> nat \<Rightarrow> u64 option" where
  "read_u64 buf pos = map_option of_le64 (read_bytes buf pos 8)"

text \<open>A \<^verbatim>\<open>uintptr_t\<close> read: 4 bytes on a 32-bit build, 8 on a 64-bit one.\<close>

definition read_uintptr :: "bool \<Rightarrow> u8 list \<Rightarrow> nat \<Rightarrow> u64 option" where
  "read_uintptr win64 buf pos =
     (if win64 then read_u64 buf pos else map_option ucast (read_u32 buf pos))"

definition uintptr_bytes :: "bool \<Rightarrow> u64 \<Rightarrow> u8 list" where
  "uintptr_bytes win64 v = (if win64 then le64 v else le32 (ucast v))"

definition write_bytes :: "u8 list \<Rightarrow> nat \<Rightarrow> u8 list \<Rightarrow> u8 list option" where
  "write_bytes buf pos bs =
     (if pos + length bs \<le> length buf
      then Some (take pos buf @ bs @ drop (pos + length bs) buf)
      else None)"

section \<open>The PE model\<close>

record IMAGE_SECTION_HEADER =
  Name :: string
  VirtualSize :: u32
  VirtualAddress :: u32
  SizeOfRawData :: u32
  PointerToRawData :: u32

record IMAGE_DATA_DIRECTORY =
  dir_VirtualAddress :: u32
  dir_Size :: u32

record IMAGE_NT_HEADERS =
  ImageBase :: u64
  SectionAlignment :: u32
  FileAlignment :: u32
  DataDirectory :: "nat \<Rightarrow> IMAGE_DATA_DIRECTORY"

definition IMAGE_DIRECTORY_ENTRY_BASERELOC :: nat where "IMAGE_DIRECTORY_ENTRY_BASERELOC = 5"
definition IMAGE_DIRECTORY_ENTRY_DEBUG :: nat where "IMAGE_DIRECTORY_ENTRY_DEBUG = 6"
definition IMAGE_DIRECTORY_ENTRY_TLS :: nat where "IMAGE_DIRECTORY_ENTRY_TLS = 9"
definition IMAGE_DIRECTORY_ENTRY_LOAD_CONFIG :: nat where "IMAGE_DIRECTORY_ENTRY_LOAD_CONFIG = 10"

text \<open>
  Modelled from the spec: the helpers of \<^verbatim>\<open>section::\<close>, \<^verbatim>\<open>SectionHeaders\<close> and
  \<^verbatim>\<open>peutils::\<close> (pe/section.h, pe/section_headers.h and pe/peutils.h are not among
  the sources). An RVA is inside a section when it lies in
  \<open>[VirtualAddress, VirtualAddress + VirtualSize)\<close>; \<open>FromRva\<close> and \<open>FromName\<close> give the
  first header that fits, or the null pointer; \<open>RvaToFileOffset\<close> is
  \<open>rva - VirtualAddress + PointerToRawData\<close> of that section, and 0 where there is none
  (its caller in the .rdata scan tests the result against 0).
\<close>

definition IsRvaWithinSection :: "IMAGE_SECTION_HEADER \<Rightarrow> u64 \<Rightarrow> bool" where
  "IsRvaWithinSection h rva \<longleftrightarrow>
     unat (VirtualAddress h) \<le> unat rva \<and> unat rva < unat (VirtualAddress h) + unat (VirtualSize h)"

definition FromRva :: "IMAGE_SECTION_HEADER list \<Rightarrow> u64 \<Rightarrow> IMAGE_SECTION_HEADER option" where
  "FromRva hs rva = find (\<lambda>h. IsRvaWithinSection h rva) hs"

definition FromName :: "IMAGE_SECTION_HEADER list \<Rightarrow> string \<Rightarrow> IMAGE_SECTION_HEADER option" where
  "FromName hs n = find (\<lambda>h. Name h = n) hs"

definition RvaToSectionOffset :: "IMAGE_SECTION_HEADER \<Rightarrow> u64 \<Rightarrow> u64" where
  "RvaToSectionOffset h rva = rva - ucast (VirtualAddress h)"

definition SectionOffsetToRva :: "IMAGE_SECTION_HEADER \<Rightarrow> u64 \<Rightarrow> u64" where
  "SectionOffsetToRva h off = ucast (VirtualAddress h) + off"

definition RvaToFileOffset :: "IMAGE_SECTION_HEADER list \<Rightarrow> u64 \<Rightarrow> u64" where
  "RvaToFileOffset hs rva =
     (case FromRva hs rva of
        None \<Rightarrow> 0
      | Some h \<Rightarrow> rva - ucast (VirtualAddress h) + ucast (PointerToRawData h))"

definition AlignDown :: "u64 \<Rightarrow> u64 \<Rightarrow> u64" where
  "AlignDown v alignment = v - v mod alignment"

definition AlignUp :: "nat \<Rightarrow> nat \<Rightarrow> nat" where
  "AlignUp n alignment = (if alignment = 0 then n else ((n + alignment - 1) div alignment) * alignment)"

text \<open>
  Modelled from the spec: the section builder (pe/section.h is not among the sources).
  A section has a name, its raw bytes and a write offset that only grows. \<open>AppendCode\<close>
  writes the bytes at the write offset, pads the raw size up to the next multiple of the
  file alignment and returns the offset at which the first byte was written.
\<close>

record Section =
  sec_name :: string
  sec_data :: "u8 list"
  sec_offset :: nat

definition CreateEmptySection :: "string \<Rightarrow> Section" where
  "CreateEmptySection n = \<lparr>sec_name = n, sec_data = [], sec_offset = 0\<rparr>"

definition GetCurrentOffset :: "Section \<Rightarrow> u64" where
  "GetCurrentOffset s = of_nat (sec_offset s)"

definition AppendCode :: "u8 list \<Rightarrow> u32 \<Rightarrow> u32 \<Rightarrow> Section \<Rightarrow> u64 \<times> Section" where
  "AppendCode bytes section_alignment file_alignment s =
     (let off = sec_offset s;
          kept = take off (sec_data s @ replicate (off - length (sec_data s)) 0);
          written = kept @ bytes;
          padded = written @ replicate (AlignUp (length written) (unat file_alignment) - length written) 0
      in (of_nat off, s\<lparr>sec_data := padded, sec_offset := off + length bytes\<rparr>))"

section \<open>Fixups and relocations\<close>

datatype FixupOperation =
  AddVmLoaderSectionVirtualAddress
  | SubtractVmLoaderSectionVirtualAddress
  | AddVirtualizedCodeSectionVirtualAddress

datatype OffsetRelativeTo =
  VmLoaderSection | TextSection | RelocSection | VirtualizedCodeSection | Beginning

record FixupDescriptor =
  offset_type :: OffsetRelativeTo
  fixup_size :: u8
  operation :: FixupOperation

record Fixup =
  offset :: u64
  desc :: FixupDescriptor

text \<open>
  The 16-bit relocation entry of the PE format (declared in pe/portable_executable.h,
  not among the sources): the low 12 bits are the offset in the page, the high 4 bits the
  type.
\<close>

record Relocation =
  reloc_offset :: "12 word"
  reloc_type :: "4 word"

definition IMAGE_REL_BASED_ABSOLUTE :: "4 word" where "IMAGE_REL_BASED_ABSOLUTE = 0"
definition IMAGE_REL_BASED_HIGHLOW :: "4 word" where "IMAGE_REL_BASED_HIGHLOW = 3"
definition IMAGE_REL_BASED_DIR64 :: "4 word" where "IMAGE_REL_BASED_DIR64 = 10"

definition Relocation_bytes :: "Relocation \<Rightarrow> u8 list" where
  "Relocation_bytes r = le16 (ucast (reloc_offset r) OR push_bit 12 (ucast (reloc_type r)))"

definition sizeof_IMAGE_BASE_RELOCATION :: nat where "sizeof_IMAGE_BASE_RELOCATION = 8"
definition sizeof_Relocation :: nat where "sizeof_Relocation = 2"

definition CreateRelocationBlockBuffer :: "u32 \<Rightarrow> Relocation list \<Rightarrow> u8 list" where
  "CreateRelocationBlockBuffer virtual_address relocations =
     le32 virtual_address
     @ le32 (of_nat (sizeof_IMAGE_BASE_RELOCATION + length relocations * sizeof_Relocation))
     @ concat (map Relocation_bytes relocations)"

definition DetermineFirstRelocationBlockVirtualAddress :: "u64 list \<Rightarrow> u64 \<Rightarrow> u32 result" where
  "DetermineFirstRelocationBlockVirtualAddress offsets highest_reloc_offset =
     (if \<not> length offsets > 0 then Inl AssertionFailed
      else Inr (ucast (AlignDown (offsets ! 0) highest_reloc_offset)))"

text \<open>
  The state the relocation rebuilder works on: the headers of the new image, its
  \<^verbatim>\<open>.reloc\<close> section and the fixup list.
\<close>

record reloc_state =
  nt_headers :: IMAGE_NT_HEADERS
  reloc_section :: Section
  fixup_vector :: "Fixup list"

definition TrimRelocSectionPadding :: "reloc_state \<Rightarrow> reloc_state result" where
  "TrimRelocSectionPadding st =
     (let sz = unat (dir_Size (DataDirectory (nt_headers st) IMAGE_DIRECTORY_ENTRY_BASERELOC));
          sec = reloc_section st
      in if sz \<le> length (sec_data sec)
         then Inr (st\<lparr>reloc_section := sec\<lparr>sec_data := take sz (sec_data sec)\<rparr>\<rparr>)
         else Inl UndefinedBehaviour)"

text \<open>
  \<^verbatim>\<open>AppendRelocationBlock\<close> takes the relocations by reference and pads them in place,
  so the padded vector is part of what it returns.
\<close>

definition AppendRelocationBlock ::
  "u32 \<Rightarrow> Relocation list \<Rightarrow> reloc_state \<Rightarrow> u64 \<times> Relocation list \<times> reloc_state" where
  "AppendRelocationBlock reloc_block_virtual_address relocations st =
     (let relocations' =
            (if length relocations mod 2 \<noteq> 0
             then relocations @ [\<lparr>reloc_offset = 0, reloc_type = 0\<rparr>]
             else relocations);
          reloc_block_bytes = CreateRelocationBlockBuffer reloc_block_virtual_address relocations';
          nt = nt_headers st;
          (dest_offset, sec') =
            AppendCode reloc_block_bytes (SectionAlignment nt) (FileAlignment nt) (reloc_section st);
          dir = DataDirectory nt IMAGE_DIRECTORY_ENTRY_BASERELOC;
          nt' = nt\<lparr>DataDirectory := (DataDirectory nt)
                  (IMAGE_DIRECTORY_ENTRY_BASERELOC :=
                     dir\<lparr>dir_Size := dir_Size dir + of_nat (length reloc_block_bytes)\<rparr>)\<rparr>
      in (dest_offset, relocations', st\<lparr>nt_headers := nt', reloc_section := sec'\<rparr>))"

definition k4kPage :: u64 where "k4kPage = push_bit 12 1"

text \<open>
  The loop of \<^verbatim>\<open>AddRelocations\<close> over the offsets, with the block address, the
  relocations gathered for the block and the state. The difference of a \<^verbatim>\<open>uintptr_t\<close>
  and the 32-bit block address is taken in the width of the build.
\<close>

fun AddRelocations_loop ::
  "bool \<Rightarrow> FixupDescriptor \<Rightarrow> u64 list \<Rightarrow> u32 \<Rightarrow> Relocation list \<Rightarrow> reloc_state
     \<Rightarrow> (u32 \<times> Relocation list \<times> reloc_state) result" where
  "AddRelocations_loop win64 fixup_desc [] reloc_block_virtual_address new_relocations st =
     Inr (reloc_block_virtual_address, new_relocations, st)"
| "AddRelocations_loop win64 fixup_desc (vm_section_offset_to_relocate # rest)
       reloc_block_virtual_address new_relocations st =
     (let delta_offset_from_reloc_block_va =
            uptr win64 (vm_section_offset_to_relocate - ucast reloc_block_virtual_address);
          relocation =
            \<lparr>reloc_offset = ucast delta_offset_from_reloc_block_va,
             reloc_type = (if win64 then IMAGE_REL_BASED_DIR64 else IMAGE_REL_BASED_HIGHLOW)\<rparr>
      in if delta_offset_from_reloc_block_va \<ge> k4kPage
         then
           (let (dest_offset, _, st') =
                  AppendRelocationBlock reloc_block_virtual_address new_relocations st;
                st'' = st'\<lparr>fixup_vector := fixup_vector st' @ [\<lparr>offset = dest_offset, desc = fixup_desc\<rparr>]\<rparr>;
                reloc_block_virtual_address' =
                  (ucast (AlignDown vm_section_offset_to_relocate k4kPage) :: u32)
            in if \<not> uptr win64 (vm_section_offset_to_relocate - ucast reloc_block_virtual_address')
                      < k4kPage
               then Inl AssertionFailed
               else AddRelocations_loop win64 fixup_desc rest reloc_block_virtual_address'
                      ([] @ [relocation\<lparr>reloc_offset :=
                          ucast (uptr win64
                            (vm_section_offset_to_relocate - ucast reloc_block_virtual_address'))\<rparr>])
                      st'')
         else AddRelocations_loop win64 fixup_desc rest reloc_block_virtual_address
                (new_relocations @ [relocation]) st)"

definition AddRelocations ::
  "bool \<Rightarrow> FixupDescriptor \<Rightarrow> u64 list \<Rightarrow> reloc_state \<Rightarrow> reloc_state result" where
  "AddRelocations win64 fixup_desc section_offsets_to_add_to_relocation_table st =
     (if section_offsets_to_add_to_relocation_table = [] then Inr st
      else if sec_name (reloc_section st) \<noteq> ''.reloc'' then Inl AssertionFailed
      else case DetermineFirstRelocationBlockVirtualAddress
                  section_offsets_to_add_to_relocation_table k4kPage of
             Inl e \<Rightarrow> Inl e
           | Inr reloc_block_virtual_address \<Rightarrow>
               (case TrimRelocSectionPadding st of
                  Inl e \<Rightarrow> Inl e
                | Inr st0 \<Rightarrow>
                    (case AddRelocations_loop win64 fixup_desc
                            section_offsets_to_add_to_relocation_table
                            reloc_block_virtual_address [] st0 of
                       Inl e \<Rightarrow> Inl e
                     | Inr (va, new_relocations, st1) \<Rightarrow>
                         if length new_relocations > 0
                         then (let (dest_offset, _, st2) =
                                     AppendRelocationBlock va new_relocations st1
                               in Inr (st2\<lparr>fixup_vector := fixup_vector st2
                                          @ [\<lparr>offset = dest_offset, desc = fixup_desc\<rparr>]\<rparr>))
                         else Inr st1)))"

definition AddVirtualizedCodeSectionRelocations ::
  "bool \<Rightarrow> u64 list \<Rightarrow> reloc_state \<Rightarrow> reloc_state result" where
  "AddVirtualizedCodeSectionRelocations win64 offsets st =
     AddRelocations win64
       \<lparr>offset_type = RelocSection, fixup_size = of_nat (sizeof_uintptr win64),
        operation = AddVirtualizedCodeSectionVirtualAddress\<rparr>
       offsets st"


text \<open>
  Scenario S4: an image with 4096-byte section alignment and 512-byte file alignment, an
  empty relocation directory and an empty \<^verbatim>\<open>.reloc\<close> section.
\<close>

definition s4_state :: reloc_state where
  "s4_state =
     \<lparr>nt_headers = \<lparr>ImageBase = 0x400000, SectionAlignment = 0x1000, FileAlignment = 0x200,
                    DataDirectory = (\<lambda>_. \<lparr>dir_VirtualAddress = 0, dir_Size = 0\<rparr>)\<rparr>,
      reloc_section = CreateEmptySection ''.reloc'',
      fixup_vector = []\<rparr>"

definition s4_desc :: FixupDescriptor where
  "s4_desc = \<lparr>offset_type = RelocSection, fixup_size = 4,
              operation = AddVmLoaderSectionVirtualAddress\<rparr>"

section \<open>The decoder interface\<close>

text \<open>
  The decoder library is outside the program: it is a parameter, a function from the
  bytes at the code pointer and their address to the instruction it decodes there, or
  \<open>None\<close> where decoding fails. Pointers into the PE image are offsets from its first
  byte. \<open>cs_disasm_iter\<close> decodes one instruction and moves the cursor (code pointer,
  remaining size and address) past it; \<open>cs_disasm\<close> decodes up to \<open>count\<close> instructions and
  stops at the first failure.
\<close>

type_synonym decoder = "u8 list \<Rightarrow> u64 \<Rightarrow> cs_insn option"

type_synonym cursor = "u64 \<times> u64 \<times> u64"

definition cs_disasm_iter :: "decoder \<Rightarrow> u8 list \<Rightarrow> cursor \<Rightarrow> (cs_insn \<times> cursor) option" where
  "cs_disasm_iter dec img cur =
     (case cur of (code, code_size, addr) \<Rightarrow>
        (case dec (take (unat code_size) (drop (unat code) img)) addr of
           None \<Rightarrow> None
         | Some ins \<Rightarrow>
             Some (ins, code + ucast (insn_size ins), code_size - ucast (insn_size ins),
                   addr + ucast (insn_size ins))))"

fun cs_disasm :: "decoder \<Rightarrow> u8 list \<Rightarrow> cursor \<Rightarrow> nat \<Rightarrow> cs_insn list" where
  "cs_disasm dec img cur 0 = []"
| "cs_disasm dec img cur (Suc n) =
     (case cs_disasm_iter dec img cur of
        None \<Rightarrow> []
      | Some (ins, cur') \<Rightarrow> ins # cs_disasm dec img cur' n)"

definition cs_insn_group :: "cs_insn \<Rightarrow> cs_group_type \<Rightarrow> bool" where
  "cs_insn_group instruction g \<longleftrightarrow> g \<in> set (groups (detail instruction))"

section \<open>The disassembly engine\<close>

record DisassemblyPoint =
  rva :: u64
  code :: u64

record AddressRange =
  begin_address :: u64
  end_address :: u64

datatype DisassemblyAction = NextInstruction | NextDisassemblyPoint

text \<open>
  The members of \<^verbatim>\<open>PeDisassemblyEngine\<close> (the source names end in an underscore). The
  engine keeps a pointer to the header of \<^verbatim>\<open>.text\<close>; the record holds the header it
  points to. \<open>disassembly_points\<close> is the work stack, its back being the end of the list,
  and \<open>disassembly_points_cache\<close> the set of RVAs already enqueued.
\<close>

record PeDisassemblyEngine =
  pe_image :: "u8 list"
  pe_section_headers :: "IMAGE_SECTION_HEADER list"
  pe_text_section_header :: IMAGE_SECTION_HEADER
  pe_image_base :: u64
  code_ptr :: u64
  current_code_index :: u64
  current_instruction_code :: u64
  code_buf_size :: u64
  address_rva :: u64
  disassembly_points :: "DisassemblyPoint list"
  disassembly_points_cache :: "u64 set"
  data_ranges :: "AddressRange list"

definition SetDisassemblyPoint ::
  "DisassemblyPoint \<Rightarrow> u64 \<Rightarrow> PeDisassemblyEngine \<Rightarrow> PeDisassemblyEngine" where
  "SetDisassemblyPoint disasm_point disasm_buffer_size E =
     E\<lparr>code_ptr := code disasm_point, address_rva := rva disasm_point,
       code_buf_size := disasm_buffer_size\<rparr>"

definition IsGuaranteedJump :: "cs_insn \<Rightarrow> bool" where
  "IsGuaranteedJump instruction \<longleftrightarrow>
     insn_id instruction = X86_INS_JMP \<or> insn_id instruction = X86_INS_LJMP"

definition GetOperandRva :: "bool \<Rightarrow> cs_x86_op \<Rightarrow> u64 \<Rightarrow> u64 result" where
  "GetOperandRva win64 operand image_base =
     (case op_type operand of
        X86_OP_IMM \<Rightarrow>
          Inr (if win64 then imm operand else uptr win64 (imm operand - image_base))
      | X86_OP_MEM \<Rightarrow>
          Inr (if win64 then disp (mem operand) else uptr win64 (disp (mem operand) - image_base))
      | _ \<Rightarrow> Inl (RuntimeError ''should never occur''))"

definition IsVTableOrFunction ::
  "bool \<Rightarrow> PeDisassemblyEngine \<Rightarrow> cs_x86_op \<Rightarrow> cs_x86_op \<Rightarrow> bool result" where
  "IsVTableOrFunction win64 E operand1 operand2 =
     (if op_type operand1 = X86_OP_MEM \<and> op_type operand2 = X86_OP_IMM
      then case GetOperandRva win64 operand2 (pe_image_base E) of
             Inl e \<Rightarrow> Inl e
           | Inr operand_rva \<Rightarrow>
               (case FromRva (pe_section_headers E) operand_rva of
                  Some dest_section \<Rightarrow> Inr True
                | None \<Rightarrow> Inr False)
      else Inr False)"

definition IsJumpTableX86 :: "bool \<Rightarrow> PeDisassemblyEngine \<Rightarrow> cs_insn \<Rightarrow> cs_x86_op \<Rightarrow> bool result" where
  "IsJumpTableX86 win64 E instruction operand =
     (if IsGuaranteedJump instruction \<or> insn_id instruction = X86_INS_MOV
      then if op_type operand = X86_OP_MEM \<and> scale (mem operand) = 4
           then case GetOperandRva win64 operand (pe_image_base E) of
                  Inl e \<Rightarrow> Inl e
                | Inr jump_table_rva \<Rightarrow>
                    Inr (IsRvaWithinSection (pe_text_section_header E) jump_table_rva)
           else Inr False
      else Inr False)"

text \<open>
  The 64-bit heuristic decodes the two instructions after the \<^verbatim>\<open>MOV\<close> into one buffer
  and does not test whether decoding worked. When the first decoding fails the buffer is
  fresh from \<^verbatim>\<open>cs_malloc\<close> and its \<^verbatim>\<open>id\<close> is indeterminate; when the second fails the
  buffer still names the \<^verbatim>\<open>ADD\<close>, which is no jump.
\<close>

definition IsJumpTableX64 ::
  "decoder \<Rightarrow> PeDisassemblyEngine \<Rightarrow> cs_insn \<Rightarrow> cs_x86_op \<Rightarrow> cs_x86_op \<Rightarrow> u64 \<Rightarrow> u64
     \<Rightarrow> bool result" where
  "IsJumpTableX64 dec E instruction operand1 operand2 code0 rva0 =
     (if insn_id instruction = X86_INS_MOV \<and> op_type operand1 = X86_OP_REG
         \<and> op_type operand2 = X86_OP_MEM \<and> scale (mem operand2) = 4
      then
        if \<not> code_buf_size E - current_code_index E > 0 then Inl AssertionFailed
        else
          case cs_disasm_iter dec (pe_image E)
                 (code0 + ucast (insn_size instruction),
                  code_buf_size E - current_code_index E,
                  rva0 + ucast (insn_size instruction)) of
            None \<Rightarrow> Inl UndefinedBehaviour
          | Some (instruction2, cur) \<Rightarrow>
              if insn_id instruction2 \<noteq> X86_INS_ADD then Inr False
              else if op_count (x86 (detail instruction2)) \<noteq> 2 then Inr False
              else if op_type (operands (x86 (detail instruction2)) 0) \<noteq> X86_OP_REG
                      \<or> op_type (operands (x86 (detail instruction2)) 1) \<noteq> X86_OP_REG
              then Inr False
              else
                let saved_add_operand1 = reg (operands (x86 (detail instruction2)) 0)
                in case cs_disasm_iter dec (pe_image E) cur of
                     None \<Rightarrow> Inr False
                   | Some (instruction3, _) \<Rightarrow>
                       Inr (IsGuaranteedJump instruction3
                            \<and> op_type (operands (x86 (detail instruction3)) 0) = X86_OP_REG
                            \<and> reg (operands (x86 (detail instruction3)) 0) = saved_add_operand1)
      else Inr False)"

definition IsJumpTable ::
  "bool \<Rightarrow> decoder \<Rightarrow> PeDisassemblyEngine \<Rightarrow> cs_insn \<Rightarrow> u64 \<Rightarrow> u64 \<Rightarrow> bool result" where
  "IsJumpTable win64 dec E instruction code0 rva0 =
     (let detail0 = x86 (detail instruction)
      in if win64
         then if op_count detail0 = 2
              then IsJumpTableX64 dec E instruction (operands detail0 0) (operands detail0 1)
                     code0 rva0
              else Inr False
         else if op_count detail0 = 1
              then IsJumpTableX86 win64 E instruction (operands detail0 0)
              else Inr False)"

text \<open>
  For a \<^verbatim>\<open>MOV\<close> the destination is found through its file offset in the image; for a
  push or a jump it is the code pointer of the instruction moved by the distance of the
  two RVAs, in the pointer width of the build.
\<close>

definition GetOperandDestinationValueDisassasemblyPoint ::
  "bool \<Rightarrow> PeDisassemblyEngine \<Rightarrow> cs_insn \<Rightarrow> u64 \<Rightarrow> u64 \<Rightarrow> DisassemblyPoint" where
  "GetOperandDestinationValueDisassasemblyPoint win64 E instruction instruction_code_ptr rva0 =
     (let operand_dest_rva = rva0;
          operand_dest_code =
            (if insn_id instruction = X86_INS_MOV
             then uptr win64 (RvaToFileOffset (pe_section_headers E) operand_dest_rva)
             else let dest_delta = operand_dest_rva - address instruction
                  in uptr win64 (instruction_code_ptr + dest_delta))
      in \<lparr>rva = operand_dest_rva, code = operand_dest_code\<rparr>)"

definition AddDisassemblyPoint :: "DisassemblyPoint \<Rightarrow> PeDisassemblyEngine \<Rightarrow> PeDisassemblyEngine" where
  "AddDisassemblyPoint disasm_point E =
     (if rva disasm_point \<in> disassembly_points_cache E then E
      else E\<lparr>disassembly_points := disassembly_points E @ [disasm_point],
             disassembly_points_cache := insert (rva disasm_point) (disassembly_points_cache E)\<rparr>)"

text \<open>
  The loop of \<^verbatim>\<open>ParseJumpTable\<close>; \<open>i\<close> is the byte offset into the table. It ends at an
  entry that is 0 or \<^verbatim>\<open>0xCCCCCCCC\<close> or does not point into \<^verbatim>\<open>.text\<close>, and gives back
  the \<open>i\<close> it ended at. A table that runs off the image is read outside the buffer.
\<close>

function ParseJumpTable_loop ::
  "bool \<Rightarrow> cs_insn \<Rightarrow> cs_x86_op \<Rightarrow> u64 \<Rightarrow> nat \<Rightarrow> PeDisassemblyEngine
     \<Rightarrow> (nat \<times> PeDisassemblyEngine) result" where
  "ParseJumpTable_loop win64 instruction operand operand_rva i E =
     (let jump_table_disasm_point =
            GetOperandDestinationValueDisassasemblyPoint win64 E instruction
              (current_instruction_code E) operand_rva
      in case FromRva (pe_section_headers E) (rva jump_table_disasm_point) of
           None \<Rightarrow> Inr (i, E)
         | Some jump_table_dest_section \<Rightarrow>
             if scale (mem operand) \<noteq> 4 then Inl AssertionFailed
             else
               case read_u32 (pe_image E) (unat (code jump_table_disasm_point) + i) of
                 None \<Rightarrow> Inl UndefinedBehaviour
               | Some item_dest_va \<Rightarrow>
                   if item_dest_va = 0xCCCCCCCC \<or> item_dest_va = 0 then Inr (i, E)
                   else
                     let item_dest_rva =
                           (if win64 then ucast item_dest_va
                            else uptr win64 (ucast item_dest_va - pe_image_base E))
                     in if \<not> IsRvaWithinSection (pe_text_section_header E) item_dest_rva
                        then Inr (i, E)
                        else
                          let item_dest_delta = item_dest_rva - address instruction;
                              item_dest_code =
                                uptr win64 (current_instruction_code E + item_dest_delta);
                              disasm_point = \<lparr>rva = item_dest_rva, code = item_dest_code\<rparr>
                          in ParseJumpTable_loop win64 instruction operand operand_rva
                               (i + nat (scale (mem operand)))
                               (AddDisassemblyPoint disasm_point E))"
  by pat_completeness auto
termination
  by (relation "measure (\<lambda>(w, ins, operand, operand_rva, i, E). length (pe_image E) - i)")
    (auto simp: AddDisassemblyPoint_def read_u32_def read_bytes_def split: if_splits)

declare ParseJumpTable_loop.simps [simp del]

definition ParseJumpTable ::
  "bool \<Rightarrow> PeDisassemblyEngine \<Rightarrow> cs_insn \<Rightarrow> cs_x86_op \<Rightarrow> PeDisassemblyEngine result" where
  "ParseJumpTable win64 E instruction operand =
     (if op_type operand \<noteq> X86_OP_MEM then Inl AssertionFailed
      else case GetOperandRva win64 operand (pe_image_base E) of
             Inl e \<Rightarrow> Inl e
           | Inr operand_rva \<Rightarrow>
               (case ParseJumpTable_loop win64 instruction operand operand_rva 0 E of
                  Inl e \<Rightarrow> Inl e
                | Inr (i, E') \<Rightarrow>
                    Inr (E'\<lparr>data_ranges := data_ranges E'
                            @ [\<lparr>begin_address = operand_rva,
                                end_address = uptr win64 (operand_rva + of_nat i)\<rparr>]\<rparr>)))"

definition IsAddressWithinDataSectionOfCode :: "PeDisassemblyEngine \<Rightarrow> u64 \<Rightarrow> bool" where
  "IsAddressWithinDataSectionOfCode E addr =
     list_ex (\<lambda>range. addr \<ge> begin_address range \<and> addr < end_address range) (data_ranges E)"

text \<open>
  The 32-bit prologue test. It decodes three instructions at the code pointer, follows a
  direct jump with the counter raised by one, and gives up once the counter is above 10.
  The operand fields are read without a test of the operand type, as the source does.
\<close>

function IsFunctionX86 ::
  "bool \<Rightarrow> decoder \<Rightarrow> PeDisassemblyEngine \<Rightarrow> u64 \<Rightarrow> u64 \<Rightarrow> nat \<Rightarrow> bool result" where
  "IsFunctionX86 win64 dec E code0 rva0 recursion_counter =
     (if recursion_counter > 10 then Inr False
      else if \<not> code_buf_size E - current_code_index E > 0 then Inl AssertionFailed
      else
        let instructions =
              cs_disasm dec (pe_image E)
                (code0, code_buf_size E - current_code_index E, rva0) 3
        in if length instructions \<noteq> 3 then Inr False
           else
             let instruction1 = instructions ! 0;
                 instruction2 = instructions ! 1
             in if IsGuaranteedJump instruction1
                then
                  let operand = operands (x86 (detail instruction1)) 0;
                      jump_target_rva = imm operand;
                      jump_dest_disasm_point =
                        GetOperandDestinationValueDisassasemblyPoint win64 E instruction1 code0
                          (uptr win64 jump_target_rva)
                  in if \<not> IsRvaWithinSection (pe_text_section_header E)
                             (rva jump_dest_disasm_point)
                     then Inr False
                     else IsFunctionX86 win64 dec E (code jump_dest_disasm_point)
                            (rva jump_dest_disasm_point) (recursion_counter + 1)
                else
                  let is_mov_edi_edi =
                        (insn_id instruction1 = X86_INS_MOV
                         \<and> op_count (x86 (detail instruction1)) = 2
                         \<and> reg (operands (x86 (detail instruction1)) 0) = X86_REG_EDI
                         \<and> reg (operands (x86 (detail instruction1)) 1) = X86_REG_EDI);
                      instruction1' = (if is_mov_edi_edi then instructions ! 1 else instruction1);
                      instruction2' = (if is_mov_edi_edi then instructions ! 2 else instruction2)
                  in if op_count (x86 (detail instruction1')) \<noteq> 1 then Inr False
                     else if insn_id instruction1' \<noteq> X86_INS_PUSH
                             \<or> reg (operands (x86 (detail instruction1')) 0) \<noteq> X86_REG_EBP
                     then Inr False
                     else if insn_id instruction2' \<noteq> X86_INS_MOV
                             \<or> op_count (x86 (detail instruction2')) \<noteq> 2
                     then Inr False
                     else if reg (operands (x86 (detail instruction2')) 0) \<noteq> X86_REG_EBP
                             \<or> reg (operands (x86 (detail instruction2')) 1) \<noteq> X86_REG_ESP
                     then Inr False
                     else Inr True)"
  by pat_completeness auto
termination
  by (relation "measure (\<lambda>(w, dec, E, code0, rva0, recursion_counter). 11 - recursion_counter)")
    auto

declare IsFunctionX86.simps [simp del]

text \<open>The lambda of the 64-bit test: is the instruction \<^verbatim>\<open>mov [rsp + disp], reg\<close>?\<close>

definition is_instruction_mov_rsp_plus_disp_reg :: "cs_insn \<Rightarrow> bool result" where
  "is_instruction_mov_rsp_plus_disp_reg instruction =
     (if insn_id instruction = X86_INS_MOV \<and> op_count (x86 (detail instruction)) = 2
      then
        let operand1 = operands (x86 (detail instruction)) 0
        in if op_type operand1 = X86_OP_MEM \<and> base (mem operand1) = X86_REG_RSP
           then if \<not> disp (mem operand1) \<noteq> 0 then Inl AssertionFailed
                else
                  let operand2 = operands (x86 (detail instruction)) 1
                  in if op_type operand2 = X86_OP_REG then Inr True else Inr False
           else Inr False
      else Inr False)"

text \<open>
  The loop over the \<^verbatim>\<open>MOV\<close>s that the first one announces: \<open>Inr None\<close> when the test
  has returned false inside the loop, \<open>Inr (Some cur)\<close> with the cursor when the loop is
  through.
\<close>

fun movs_in_order_loop :: "decoder \<Rightarrow> u8 list \<Rightarrow> nat \<Rightarrow> cursor \<Rightarrow> cursor option result" where
  "movs_in_order_loop dec img 0 cur = Inr (Some cur)"
| "movs_in_order_loop dec img (Suc n) cur =
     (case cs_disasm_iter dec img cur of
        None \<Rightarrow> Inr None
      | Some (instruction, cur') \<Rightarrow>
          (case is_instruction_mov_rsp_plus_disp_reg instruction of
             Inl e \<Rightarrow> Inl e
           | Inr is_mov \<Rightarrow>
               if \<not> is_mov then Inr None else movs_in_order_loop dec img n cur'))"

text \<open>The loop that looks for \<^verbatim>\<open>sub rsp, imm\<close> within the next instructions.\<close>

fun sub_rsp_loop :: "decoder \<Rightarrow> u8 list \<Rightarrow> nat \<Rightarrow> cursor \<Rightarrow> bool" where
  "sub_rsp_loop dec img 0 cur = False"
| "sub_rsp_loop dec img (Suc n) cur =
     (case cs_disasm_iter dec img cur of
        None \<Rightarrow> False
      | Some (instruction, cur') \<Rightarrow>
          if insn_id instruction = X86_INS_SUB
             \<and> op_count (x86 (detail instruction)) = 2
             \<and> op_type (operands (x86 (detail instruction)) 0) = X86_OP_REG
             \<and> reg (operands (x86 (detail instruction)) 0) = X86_REG_RSP
             \<and> op_type (operands (x86 (detail instruction)) 1) = X86_OP_IMM
          then True
          else sub_rsp_loop dec img n cur')"

text \<open>
  The part of \<^verbatim>\<open>IsFunctionX64\<close> after the jump test, on the first instruction decoded
  and the cursor behind it. The displacement is a signed 64-bit value; \<^verbatim>\<open>%\<close> and \<^verbatim>\<open>/\<close>
  truncate towards zero and the count is cast to 32 bits.
\<close>

definition IsFunctionX64_prologue :: "decoder \<Rightarrow> u8 list \<Rightarrow> cs_insn \<Rightarrow> cursor \<Rightarrow> bool result" where
  "IsFunctionX64_prologue dec img instruction cur =
     (case is_instruction_mov_rsp_plus_disp_reg instruction of
        Inl e \<Rightarrow> Inl e
      | Inr is_mov \<Rightarrow>
          if \<not> is_mov then Inr False
          else
            let op1_value = sint (disp (mem (operands (x86 (detail instruction)) 0)))
            in if op1_value smod 8 = 0
               then
                 let total_movs_in_order = (word_of_int (op1_value sdiv 8 - 1) :: u32)
                 in case movs_in_order_loop dec img (unat total_movs_in_order) cur of
                      Inl e \<Rightarrow> Inl e
                    | Inr None \<Rightarrow> Inr False
                    | Inr (Some cur') \<Rightarrow> Inr (sub_rsp_loop dec img 10 cur')
               else Inr False)"

text \<open>
  The 64-bit prologue test. It follows a direct jump by calling itself, and nothing
  counts the calls: where it does not return, its value is \<open>None\<close>.
\<close>

partial_function (option) IsFunctionX64 ::
  "bool \<Rightarrow> decoder \<Rightarrow> PeDisassemblyEngine \<Rightarrow> u64 \<Rightarrow> u64 \<Rightarrow> bool result option" where
  "IsFunctionX64 win64 dec E code0 rva0 =
     (if \<not> code_buf_size E - current_code_index E > 0 then Some (Inl AssertionFailed)
      else
        case cs_disasm_iter dec (pe_image E)
               (code0, code_buf_size E - current_code_index E, rva0) of
          None \<Rightarrow> Some (Inr False)
        | Some (instruction, cur) \<Rightarrow>
            if IsGuaranteedJump instruction
            then
              let operand = operands (x86 (detail instruction)) 0;
                  jump_target_rva = imm operand;
                  jump_dest_disasm_point =
                    GetOperandDestinationValueDisassasemblyPoint win64 E instruction code0
                      (uptr win64 jump_target_rva)
              in if \<not> IsRvaWithinSection (pe_text_section_header E)
                         (rva jump_dest_disasm_point)
                 then Some (Inr False)
                 else IsFunctionX64 win64 dec E (code jump_dest_disasm_point)
                        (rva jump_dest_disasm_point)
            else Some (IsFunctionX64_prologue dec (pe_image E) instruction cur))"

declare IsFunctionX64.simps [code]

definition IsFunction ::
  "bool \<Rightarrow> decoder \<Rightarrow> PeDisassemblyEngine \<Rightarrow> u64 \<Rightarrow> u64 \<Rightarrow> bool result option" where
  "IsFunction win64 dec E code0 rva0 =
     (if win64 then IsFunctionX64 win64 dec E code0 rva0
      else Some (IsFunctionX86 win64 dec E code0 rva0 0))"

text \<open>
  \<^verbatim>\<open>ParseInstruction\<close>: what to do after the instruction, and the engine with the
  disassembly points and data ranges it has added.
\<close>

definition ParseInstruction ::
  "bool \<Rightarrow> decoder \<Rightarrow> PeDisassemblyEngine \<Rightarrow> cs_insn
     \<Rightarrow> (DisassemblyAction \<times> PeDisassemblyEngine) result option" where
  "ParseInstruction win64 dec E instruction =
     (let is_ret = cs_insn_group instruction CS_GRP_RET;
          is_interrupt = cs_insn_group instruction CS_GRP_INT;
          is_jump = cs_insn_group instruction CS_GRP_JUMP;
          is_call = cs_insn_group instruction CS_GRP_CALL;
          ins_detail = x86 (detail instruction)
      in if is_ret then Some (Inr (NextDisassemblyPoint, E))
         else if is_call \<or> is_jump
         then
           if op_count ins_detail = 1
           then
             let operand = operands ins_detail 0
             in if op_type operand = X86_OP_IMM
                then
                  let dest_delta = imm operand - address instruction;
                      instruction_code_ptr = code_ptr E - ucast (insn_size instruction);
                      disasm_point =
                        \<lparr>rva = uptr win64 (address instruction + dest_delta),
                         code = uptr win64 (instruction_code_ptr + dest_delta)\<rparr>;
                      E' = AddDisassemblyPoint disasm_point E
                  in if IsGuaranteedJump instruction
                     then Some (Inr (NextDisassemblyPoint, E'))
                     else Some (Inr (NextInstruction, E'))
                else
                  case IsJumpTable win64 dec E instruction (current_instruction_code E)
                         (address instruction) of
                    Inl e \<Rightarrow> Some (Inl e)
                  | Inr is_jump_table \<Rightarrow>
                      if is_jump_table
                      then case ParseJumpTable win64 E instruction operand of
                             Inl e \<Rightarrow> Some (Inl e)
                           | Inr E' \<Rightarrow> Some (Inr (NextDisassemblyPoint, E'))
                      else if IsGuaranteedJump instruction
                      then Some (Inr (NextDisassemblyPoint, E))
                      else Some (Inr (NextInstruction, E))
           else Some (Inr (NextDisassemblyPoint, E))
         else if is_interrupt then Some (Inr (NextDisassemblyPoint, E))
         else
           case insn_id instruction of
             X86_INS_MOV \<Rightarrow>
               if op_count ins_detail = 2
               then
                 let operand1 = operands ins_detail 0;
                     operand2 = operands ins_detail 1
                 in case IsJumpTable win64 dec E instruction (current_instruction_code E)
                           (address instruction) of
                      Inl e \<Rightarrow> Some (Inl e)
                    | Inr is_jump_table \<Rightarrow>
                        if is_jump_table
                        then if \<not> win64 then Some (Inl AssertionFailed)
                             else case ParseJumpTable win64 E instruction operand2 of
                                    Inl e \<Rightarrow> Some (Inl e)
                                  | Inr E' \<Rightarrow> Some (Inr (NextDisassemblyPoint, E'))
                        else
                          case IsVTableOrFunction win64 E operand1 operand2 of
                            Inl e \<Rightarrow> Some (Inl e)
                          | Inr is_vtable_or_function \<Rightarrow>
                              if is_vtable_or_function
                              then
                                case GetOperandRva win64 operand2 (pe_image_base E) of
                                  Inl e \<Rightarrow> Some (Inl e)
                                | Inr operand_rva \<Rightarrow>
                                    let dest_disasm_point =
                                          GetOperandDestinationValueDisassasemblyPoint win64 E
                                            instruction (current_instruction_code E) operand_rva
                                    in if IsRvaWithinSection (pe_text_section_header E)
                                            (rva dest_disasm_point)
                                       then
                                         Option.bind
                                           (IsFunction win64 dec E (code dest_disasm_point)
                                              (rva dest_disasm_point))
                                           (\<lambda>r. case r of
                                                   Inl e \<Rightarrow> Some (Inl e)
                                                 | Inr is_function \<Rightarrow>
                                                     if is_function
                                                     then Some (Inr (NextInstruction,
                                                            AddDisassemblyPoint dest_disasm_point E))
                                                     else Some (Inr (NextInstruction, E)))
                                       else Some (Inr (NextInstruction, E))
                              else Some (Inr (NextInstruction, E))
               else Some (Inr (NextInstruction, E))
           | X86_INS_PUSH \<Rightarrow>
               let operand = operands ins_detail 0
               in if op_type operand = X86_OP_IMM
                  then
                    case GetOperandRva win64 operand (pe_image_base E) of
                      Inl e \<Rightarrow> Some (Inl e)
                    | Inr operand_rva \<Rightarrow>
                        if IsRvaWithinSection (pe_text_section_header E) operand_rva
                        then
                          let dest_disasm =
                                GetOperandDestinationValueDisassasemblyPoint win64 E instruction
                                  (current_instruction_code E) operand_rva
                          in Option.bind
                               (IsFunction win64 dec E (code dest_disasm) (rva dest_disasm))
                               (\<lambda>r. case r of
                                       Inl e \<Rightarrow> Some (Inl e)
                                     | Inr is_function \<Rightarrow>
                                         if is_function
                                         then Some (Inr (NextInstruction,
                                                AddDisassemblyPoint dest_disasm E))
                                         else Some (Inr (NextInstruction, E)))
                        else Some (Inr (NextInstruction, E))
                  else Some (Inr (NextInstruction, E))
           | _ \<Rightarrow> Some (Inr (NextInstruction, E)))"

definition ContinueFromRedirectionInstructions ::
  "PeDisassemblyEngine \<Rightarrow> bool \<times> PeDisassemblyEngine" where
  "ContinueFromRedirectionInstructions E =
     (if length (disassembly_points E) \<le> 0 then (False, E)
      else
        let next_disasm_point = last (disassembly_points E)
        in (True, E\<lparr>code_ptr := code next_disasm_point, address_rva := rva next_disasm_point,
                    disassembly_points := butlast (disassembly_points E)\<rparr>))"

text \<open>
  The scan of \<^verbatim>\<open>.rdata\<close> for function pointers. The index \<open>i\<close> is a 32-bit unsigned
  value that grows by the size of a pointer; a slot outside the image is read outside
  the buffer. Where the loop or a prologue test in it does not return, the value is
  \<open>None\<close>.
\<close>

partial_function (option) ParseRDataSection_loop ::
  "bool \<Rightarrow> decoder \<Rightarrow> IMAGE_SECTION_HEADER \<Rightarrow> u32 \<Rightarrow> PeDisassemblyEngine
     \<Rightarrow> PeDisassemblyEngine result option" where
  "ParseRDataSection_loop win64 dec rdata_section_header i E =
     (if i < SizeOfRawData rdata_section_header
      then
        let raw_file_data = PointerToRawData rdata_section_header + i
        in case read_uintptr win64 (pe_image E) (unat raw_file_data) of
             None \<Rightarrow> Some (Inl UndefinedBehaviour)
           | Some raw_file_data_value \<Rightarrow>
               if raw_file_data_value = 0
               then ParseRDataSection_loop win64 dec rdata_section_header
                      (i + of_nat (sizeof_uintptr win64)) E
               else
                 let possible_function_pointer_rva =
                       uptr win64 (raw_file_data_value - pe_image_base E)
                 in if IsRvaWithinSection (pe_text_section_header E) possible_function_pointer_rva
                    then
                      let possible_function_pointer_offset =
                            RvaToFileOffset (pe_section_headers E) possible_function_pointer_rva
                      in if possible_function_pointer_offset = 0
                         then ParseRDataSection_loop win64 dec rdata_section_header
                                (i + of_nat (sizeof_uintptr win64)) E
                         else
                           let possible_function_pointer_code =
                                 uptr win64 possible_function_pointer_offset
                           in Option.bind
                                (IsFunction win64 dec E possible_function_pointer_code
                                   possible_function_pointer_rva)
                                (\<lambda>r. case r of
                                        Inl e \<Rightarrow> Some (Inl e)
                                      | Inr is_function \<Rightarrow>
                                          if is_function
                                          then ParseRDataSection_loop win64 dec rdata_section_header
                                                 (i + of_nat (sizeof_uintptr win64))
                                                 (AddDisassemblyPoint
                                                    \<lparr>rva = possible_function_pointer_rva,
                                                     code = possible_function_pointer_code\<rparr> E)
                                          else ParseRDataSection_loop win64 dec rdata_section_header
                                                 (i + of_nat (sizeof_uintptr win64)) E)
                    else ParseRDataSection_loop win64 dec rdata_section_header
                           (i + of_nat (sizeof_uintptr win64)) E
      else Some (Inr E))"

declare ParseRDataSection_loop.simps [code]

definition ParseRDataSection ::
  "bool \<Rightarrow> decoder \<Rightarrow> PeDisassemblyEngine \<Rightarrow> PeDisassemblyEngine result option" where
  "ParseRDataSection win64 dec E =
     (case FromName (pe_section_headers E) ''.rdata'' of
        None \<Rightarrow> Some (Inl (RuntimeError ''.rdata was not found''))
      | Some rdata_section_header \<Rightarrow> ParseRDataSection_loop win64 dec rdata_section_header 0 E)"

section \<open>Scenario S1: a minimal jump table on the 32-bit build\<close>

text \<open>
  An image with base \<open>0x400000\<close> whose \<^verbatim>\<open>.text\<close> lies at RVA \<open>0x1000\<close> and file offset
  \<open>0x400\<close>. It starts with \<^verbatim>\<open>FF 24 85 20 10 40 00\<close> (\<^verbatim>\<open>JMP [eax*4+0x401020]\<close>); at RVA
  \<open>0x1020\<close> stand the three DWORDs \<open>0x00401030\<close>, \<open>0x00401040\<close> and \<open>0\<close>; the rest is
  \<^verbatim>\<open>int3\<close> padding.
\<close>

definition s1_text_header :: IMAGE_SECTION_HEADER where
  "s1_text_header =
     \<lparr>Name = ''.text'', VirtualSize = 0x200, VirtualAddress = 0x1000,
      SizeOfRawData = 0x200, PointerToRawData = 0x400\<rparr>"

definition s1_image :: "u8 list" where
  "s1_image =
     replicate 0x400 0
     @ [0xFF, 0x24, 0x85, 0x20, 0x10, 0x40, 0x00] @ replicate 25 0xCC
     @ [0x30, 0x10, 0x40, 0x00, 0x40, 0x10, 0x40, 0x00, 0x00, 0x00, 0x00, 0x00]
     @ replicate 468 0xCC"

definition blank_operand :: cs_x86_op where
  "blank_operand =
     \<lparr>op_type = X86_OP_INVALID, reg = X86_REG_INVALID, imm = 0,
      mem = \<lparr>segment = X86_REG_INVALID, base = X86_REG_INVALID, index = X86_REG_INVALID,
             scale = 0, disp = 0\<rparr>\<rparr>"

text \<open>The instruction as the decoder reports it: one memory operand, scale 4.\<close>

definition s1_jmp :: cs_insn where
  "s1_jmp =
     \<lparr>insn_id = X86_INS_JMP, address = 0x1000, insn_size = 7,
      detail =
        \<lparr>groups = [CS_GRP_JUMP],
         x86 = \<lparr>op_count = 1,
                operands = (\<lambda>_. blank_operand)
                  (0 := blank_operand
                     \<lparr>op_type := X86_OP_MEM,
                      mem := \<lparr>segment = X86_REG_INVALID, base = X86_REG_INVALID,
                              index = X86_REG_EAX, scale = 4, disp = 0x401020\<rparr>\<rparr>),
                eflags = 0\<rparr>\<rparr>\<rparr>"

text \<open>The engine right after it has decoded that instruction at the start of \<^verbatim>\<open>.text\<close>.\<close>

definition s1_engine :: PeDisassemblyEngine where
  "s1_engine =
     \<lparr>pe_image = s1_image, pe_section_headers = [s1_text_header],
      pe_text_section_header = s1_text_header, pe_image_base = 0x400000,
      code_ptr = 0x407, current_code_index = 7, current_instruction_code = 0x400,
      code_buf_size = 0x200, address_rva = 0x1007,
      disassembly_points = [], disassembly_points_cache = {}, data_ranges = []\<rparr>"

section \<open>A decoder for the scenarios\<close>

text \<open>
  The scenarios need a decoder to run on. This one knows the few encodings their code
  uses and reports them as the decoder library does: \<^verbatim>\<open>55\<close> (\<^verbatim>\<open>PUSH EBP\<close>), \<^verbatim>\<open>8B EC\<close>
  (\<^verbatim>\<open>MOV EBP, ESP\<close>), \<^verbatim>\<open>8B FF\<close> (\<^verbatim>\<open>MOV EDI, EDI\<close>), \<^verbatim>\<open>C3\<close> (\<^verbatim>\<open>RET\<close>) and \<^verbatim>\<open>EB rel8\<close>
  (\<^verbatim>\<open>JMP\<close> to the address behind the instruction plus the signed displacement).
\<close>

definition reg_operand :: "x86_reg \<Rightarrow> cs_x86_op" where
  "reg_operand r = blank_operand\<lparr>op_type := X86_OP_REG, reg := r\<rparr>"

definition imm_operand :: "u64 \<Rightarrow> cs_x86_op" where
  "imm_operand v = blank_operand\<lparr>op_type := X86_OP_IMM, imm := v\<rparr>"

definition mem_operand :: "x86_reg \<Rightarrow> x86_reg \<Rightarrow> int \<Rightarrow> u64 \<Rightarrow> cs_x86_op" where
  "mem_operand b i s d =
     blank_operand\<lparr>op_type := X86_OP_MEM,
       mem := \<lparr>segment = X86_REG_INVALID, base = b, index = i, scale = s, disp = d\<rparr>\<rparr>"

definition mk_insn ::
  "x86_insn \<Rightarrow> u64 \<Rightarrow> u16 \<Rightarrow> cs_group_type list \<Rightarrow> cs_x86_op list \<Rightarrow> cs_insn" where
  "mk_insn i a s gs ops =
     \<lparr>insn_id = i, address = a, insn_size = s,
      detail = \<lparr>groups = gs,
                x86 = \<lparr>op_count = of_nat (length ops),
                       operands = (\<lambda>k. if k < length ops then ops ! k else blank_operand),
                       eflags = 0\<rparr>\<rparr>\<rparr>"

definition tiny_decode :: decoder where
  "tiny_decode bs a =
     (case bs of
        [] \<Rightarrow> None
      | b0 # rest \<Rightarrow>
          if b0 = 0x55 then Some (mk_insn X86_INS_PUSH a 1 [] [reg_operand X86_REG_EBP])
          else if b0 = 0xC3 then Some (mk_insn (X86_INS_OTHER 0) a 1 [CS_GRP_RET] [])
          else
            (case rest of
               [] \<Rightarrow> None
             | b1 # _ \<Rightarrow>
                 if b0 = 0x8B \<and> b1 = 0xEC
                 then Some (mk_insn X86_INS_MOV a 2 []
                              [reg_operand X86_REG_EBP, reg_operand X86_REG_ESP])
                 else if b0 = 0x8B \<and> b1 = 0xFF
                 then Some (mk_insn X86_INS_MOV a 2 []
                              [reg_operand X86_REG_EDI, reg_operand X86_REG_EDI])
                 else if b0 = 0xEB
                 then Some (mk_insn X86_INS_JMP a 2 [CS_GRP_JUMP]
                              [imm_operand (a + 2 + scast b1)])
                 else None))"

section \<open>Scenario: immediates that point at a function\<close>

text \<open>
  The same layout as S1 (\<^verbatim>\<open>.text\<close> at RVA \<open>0x1000\<close>, file offset \<open>0x400\<close>, image base
  \<open>0x400000\<close>). At RVA \<open>0x1000\<close> stands \<^verbatim>\<open>MOV DWORD PTR [0x402000], 0x401030\<close>, at
  \<open>0x1010\<close> \<^verbatim>\<open>MOV EAX, 0x401030\<close>, and at \<open>0x1030\<close> a function:
  \<^verbatim>\<open>PUSH EBP; MOV EBP, ESP; RET\<close>.
\<close>

definition fp_image :: "u8 list" where
  "fp_image =
     replicate 0x400 0
     @ [0xC7, 0x05, 0x00, 0x20, 0x40, 0x00, 0x30, 0x10, 0x40, 0x00] @ replicate 6 0xCC
     @ [0xB8, 0x30, 0x10, 0x40, 0x00] @ replicate 27 0xCC
     @ [0x55, 0x8B, 0xEC, 0xC3]
     @ replicate 460 0xCC"

definition fp_mov_mem_imm :: cs_insn where
  "fp_mov_mem_imm =
     mk_insn X86_INS_MOV 0x1000 10 []
       [mem_operand X86_REG_INVALID X86_REG_INVALID 1 0x402000, imm_operand 0x401030]"

definition fp_mov_reg_imm :: cs_insn where
  "fp_mov_reg_imm =
     mk_insn X86_INS_MOV 0x1010 5 [] [reg_operand X86_REG_EAX, imm_operand 0x401030]"

text \<open>The engine behind the first and behind the second of the two instructions.\<close>

definition fp_engine :: "u64 \<Rightarrow> u64 \<Rightarrow> PeDisassemblyEngine" where
  "fp_engine ins_offset ins_len =
     \<lparr>pe_image = fp_image, pe_section_headers = [s1_text_header],
      pe_text_section_header = s1_text_header, pe_image_base = 0x400000,
      code_ptr = 0x400 + ins_offset + ins_len, current_code_index = ins_offset + ins_len,
      current_instruction_code = 0x400 + ins_offset,
      code_buf_size = 0x200, address_rva = 0x1000 + ins_offset + ins_len,
      disassembly_points = [], disassembly_points_cache = {}, data_ranges = []\<rparr>"

section \<open>Scenario: a jump to itself\<close>

text \<open>
  An image whose \<^verbatim>\<open>.text\<close> (RVA \<open>0x1000\<close>, file offset \<open>0x400\<close>) starts with \<^verbatim>\<open>EB FE\<close>, a
  \<^verbatim>\<open>JMP\<close> to its own address, followed by \<^verbatim>\<open>PUSH EBP; RET\<close>.
\<close>

definition sj_image :: "u8 list" where
  "sj_image = replicate 0x400 0 @ [0xEB, 0xFE, 0x55, 0xC3] @ replicate 508 0xCC"

definition sj_engine :: PeDisassemblyEngine where
  "sj_engine =
     \<lparr>pe_image = sj_image, pe_section_headers = [s1_text_header],
      pe_text_section_header = s1_text_header, pe_image_base = 0x140000000,
      code_ptr = 0x400, current_code_index = 0, current_instruction_code = 0x400,
      code_buf_size = 0x200, address_rva = 0x1000,
      disassembly_points = [], disassembly_points_cache = {}, data_ranges = []\<rparr>"

section \<open>The protector\<close>

record FixupContext =
  relocation_rvas_to_remove :: "u64 list"
  vm_section_offsets_to_add_to_relocation_table :: "u64 list"
  virtualized_code_section_offsets_to_add_to_relocation_table :: "u64 list"
  fixups :: "Fixup list"

record ProtectorContext =
  vm_loader_section :: Section
  virtualized_code_section :: Section
  new_text_section :: Section
  fixup_context :: FixupContext

text \<open>
  The virtualizer and its loader shellcode are outside the program (virtualizer/ and
  utils/shellcode.h are not among the sources): they are parameters. \<open>'sc\<close> is the type of
  a shellcode, with its buffer, the offsets of its named variables and the patching of a
  variable with the bytes of a value.
\<close>

record 'sc virtualizer =
  GetVmOpcode :: "cs_insn \<Rightarrow> nat"
  IsVirtualizeable :: "cs_insn \<Rightarrow> nat \<Rightarrow> bool"
  CreateVirtualizedShellcode :: "cs_insn \<Rightarrow> nat \<Rightarrow> u32 \<Rightarrow> u64 list \<Rightarrow> u8 list"
  GetLoaderShellcodeForVirtualizedCode :: "cs_insn \<Rightarrow> nat \<Rightarrow> u64 \<Rightarrow> 'sc"
  GetBuffer :: "'sc \<Rightarrow> u8 list"
  GetNamedValueOffset :: "'sc \<Rightarrow> string \<Rightarrow> u64"
  ModifyVariable :: "string \<Rightarrow> u8 list \<Rightarrow> 'sc \<Rightarrow> 'sc"

text \<open>
  Modelled from the spec: the names of the patch sites of the loader shellcode (declared
  in Interpreter/src/main.h, not among the sources).
\<close>

definition VmCodeAddrVariable :: string where "VmCodeAddrVariable = ''VmCodeAddr''"
definition OrigAddrVariable :: string where "OrigAddrVariable = ''OrigAddr''"
definition VmCoreFunctionVariable :: string where "VmCoreFunctionVariable = ''VmCoreFunction''"
definition ImageBaseVariable :: string where "ImageBaseVariable = ''ImageBase''"
definition VmOpcodeEncryptionKeyVariable :: string where
  "VmOpcodeEncryptionKeyVariable = ''VmOpcodeEncryptionKey''"

text \<open>
  What the random source yields during one call of the callback: the encryption key
  (\<^verbatim>\<open>RandomU32(1000, 10000000)\<close>) and the byte written over the \<open>i\<close>-th byte of the
  instruction (\<^verbatim>\<open>RandomU8()\<close>).
\<close>

record draws =
  key_draw :: u32
  fill_draw :: "nat \<Rightarrow> u8"

text \<open>What the two callbacks capture from \<^verbatim>\<open>Protect\<close> and do not change.\<close>

record protect_env =
  original_pe_nt_headers :: IMAGE_NT_HEADERS
  original_text_section_header :: IMAGE_SECTION_HEADER
  original_text_section_copy :: Section
  original_pe_relocation_rvas :: "u64 list"
  interpreter_function_offset :: u32

text \<open>What they change: the context and the two counters.\<close>

record protect_state =
  protector_context :: ProtectorContext
  total_virtualized_instructions :: u32
  total_disassembled_instructions :: u32

definition kCallInstructionSize :: u64 where "kCallInstructionSize = 5"
definition kJmpInstructionSize :: u32 where "kJmpInstructionSize = 5"
definition kJmpOpcode :: u8 where "kJmpOpcode = 0xE9"

definition eflags_message :: string where
  "eflags_message = ''An instruction changing eflags was found, not supported at the moment''"

definition EachInstructionCallback ::
  "bool \<Rightarrow> 'sc virtualizer \<Rightarrow> protect_env \<Rightarrow> draws \<Rightarrow> cs_insn \<Rightarrow> protect_state
     \<Rightarrow> protect_state result" where
  "EachInstructionCallback win64 V env rnd instruction st =
     (let vm_opcode = GetVmOpcode V instruction;
          counted = st\<lparr>total_disassembled_instructions := total_disassembled_instructions st + 1\<rparr>
      in if IsVirtualizeable V instruction vm_opcode
         then
           if eflags (x86 (detail instruction)) \<noteq> 0 then Inl (RuntimeError eflags_message)
           else
             let ctx = protector_context st;
                 nt = original_pe_nt_headers env;
                 relocations_rva_within_instruction =
                   GetRelocationsWithinInstruction instruction (original_pe_relocation_rvas env);
                 vm_opcode_encyption_key = key_draw rnd;
                 virtualized_shellcode =
                   CreateVirtualizedShellcode V instruction vm_opcode vm_opcode_encyption_key
                     relocations_rva_within_instruction;
                 created_vm_code = length virtualized_shellcode > 0
             in if created_vm_code
                then
                  let (virtualized_code_offset, virtualized_code_section') =
                        AppendCode virtualized_shellcode (SectionAlignment nt) (FileAlignment nt)
                          (virtualized_code_section ctx);
                      sc0 = GetLoaderShellcodeForVirtualizedCode V instruction vm_opcode
                              (ImageBase nt);
                      sc1 = ModifyVariable V VmOpcodeEncryptionKeyVariable
                              (le32 vm_opcode_encyption_key) sc0;
                      sc2 = ModifyVariable V VmCodeAddrVariable
                              (uintptr_bytes win64 virtualized_code_offset) sc1;
                      loader_shellcode_offset_before = GetCurrentOffset (vm_loader_section ctx);
                      vm_core_function_shellcode_offset =
                        GetNamedValueOffset V sc2 VmCoreFunctionVariable;
                      sc3 = ModifyVariable V VmCoreFunctionVariable
                              (le32 (ucast (ucast (interpreter_function_offset env)
                                 - loader_shellcode_offset_before - kCallInstructionSize
                                 - vm_core_function_shellcode_offset + 1)))
                              sc2;
                      orig_addr_value_offset = GetNamedValueOffset V sc3 OrigAddrVariable;
                      destination =
                        (ucast (address instruction + ucast (insn_size instruction)) :: u32);
                      origin =
                        (ucast (loader_shellcode_offset_before + orig_addr_value_offset) :: u32);
                      sc4 = ModifyVariable V OrigAddrVariable
                              (le32 (destination - origin - kJmpInstructionSize + 1)) sc3;
                      (loader_shellcode_offset, vm_loader_section') =
                        AppendCode (GetBuffer V sc4) (SectionAlignment nt) (FileAlignment nt)
                          (vm_loader_section ctx);
                      jmp_back_addr_fixup =
                        \<lparr>offset = loader_shellcode_offset + orig_addr_value_offset,
                         desc = \<lparr>offset_type = VmLoaderSection, fixup_size = 4,
                                 operation = SubtractVmLoaderSectionVirtualAddress\<rparr>\<rparr>;
                      vm_code_addr_offset =
                        loader_shellcode_offset + GetNamedValueOffset V sc4 VmCodeAddrVariable;
                      virtualized_code_addr_fixup =
                        \<lparr>offset = vm_code_addr_offset,
                         desc = \<lparr>offset_type = VmLoaderSection, fixup_size = 4,
                                 operation = AddVirtualizedCodeSectionVirtualAddress\<rparr>\<rparr>;
                      vm_var_section_shellcode_offset =
                        GetNamedValueOffset V sc4 ImageBaseVariable;
                      instruction_text_section_offset =
                        RvaToSectionOffset (original_text_section_header env)
                          (ucast (ucast (address instruction) :: u32));
                      first = unat instruction_text_section_offset;
                      text_section_data = sec_data (new_text_section ctx);
                      jmp_addr_offset = instruction_text_section_offset + 1;
                      jmp_destination =
                        (ucast (loader_shellcode_offset - address instruction) :: u32)
                          - kJmpInstructionSize;
                      jmp_to_vm_loader_fixup =
                        \<lparr>offset = jmp_addr_offset,
                         desc = \<lparr>offset_type = TextSection, fixup_size = 4,
                                 operation = AddVmLoaderSectionVirtualAddress\<rparr>\<rparr>
                  in case write_bytes text_section_data first
                            (map (fill_draw rnd) [0..<unat (insn_size instruction)]) of
                       None \<Rightarrow> Inl UndefinedBehaviour
                     | Some filled \<Rightarrow>
                         (case write_bytes filled first [kJmpOpcode] of
                            None \<Rightarrow> Inl UndefinedBehaviour
                          | Some opcode_written \<Rightarrow>
                              (case write_bytes opcode_written (unat jmp_addr_offset)
                                      (le32 jmp_destination) of
                                 None \<Rightarrow> Inl UndefinedBehaviour
                               | Some patched \<Rightarrow>
                                   let fc = fixup_context ctx;
                                       fc' = fc
                                         \<lparr>fixups := fixups fc
                                            @ [jmp_back_addr_fixup, virtualized_code_addr_fixup,
                                               jmp_to_vm_loader_fixup],
                                          vm_section_offsets_to_add_to_relocation_table :=
                                            vm_section_offsets_to_add_to_relocation_table fc
                                            @ [loader_shellcode_offset
                                                 + vm_var_section_shellcode_offset],
                                          relocation_rvas_to_remove :=
                                            relocation_rvas_to_remove fc
                                            @ relocations_rva_within_instruction\<rparr>;
                                       ctx' = ctx
                                         \<lparr>virtualized_code_section := virtualized_code_section',
                                          vm_loader_section := vm_loader_section',
                                          new_text_section :=
                                            (new_text_section ctx)\<lparr>sec_data := patched\<rparr>,
                                          fixup_context := fc'\<rparr>
                                   in Inr (counted
                                        \<lparr>protector_context := ctx',
                                         total_virtualized_instructions :=
                                           total_virtualized_instructions st + 1\<rparr>)))
                else Inr counted
         else Inr counted)"

text \<open>The size of the instruction as the engine hands it to the rollback callback.\<close>

record SmallInstructionData =
  instruction_size :: u16

text \<open>
  The rollback callback: it copies the original bytes of the instruction back into the
  new text section and takes the relocations inside the instruction out of the remove
  list, the first occurrence of each (\<^verbatim>\<open>std::find\<close> and \<^verbatim>\<open>erase\<close>). It touches nothing
  else of the context.
\<close>

definition InvalidInstructionCallback ::
  "protect_env \<Rightarrow> u64 \<Rightarrow> SmallInstructionData \<Rightarrow> protect_state \<Rightarrow> protect_state result" where
  "InvalidInstructionCallback env address0 ins_data st =
     (let ctx = protector_context st;
          text_section_offset =
            unat (RvaToSectionOffset (original_text_section_header env) address0);
          text_section_data = sec_data (new_text_section ctx);
          original_pe_text_section_data = sec_data (original_text_section_copy env)
      in case read_bytes original_pe_text_section_data text_section_offset
                (unat (instruction_size ins_data)) of
           None \<Rightarrow> Inl UndefinedBehaviour
         | Some original_bytes \<Rightarrow>
             (case write_bytes text_section_data text_section_offset original_bytes of
                None \<Rightarrow> Inl UndefinedBehaviour
              | Some restored \<Rightarrow>
                  let temp = temp_instruction address0 (instruction_size ins_data);
                      relocations_rva_within_instruction =
                        GetRelocationsWithinInstruction temp (original_pe_relocation_rvas env);
                      fc = fixup_context ctx;
                      fc' = fc\<lparr>relocation_rvas_to_remove :=
                               foldl (\<lambda>to_remove reloc_rva. remove1 reloc_rva to_remove)
                                 (relocation_rvas_to_remove fc)
                                 relocations_rva_within_instruction\<rparr>
                  in Inr (st\<lparr>protector_context := ctx
                            \<lparr>new_text_section := (new_text_section ctx)\<lparr>sec_data := restored\<rparr>,
                             fixup_context := fc'\<rparr>\<rparr>)))"

section \<open>Applying the fixups\<close>

text \<open>
  The image that \<^verbatim>\<open>FixFinishedPe\<close> works on: its bytes and its section headers. The names
  of the two appended sections are macros of Interpreter/src/main.h, not among the
  sources; they are parameters.
\<close>

record PortableExecutable =
  pe_bytes :: "u8 list"
  pe_headers :: "IMAGE_SECTION_HEADER list"

record section_names =
  VM_LOADER_SECTION_NAME :: string
  VM_CODE_SECTION_NAME :: string

text \<open>The first switch of the loop: the file offset the fixup names.\<close>

definition fixup_file_offset ::
  "section_names \<Rightarrow> IMAGE_SECTION_HEADER list \<Rightarrow> IMAGE_SECTION_HEADER \<Rightarrow> Fixup \<Rightarrow> u64 result" where
  "fixup_file_offset names hs text_section fixup =
     (case offset_type (desc fixup) of
        VmLoaderSection \<Rightarrow>
          (case FromName hs (VM_LOADER_SECTION_NAME names) of
             None \<Rightarrow> Inl UndefinedBehaviour
           | Some s \<Rightarrow> Inr (RvaToFileOffset hs (SectionOffsetToRva s (offset fixup))))
      | TextSection \<Rightarrow> Inr (RvaToFileOffset hs (SectionOffsetToRva text_section (offset fixup)))
      | RelocSection \<Rightarrow>
          (case FromName hs ''.reloc'' of
             None \<Rightarrow> Inl UndefinedBehaviour
           | Some s \<Rightarrow> Inr (RvaToFileOffset hs (SectionOffsetToRva s (offset fixup))))
      | VirtualizedCodeSection \<Rightarrow>
          (case FromName hs (VM_CODE_SECTION_NAME names) of
             None \<Rightarrow> Inl UndefinedBehaviour
           | Some s \<Rightarrow> Inr (RvaToFileOffset hs (SectionOffsetToRva s (offset fixup))))
      | Beginning \<Rightarrow> Inr (offset fixup))"

text \<open>The section whose virtual address the operation adds or subtracts.\<close>

definition fixup_operand ::
  "section_names \<Rightarrow> IMAGE_SECTION_HEADER list \<Rightarrow> FixupOperation \<Rightarrow> u32 result" where
  "fixup_operand names hs fop =
     (case FromName hs (case fop of
                          AddVirtualizedCodeSectionVirtualAddress \<Rightarrow> VM_CODE_SECTION_NAME names
                        | _ \<Rightarrow> VM_LOADER_SECTION_NAME names) of
        None \<Rightarrow> Inl UndefinedBehaviour
      | Some s \<Rightarrow> Inr (VirtualAddress s))"

text \<open>The second switch: the value of 4 or 8 bytes is read, changed and written back.\<close>

definition apply_fixup ::
  "section_names \<Rightarrow> IMAGE_SECTION_HEADER list \<Rightarrow> IMAGE_SECTION_HEADER \<Rightarrow> Fixup \<Rightarrow> u8 list
     \<Rightarrow> u8 list result" where
  "apply_fixup names hs text_section fixup img =
     (case fixup_file_offset names hs text_section fixup of
        Inl e \<Rightarrow> Inl e
      | Inr file_offset \<Rightarrow>
          if fixup_size (desc fixup) = 4
          then
            (case read_u32 img (unat file_offset) of
               None \<Rightarrow> Inl UndefinedBehaviour
             | Some v \<Rightarrow>
                 (case fixup_operand names hs (operation (desc fixup)) of
                    Inl e \<Rightarrow> Inl e
                  | Inr va \<Rightarrow>
                      (case write_bytes img (unat file_offset)
                              (le32 (case operation (desc fixup) of
                                       SubtractVmLoaderSectionVirtualAddress \<Rightarrow> v - va
                                     | _ \<Rightarrow> v + va)) of
                         None \<Rightarrow> Inl UndefinedBehaviour
                       | Some img' \<Rightarrow> Inr img')))
          else if fixup_size (desc fixup) = 8
          then
            (case read_u64 img (unat file_offset) of
               None \<Rightarrow> Inl UndefinedBehaviour
             | Some v \<Rightarrow>
                 (case fixup_operand names hs (operation (desc fixup)) of
                    Inl e \<Rightarrow> Inl e
                  | Inr va \<Rightarrow>
                      (case write_bytes img (unat file_offset)
                              (le64 (case operation (desc fixup) of
                                       SubtractVmLoaderSectionVirtualAddress \<Rightarrow> v - ucast va
                                     | _ \<Rightarrow> v + ucast va)) of
                         None \<Rightarrow> Inl UndefinedBehaviour
                       | Some img' \<Rightarrow> Inr img')))
          else Inl (RuntimeError ''unsupported fixup size''))"

text \<open>The loop of \<^verbatim>\<open>FixFinishedPe\<close> over the fixups, in their order.\<close>

fun FixFinishedPe_fixups ::
  "section_names \<Rightarrow> IMAGE_SECTION_HEADER list \<Rightarrow> IMAGE_SECTION_HEADER \<Rightarrow> Fixup list \<Rightarrow> u8 list
     \<Rightarrow> u8 list result" where
  "FixFinishedPe_fixups names hs text_section [] img = Inr img"
| "FixFinishedPe_fixups names hs text_section (fixup # rest) img =
     (case apply_fixup names hs text_section fixup img of
        Inl e \<Rightarrow> Inl e
      | Inr img' \<Rightarrow> FixFinishedPe_fixups names hs text_section rest img')"

text \<open>
  A fixup leaves the \<open>n\<close> bytes of the image from \<open>p\<close> on alone when the bytes it rewrites
  lie before or behind them.
\<close>

definition fixup_leaves ::
  "section_names \<Rightarrow> IMAGE_SECTION_HEADER list \<Rightarrow> IMAGE_SECTION_HEADER \<Rightarrow> nat \<Rightarrow> nat \<Rightarrow> Fixup
     \<Rightarrow> bool" where
  "fixup_leaves names hs text_section p n g \<longleftrightarrow>
     (case fixup_file_offset names hs text_section g of
        Inl e \<Rightarrow> True
      | Inr file_offset \<Rightarrow>
          p + n \<le> unat file_offset \<or> unat file_offset + unat (fixup_size (desc g)) \<le> p)"

text \<open>
  The offset of an instruction in \<^verbatim>\<open>.text\<close> as the callback computes it
  (\<^verbatim>\<open>instruction_text_section_offset\<close>), and the fixup it records for the jump it writes
  there.
\<close>

definition instruction_text_section_offset :: "protect_env \<Rightarrow> cs_insn \<Rightarrow> u64" where
  "instruction_text_section_offset env instruction =
     RvaToSectionOffset (original_text_section_header env)
       (ucast (ucast (address instruction) :: u32))"

definition jmp_to_vm_loader_fixup :: "protect_env \<Rightarrow> cs_insn \<Rightarrow> Fixup" where
  "jmp_to_vm_loader_fixup env instruction =
     \<lparr>offset = instruction_text_section_offset env instruction + 1,
      desc = \<lparr>offset_type = TextSection, fixup_size = 4,
              operation = AddVmLoaderSectionVirtualAddress\<rparr>\<rparr>"

section \<open>Scenario: one instruction virtualized\<close>

text \<open>
  A virtualizer to run the callbacks on. It takes every \<^verbatim>\<open>MOV\<close>, its VM code is the four
  bytes of the key, and its loader shellcode is 28 bytes of \<^verbatim>\<open>NOP\<close> with the variables
  \<^verbatim>\<open>VmOpcodeEncryptionKey\<close> at 0, \<^verbatim>\<open>VmCodeAddr\<close> at 4, \<^verbatim>\<open>ImageBase\<close> at 12,
  \<^verbatim>\<open>VmCoreFunction\<close> at 20 and \<^verbatim>\<open>OrigAddr\<close> at 24.
\<close>

definition toy_offset :: "string \<Rightarrow> nat" where
  "toy_offset name =
     (if name = VmOpcodeEncryptionKeyVariable then 0
      else if name = VmCodeAddrVariable then 4
      else if name = ImageBaseVariable then 12
      else if name = VmCoreFunctionVariable then 20
      else 24)"

definition toy_virtualizer :: "u8 list virtualizer" where
  "toy_virtualizer =
     \<lparr>GetVmOpcode = (\<lambda>ins. if insn_id ins = X86_INS_MOV then 1 else 0),
      IsVirtualizeable = (\<lambda>ins vm_opcode. vm_opcode = 1),
      CreateVirtualizedShellcode = (\<lambda>ins vm_opcode k relocs. le32 k),
      GetLoaderShellcodeForVirtualizedCode = (\<lambda>ins vm_opcode image_base. replicate 28 0x90),
      GetBuffer = (\<lambda>sc. sc),
      GetNamedValueOffset = (\<lambda>sc name. of_nat (toy_offset name)),
      ModifyVariable = (\<lambda>name bytes sc.
        take (toy_offset name) sc @ bytes @ drop (toy_offset name + length bytes) sc)\<rparr>"

text \<open>
  The image of the function-pointer scenario is protected on the 32-bit build: the
  instruction at RVA \<open>0x1000\<close>, \<^verbatim>\<open>MOV DWORD PTR [0x402000], 0x401030\<close> (10 bytes, with
  relocations at \<open>0x1002\<close> and \<open>0x1006\<close>), is virtualized. The VM loader section holds
  \<open>0x40\<close> bytes of interpreter code when the callback runs. In the new image \<^verbatim>\<open>.text\<close>
  keeps its place, the VM loader section lies at RVA \<open>0x3000\<close> and the virtualized-code
  section at RVA \<open>0x4000\<close>.
\<close>

definition pv_env :: protect_env where
  "pv_env =
     \<lparr>original_pe_nt_headers =
        \<lparr>ImageBase = 0x400000, SectionAlignment = 0x1000, FileAlignment = 0x200,
         DataDirectory = (\<lambda>_. \<lparr>dir_VirtualAddress = 0, dir_Size = 0\<rparr>)\<rparr>,
      original_text_section_header = s1_text_header,
      original_text_section_copy =
        \<lparr>sec_name = ''.text'', sec_data = drop 0x400 fp_image, sec_offset = 0x200\<rparr>,
      original_pe_relocation_rvas = [0x1002, 0x1006],
      interpreter_function_offset = 0x10\<rparr>"

definition pv_state :: protect_state where
  "pv_state =
     \<lparr>protector_context =
        \<lparr>vm_loader_section =
           \<lparr>sec_name = ''.vmldr'', sec_data = replicate 0x200 0x90, sec_offset = 0x40\<rparr>,
         virtualized_code_section = CreateEmptySection ''.vmcode'',
         new_text_section =
           \<lparr>sec_name = ''.text'', sec_data = drop 0x400 fp_image, sec_offset = 0x200\<rparr>,
         fixup_context =
           \<lparr>relocation_rvas_to_remove = [],
            vm_section_offsets_to_add_to_relocation_table = [],
            virtualized_code_section_offsets_to_add_to_relocation_table = [],
            fixups = []\<rparr>\<rparr>,
      total_virtualized_instructions = 0,
      total_disassembled_instructions = 0\<rparr>"

definition pv_draws :: draws where
  "pv_draws = \<lparr>key_draw = 0x1234, fill_draw = (\<lambda>i. 0xAA)\<rparr>"

definition pv_names :: section_names where
  "pv_names = \<lparr>VM_LOADER_SECTION_NAME = ''.vmldr'', VM_CODE_SECTION_NAME = ''.vmcode''\<rparr>"

definition pv_headers :: "IMAGE_SECTION_HEADER list" where
  "pv_headers =
     [s1_text_header,
      \<lparr>Name = ''.vmldr'', VirtualSize = 0x200, VirtualAddress = 0x3000,
       SizeOfRawData = 0x200, PointerToRawData = 0x600\<rparr>,
      \<lparr>Name = ''.vmcode'', VirtualSize = 0x200, VirtualAddress = 0x4000,
       SizeOfRawData = 0x200, PointerToRawData = 0x800\<rparr>]"

text \<open>The new image before the fixups: the headers, then the three sections of a state.\<close>

definition pv_image :: "protect_state \<Rightarrow> u8 list" where
  "pv_image st =
     replicate 0x400 0
     @ sec_data (new_text_section (protector_context st))
     @ sec_data (vm_loader_section (protector_context st))
     @ sec_data (virtualized_code_section (protector_context st))"

text \<open>The state after the callback has virtualized the instruction.\<close>

definition pv_state1 :: protect_state where
  "pv_state1 =
     \<lparr>protector_context =
        \<lparr>vm_loader_section =
           \<lparr>sec_name = ''.vmldr'',
            sec_data =
              replicate 0x40 0x90
              @ [0x34, 0x12, 0x00, 0x00, 0x00, 0x00, 0x00, 0x00]
              @ replicate 12 0x90
              @ [0xB8, 0xFF, 0xFF, 0xFF, 0xAE, 0x0F, 0x00, 0x00]
              @ replicate 420 0,
            sec_offset = 0x5C\<rparr>,
         virtualized_code_section =
           \<lparr>sec_name = ''.vmcode'',
            sec_data = [0x34, 0x12, 0x00, 0x00] @ replicate 508 0,
            sec_offset = 4\<rparr>,
         new_text_section =
           \<lparr>sec_name = ''.text'',
            sec_data =
              [0xE9, 0x3B, 0xF0, 0xFF, 0xFF] @ replicate 5 0xAA @ drop 0x40A fp_image,
            sec_offset = 0x200\<rparr>,
         fixup_context =
           \<lparr>relocation_rvas_to_remove = [0x1002, 0x1006],
            vm_section_offsets_to_add_to_relocation_table = [0x4C],
            virtualized_code_section_offsets_to_add_to_relocation_table = [],
            fixups =
              [\<lparr>offset = 0x58,
                desc = \<lparr>offset_type = VmLoaderSection, fixup_size = 4,
                        operation = SubtractVmLoaderSectionVirtualAddress\<rparr>\<rparr>,
               \<lparr>offset = 0x44,
                desc = \<lparr>offset_type = VmLoaderSection, fixup_size = 4,
                        operation = AddVirtualizedCodeSectionVirtualAddress\<rparr>\<rparr>,
               \<lparr>offset = 1,
                desc = \<lparr>offset_type = TextSection, fixup_size = 4,
                        operation = AddVmLoaderSectionVirtualAddress\<rparr>\<rparr>]\<rparr>\<rparr>,
      total_virtualized_instructions = 1,
      total_disassembled_instructions = 1\<rparr>"

text \<open>
  A fixup can be applied to an image of \<open>n\<close> bytes when its file offset and the section of
  its operation are found, its size is 4 or 8, and the bytes it rewrites lie in the image.
\<close>

definition fixup_applies ::
  "section_names \<Rightarrow> IMAGE_SECTION_HEADER list \<Rightarrow> IMAGE_SECTION_HEADER \<Rightarrow> nat \<Rightarrow> Fixup \<Rightarrow> bool" where
  "fixup_applies names hs text_section n g \<longleftrightarrow>
     (case fixup_file_offset names hs text_section g of
        Inl e \<Rightarrow> False
      | Inr file_offset \<Rightarrow>
          (fixup_size (desc g) = 4 \<or> fixup_size (desc g) = 8)
          \<and> \<not> isl (fixup_operand names hs (operation (desc g)))
          \<and> unat file_offset + unat (fixup_size (desc g)) \<le> n)"

section \<open>The run of the callbacks\<close>

text \<open>
  Modelled from the spec: the driver of the engine (\<^verbatim>\<open>DisassembleFromEntrypoint\<close> is
  declared in pe_disassembly_engine.h, not among the sources). It calls the
  per-instruction callback for each instruction it decodes and the rollback callback for
  each instruction it finds invalid; the callbacks do not change what the engine reads,
  so what it does to them is a list of events. An exception thrown in a callback leaves
  the driver and then \<^verbatim>\<open>Protect\<close>, which has no handler: the run is over and no image
  is returned.
\<close>

datatype callback_event =
  InstructionEvent cs_insn draws
  | InvalidInstructionEvent u64 SmallInstructionData

fun run_callbacks ::
  "bool \<Rightarrow> 'sc virtualizer \<Rightarrow> protect_env \<Rightarrow> callback_event list \<Rightarrow> protect_state
     \<Rightarrow> protect_state result" where
  "run_callbacks win64 V env [] st = Inr st"
| "run_callbacks win64 V env (InstructionEvent instruction rnd # rest) st =
     (case EachInstructionCallback win64 V env rnd instruction st of
        Inl e \<Rightarrow> Inl e
      | Inr st' \<Rightarrow> run_callbacks win64 V env rest st')"
| "run_callbacks win64 V env (InvalidInstructionEvent address0 ins_data # rest) st =
     (case InvalidInstructionCallback env address0 ins_data st of
        Inl e \<Rightarrow> Inl e
      | Inr st' \<Rightarrow> run_callbacks win64 V env rest st')"

text \<open>
  \<^verbatim>\<open>Protect\<close> from the call of the driver on. What follows the driver (the removal of
  the relocations, the assembly of the new image and the fixups) is \<open>finish\<close>; it runs
  only when the driver has returned.
\<close>

definition Protect_from_disassembly ::
  "bool \<Rightarrow> 'sc virtualizer \<Rightarrow> protect_env \<Rightarrow> (protect_state \<Rightarrow> 'pe result)
     \<Rightarrow> callback_event list \<Rightarrow> protect_state \<Rightarrow> 'pe result" where
  "Protect_from_disassembly win64 V env finish events st =
     (case run_callbacks win64 V env events st of
        Inl e \<Rightarrow> Inl e
      | Inr st' \<Rightarrow> finish st')"

text \<open>The state after the rollback callback has been called for that instruction.\<close>

definition pv_state2 :: protect_state where
  "pv_state2 =
     pv_state1\<lparr>protector_context := (protector_context pv_state1)
       \<lparr>new_text_section := new_text_section (protector_context pv_state),
        fixup_context := (fixup_context (protector_context pv_state1))
          \<lparr>relocation_rvas_to_remove := []\<rparr>\<rparr>\<rparr>"

section \<open>The TLS injector\<close>

text \<open>
  The layout of \<^verbatim>\<open>IMAGE_TLS_DIRECTORY\<close> (winnt.h): four pointers
  (\<^verbatim>\<open>StartAddressOfRawData\<close>, \<^verbatim>\<open>EndAddressOfRawData\<close>, \<^verbatim>\<open>AddressOfIndex\<close>,
  \<^verbatim>\<open>AddressOfCallBacks\<close>) and two DWORDs (\<^verbatim>\<open>SizeOfZeroFill\<close>, \<^verbatim>\<open>Characteristics\<close>).
\<close>

definition sizeof_IMAGE_TLS_DIRECTORY :: "bool \<Rightarrow> nat" where
  "sizeof_IMAGE_TLS_DIRECTORY win64 = 4 * sizeof_uintptr win64 + 8"

definition offsetof_AddressOfIndex :: "bool \<Rightarrow> nat" where
  "offsetof_AddressOfIndex win64 = 2 * sizeof_uintptr win64"

definition offsetof_AddressOfCallBacks :: "bool \<Rightarrow> nat" where
  "offsetof_AddressOfCallBacks win64 = 3 * sizeof_uintptr win64"

definition IMAGE_SCN_ALIGN_1BYTES :: u32 where "IMAGE_SCN_ALIGN_1BYTES = 0x00100000"

record IMAGE_TLS_DIRECTORY =
  StartAddressOfRawData :: u64
  EndAddressOfRawData :: u64
  AddressOfIndex :: u64
  AddressOfCallBacks :: u64
  SizeOfZeroFill :: u32
  Characteristics :: u32

definition IMAGE_TLS_DIRECTORY_bytes :: "bool \<Rightarrow> IMAGE_TLS_DIRECTORY \<Rightarrow> u8 list" where
  "IMAGE_TLS_DIRECTORY_bytes win64 d =
     uintptr_bytes win64 (StartAddressOfRawData d) @ uintptr_bytes win64 (EndAddressOfRawData d)
     @ uintptr_bytes win64 (AddressOfIndex d) @ uintptr_bytes win64 (AddressOfCallBacks d)
     @ le32 (SizeOfZeroFill d) @ le32 (Characteristics d)"

text \<open>
  What the injector reads of the interpreter image: its exports and its section headers.
\<close>

record Export =
  function_name :: string
  function_addr_rva :: u64

record interpreter_image =
  interpreter_exports :: "Export list"
  interpreter_section_headers :: "IMAGE_SECTION_HEADER list"

definition GetExportedFunctionOffsetRelativeToSection ::
  "interpreter_image \<Rightarrow> string \<Rightarrow> u32 result" where
  "GetExportedFunctionOffsetRelativeToSection pe fname =
     (case find (\<lambda>exprt. function_name exprt = fname) (interpreter_exports pe) of
        None \<Rightarrow> Inl (RuntimeError (''Unable to find the'' @ fname))
      | Some export_found \<Rightarrow>
          (case FromRva (interpreter_section_headers pe) (function_addr_rva export_found) of
             None \<Rightarrow> Inl UndefinedBehaviour
           | Some section_containing_interpreter \<Rightarrow>
               Inr (ucast (RvaToSectionOffset section_containing_interpreter
                             (function_addr_rva export_found)))))"

text \<open>
  The image to protect, as the injector uses it: its bytes, its NT headers, its section
  headers, and the file offset at which the TLS entry of the data directory stands in
  the headers. The record keeps the NT headers beside the bytes.
\<close>

record target_image =
  image_bytes :: "u8 list"
  image_nt_headers :: IMAGE_NT_HEADERS
  image_section_headers :: "IMAGE_SECTION_HEADER list"
  tls_data_dir_file_offset :: u64

text \<open>
  The loop of \<^verbatim>\<open>CopyTlsCallbackList\<close>: it reads pointers from the start of the list on
  until it reads 0; a list that runs off the image is read outside the buffer.
\<close>

function CopyTlsCallbackList_loop ::
  "bool \<Rightarrow> u8 list \<Rightarrow> nat \<Rightarrow> nat \<Rightarrow> u64 list \<Rightarrow> u64 list result" where
  "CopyTlsCallbackList_loop win64 original_pe_data tls_callback_list_start_offset i
       tls_callback_list =
     (let addr_list_offset = i * sizeof_uintptr win64
      in case read_uintptr win64 original_pe_data
                (tls_callback_list_start_offset + addr_list_offset) of
           None \<Rightarrow> Inl UndefinedBehaviour
         | Some callback_addr \<Rightarrow>
             if callback_addr \<noteq> 0
             then CopyTlsCallbackList_loop win64 original_pe_data tls_callback_list_start_offset
                    (i + 1) (tls_callback_list @ [callback_addr])
             else Inr tls_callback_list)"
  by pat_completeness auto
termination
  by (relation "measure (\<lambda>(w, d, start, i, l). length d - i * sizeof_uintptr w)")
    (auto simp: read_uintptr_def read_u32_def read_u64_def read_bytes_def sizeof_uintptr_def
      split: if_splits)

declare CopyTlsCallbackList_loop.simps [simp del]

definition CopyTlsCallbackList ::
  "bool \<Rightarrow> u8 list \<Rightarrow> IMAGE_TLS_DIRECTORY \<Rightarrow> IMAGE_SECTION_HEADER list \<Rightarrow> u64
     \<Rightarrow> u64 list result" where
  "CopyTlsCallbackList win64 original_pe_data original_tls_dir original_sections image_base =
     (if AddressOfCallBacks original_tls_dir \<noteq> 0
      then
        let tls_callback_list_start_offset =
              RvaToFileOffset original_sections
                (uptr win64 (AddressOfCallBacks original_tls_dir - image_base))
        in CopyTlsCallbackList_loop win64 original_pe_data
             (unat tls_callback_list_start_offset) 0 []
      else Inr [])"

text \<open>The offsets of the slots of a callback list that are not 0.\<close>

definition callback_relocation_offsets :: "bool \<Rightarrow> u64 \<Rightarrow> u64 list \<Rightarrow> u64 list" where
  "callback_relocation_offsets win64 tls_callback_list_offset tls_callback_list =
     map (\<lambda>i. tls_callback_list_offset + of_nat (i * sizeof_uintptr win64))
       (filter (\<lambda>i. tls_callback_list ! i \<noteq> 0) [0..<length tls_callback_list])"

text \<open>
  \<^verbatim>\<open>AddTlsCallbacks\<close>. \<^verbatim>\<open>DEFAULT_PE_BASE_ADDRESS\<close> is a macro that is not among the
  sources: it is the parameter \<open>default_base\<close>. The first branch is for an image that has
  a TLS directory, the second builds a new one.
\<close>

definition AddTlsCallbacks ::
  "bool \<Rightarrow> u64 \<Rightarrow> interpreter_image \<Rightarrow> target_image \<Rightarrow> ProtectorContext
     \<Rightarrow> (target_image \<times> ProtectorContext) result" where
  "AddTlsCallbacks win64 default_base interpreter_pe original_pe ctx =
     (let original_pe_data = image_bytes original_pe;
          original_pe_headers = image_nt_headers original_pe;
          original_sections = image_section_headers original_pe;
          original_tls_data_dir = DataDirectory original_pe_headers IMAGE_DIRECTORY_ENTRY_TLS;
          ws = sizeof_uintptr win64;
          has_tls_directory = (dir_Size original_tls_data_dir \<noteq> 0)
      in if has_tls_directory
         then
           if sizeof_IMAGE_TLS_DIRECTORY win64 \<noteq> unat (dir_Size original_tls_data_dir)
           then Inl AssertionFailed
           else
             let image_base = ImageBase original_pe_headers;
                 tls_dir_file_offset =
                   RvaToFileOffset original_sections
                     (ucast (dir_VirtualAddress original_tls_data_dir))
             in case read_uintptr win64 original_pe_data
                       (unat tls_dir_file_offset + offsetof_AddressOfCallBacks win64) of
                  None \<Rightarrow> Inl UndefinedBehaviour
                | Some address_of_callbacks \<Rightarrow>
                    (case CopyTlsCallbackList win64 original_pe_data
                            \<lparr>StartAddressOfRawData = 0, EndAddressOfRawData = 0,
                             AddressOfIndex = 0, AddressOfCallBacks = address_of_callbacks,
                             SizeOfZeroFill = 0, Characteristics = 0\<rparr>
                            original_sections image_base of
                       Inl e \<Rightarrow> Inl e
                     | Inr copied \<Rightarrow>
                         (case GetExportedFunctionOffsetRelativeToSection interpreter_pe
                                 ''TlsCallback'' of
                            Inl e \<Rightarrow> Inl e
                          | Inr interpreter_tls_callback_offset \<Rightarrow>
                              let my_tls_callback_index = length copied;
                                  tls_callback_list =
                                    copied
                                    @ [uptr win64
                                         (default_base + ucast interpreter_tls_callback_offset)]
                                    @ [0, 0, 0, 0, 0];
                                  tls_callbacks_list_data =
                                    concat (map (uintptr_bytes win64) tls_callback_list);
                                  (tls_callback_list_offset, virtualized_code_section') =
                                    AppendCode tls_callbacks_list_data
                                      (SectionAlignment original_pe_headers)
                                      (FileAlignment original_pe_headers)
                                      (virtualized_code_section ctx);
                                  my_tls_callback_offset =
                                    tls_callback_list_offset
                                      + of_nat (my_tls_callback_index * ws);
                                  callback_addr_fixup =
                                    \<lparr>offset = my_tls_callback_offset,
                                     desc = \<lparr>offset_type = VirtualizedCodeSection,
                                             fixup_size = of_nat ws,
                                             operation = AddVmLoaderSectionVirtualAddress\<rparr>\<rparr>;
                                  addr_of_callbacks_offset =
                                    tls_dir_file_offset
                                      + of_nat (offsetof_AddressOfCallBacks win64);
                                  addr_of_callbacks_fixup =
                                    \<lparr>offset = addr_of_callbacks_offset,
                                     desc = \<lparr>offset_type = Beginning, fixup_size = of_nat ws,
                                             operation =
                                               AddVirtualizedCodeSectionVirtualAddress\<rparr>\<rparr>;
                                  fc = fixup_context ctx
                              in case write_bytes original_pe_data
                                        (unat tls_dir_file_offset
                                           + offsetof_AddressOfCallBacks win64)
                                        (uintptr_bytes win64
                                           (uptr win64
                                              (default_base + tls_callback_list_offset))) of
                                   None \<Rightarrow> Inl UndefinedBehaviour
                                 | Some original_pe_data' \<Rightarrow>
                                     Inr (original_pe\<lparr>image_bytes := original_pe_data'\<rparr>,
                                          ctx\<lparr>virtualized_code_section :=
                                                virtualized_code_section',
                                              fixup_context := fc
                                                \<lparr>virtualized_code_section_offsets_to_add_to_relocation_table :=
                                                   virtualized_code_section_offsets_to_add_to_relocation_table fc
                                                   @ callback_relocation_offsets win64
                                                       tls_callback_list_offset tls_callback_list,
                                                 fixups := fixups fc
                                                   @ [callback_addr_fixup,
                                                      addr_of_callbacks_fixup]\<rparr>\<rparr>)))
         else
           let index_data = replicate ws (0 :: u8);
               (index_data_offset, virtualized_code_section1) =
                 AppendCode index_data (SectionAlignment original_pe_headers)
                   (FileAlignment original_pe_headers) (virtualized_code_section ctx)
           in case GetExportedFunctionOffsetRelativeToSection interpreter_pe ''TlsCallback'' of
                Inl e \<Rightarrow> Inl e
              | Inr interpreter_tls_callback_offset \<Rightarrow>
                  let my_tls_callback_index = (0 :: nat);
                      tls_callback_list =
                        [uptr win64 (default_base + ucast interpreter_tls_callback_offset)]
                        @ [0, 0, 0, 0, 0];
                      tls_callbacks_list_data =
                        concat (map (uintptr_bytes win64) tls_callback_list);
                      (tls_callback_list_offset, virtualized_code_section2) =
                        AppendCode tls_callbacks_list_data
                          (SectionAlignment original_pe_headers)
                          (FileAlignment original_pe_headers) virtualized_code_section1;
                      my_tls_callback_offset =
                        tls_callback_list_offset + of_nat (my_tls_callback_index * ws);
                      callback_addr_fixup =
                        \<lparr>offset = my_tls_callback_offset,
                         desc = \<lparr>offset_type = VirtualizedCodeSection, fixup_size = of_nat ws,
                                 operation = AddVmLoaderSectionVirtualAddress\<rparr>\<rparr>;
                      tls_directory =
                        \<lparr>StartAddressOfRawData = 0, EndAddressOfRawData = 0,
                         AddressOfIndex = uptr win64 (default_base + index_data_offset),
                         AddressOfCallBacks = uptr win64 (default_base + tls_callback_list_offset),
                         SizeOfZeroFill = 0, Characteristics = IMAGE_SCN_ALIGN_1BYTES\<rparr>;
                      virtualized_code_desc =
                        \<lparr>offset_type = VirtualizedCodeSection, fixup_size = of_nat ws,
                         operation = AddVirtualizedCodeSectionVirtualAddress\<rparr>;
                      (tls_directory_data_offset, virtualized_code_section3) =
                        AppendCode (IMAGE_TLS_DIRECTORY_bytes win64 tls_directory)
                          (SectionAlignment original_pe_headers)
                          (FileAlignment original_pe_headers) virtualized_code_section2;
                      addr_of_index_offset =
                        tls_directory_data_offset + of_nat (offsetof_AddressOfIndex win64);
                      addr_of_callbacks_offset =
                        tls_directory_data_offset + of_nat (offsetof_AddressOfCallBacks win64);
                      tls_data_directory_virtual_address_fixup =
                        \<lparr>offset = tls_data_dir_file_offset original_pe + 0,
                         desc = \<lparr>offset_type = Beginning, fixup_size = of_nat ws,
                                 operation = AddVirtualizedCodeSectionVirtualAddress\<rparr>\<rparr>;
                      fc = fixup_context ctx;
                      nt' = original_pe_headers
                        \<lparr>DataDirectory := (DataDirectory original_pe_headers)
                           (IMAGE_DIRECTORY_ENTRY_TLS :=
                              \<lparr>dir_VirtualAddress = ucast tls_directory_data_offset,
                               dir_Size = of_nat (sizeof_IMAGE_TLS_DIRECTORY win64)\<rparr>)\<rparr>
                  in Inr (original_pe\<lparr>image_nt_headers := nt'\<rparr>,
                          ctx\<lparr>virtualized_code_section := virtualized_code_section3,
                              fixup_context := fc
                                \<lparr>virtualized_code_section_offsets_to_add_to_relocation_table :=
                                   virtualized_code_section_offsets_to_add_to_relocation_table fc
                                   @ callback_relocation_offsets win64 tls_callback_list_offset
                                       tls_callback_list
                                   @ [addr_of_index_offset, addr_of_callbacks_offset],
                                 fixups := fixups fc
                                   @ [callback_addr_fixup,
                                      \<lparr>offset = addr_of_index_offset,
                                       desc = virtualized_code_desc\<rparr>,
                                      \<lparr>offset = addr_of_callbacks_offset,
                                       desc = virtualized_code_desc\<rparr>,
                                      tls_data_directory_virtual_address_fixup]\<rparr>\<rparr>))"

section \<open>Scenario: an image with a TLS directory\<close>

text \<open>
  A 32-bit image with base \<open>0x400000\<close>: \<^verbatim>\<open>.text\<close> as before and \<^verbatim>\<open>.rdata\<close> at RVA \<open>0x2000\<close>,
  file offset \<open>0x600\<close>. The TLS directory stands at the start of \<^verbatim>\<open>.rdata\<close>; its
  \<^verbatim>\<open>AddressOfCallBacks\<close> is \<open>0x402020\<close>, where the list holds the one callback \<open>0x401030\<close>.
  The interpreter exports \<^verbatim>\<open>TlsCallback\<close> at offset \<open>0x50\<close> of its function section, and
  \<^verbatim>\<open>DEFAULT_PE_BASE_ADDRESS\<close> is the image base \<open>0x400000\<close>.
\<close>

definition tls_image :: target_image where
  "tls_image =
     \<lparr>image_bytes =
        replicate 0x400 0 @ replicate 0x200 0xCC
        @ (le32 0 @ le32 0 @ le32 0x402040 @ le32 0x402020 @ le32 0 @ le32 0)
        @ replicate 8 0
        @ (le32 0x401030 @ le32 0)
        @ replicate 472 0,
      image_nt_headers =
        \<lparr>ImageBase = 0x400000, SectionAlignment = 0x1000, FileAlignment = 0x200,
         DataDirectory = (\<lambda>_. \<lparr>dir_VirtualAddress = 0, dir_Size = 0\<rparr>)
           (IMAGE_DIRECTORY_ENTRY_TLS := \<lparr>dir_VirtualAddress = 0x2000, dir_Size = 24\<rparr>)\<rparr>,
      image_section_headers =
        [s1_text_header,
         \<lparr>Name = ''.rdata'', VirtualSize = 0x200, VirtualAddress = 0x2000,
          SizeOfRawData = 0x200, PointerToRawData = 0x600\<rparr>],
      tls_data_dir_file_offset = 0x148\<rparr>"

definition tls_interpreter :: interpreter_image where
  "tls_interpreter =
     \<lparr>interpreter_exports =
        [\<lparr>function_name = ''VmInterpreter'', function_addr_rva = 0x1010\<rparr>,
         \<lparr>function_name = ''TlsCallback'', function_addr_rva = 0x1050\<rparr>],
      interpreter_section_headers =
        [\<lparr>Name = ''.vmfun'', VirtualSize = 0x200, VirtualAddress = 0x1000,
          SizeOfRawData = 0x200, PointerToRawData = 0x400\<rparr>]\<rparr>"

text \<open>
  The protector context at the call: the virtualized-code section holds \<open>0x10\<close> bytes of
  virtualized code, so the callback list is written at its offset \<open>0x10\<close>.
\<close>

definition tls_context :: ProtectorContext where
  "tls_context =
     \<lparr>vm_loader_section = CreateEmptySection ''.vmldr'',
      virtualized_code_section =
        \<lparr>sec_name = ''.vmcode'', sec_data = replicate 0x10 0xAA @ replicate 0x1F0 0,
         sec_offset = 0x10\<rparr>,
      new_text_section = CreateEmptySection ''.text'',
      fixup_context =
        \<lparr>relocation_rvas_to_remove = [],
         vm_section_offsets_to_add_to_relocation_table = [],
         virtualized_code_section_offsets_to_add_to_relocation_table = [],
         fixups = []\<rparr>\<rparr>"


section \<open>What an event of the run writes into the new text section\<close>


section \<open>Scenario: runs of two events, and the relocation blocks\<close>






section \<open>Verification\<close>

subsection \<open>Relocations within an instruction\<close>

lemma lower_bound_from_spec:
  "sorted xs \<Longrightarrow> first + len \<le> length xs \<Longrightarrow>
   (\<forall>i<first. xs ! i < v) \<Longrightarrow> (\<forall>i. first + len \<le> i \<and> i < length xs \<longrightarrow> v \<le> xs ! i) \<Longrightarrow>
   first \<le> lower_bound_from xs v first len \<and> lower_bound_from xs v first len \<le> first + len
   \<and> (\<forall>i<lower_bound_from xs v first len. xs ! i < v)
   \<and> (\<forall>i. lower_bound_from xs v first len \<le> i \<and> i < length xs \<longrightarrow> v \<le> xs ! i)"
proof (induction xs v first len rule: lower_bound_from.induct)
  case (1 xs v first len)
  show ?case
  proof (cases "len = 0")
    case True
    with "1.prems" show ?thesis by (simp add: lower_bound_from.simps)
  next
    case False
    define half where "half = len div 2"
    define middle where "middle = first + half"
    have mid: "middle < first + len" "middle < length xs" "first \<le> middle"
      using False "1.prems"(2) by (auto simp: half_def middle_def)
    show ?thesis
    proof (cases "xs ! middle < v")
      case True
      have below: "\<forall>i<middle + 1. xs ! i < v"
      proof (intro allI impI)
        fix i assume "i < middle + 1"
        then have "i \<le> middle" by simp
        then have "xs ! i \<le> xs ! middle"
          using "1.prems"(1) mid(2) by (simp add: sorted_nth_mono)
        with True show "xs ! i < v" by simp
      qed
      have eq: "middle + 1 + (len - half - 1) = first + len"
        using False by (auto simp: half_def middle_def)
      have IH: "middle + 1 \<le> lower_bound_from xs v (middle + 1) (len - half - 1)
          \<and> lower_bound_from xs v (middle + 1) (len - half - 1) \<le> middle + 1 + (len - half - 1)
          \<and> (\<forall>i<lower_bound_from xs v (middle + 1) (len - half - 1). xs ! i < v)
          \<and> (\<forall>i. lower_bound_from xs v (middle + 1) (len - half - 1) \<le> i \<and> i < length xs \<longrightarrow> v \<le> xs ! i)"
        using "1.IH"(1)[OF False half_def middle_def True "1.prems"(1)] "1.prems"(2,4) below eq
        by simp
      have unf: "lower_bound_from xs v first len = lower_bound_from xs v (middle + 1) (len - half - 1)"
        using False True by (subst lower_bound_from.simps) (simp add: half_def middle_def Let_def)
      show ?thesis using IH mid eq unfolding unf by auto
    next
      case nlt: False
      have above: "\<forall>i. first + half \<le> i \<and> i < length xs \<longrightarrow> v \<le> xs ! i"
      proof (intro allI impI)
        fix i assume a: "first + half \<le> i \<and> i < length xs"
        then have "xs ! middle \<le> xs ! i"
          using "1.prems"(1) by (simp add: sorted_nth_mono middle_def)
        with nlt show "v \<le> xs ! i" by simp
      qed
      have IH: "first \<le> lower_bound_from xs v first half
          \<and> lower_bound_from xs v first half \<le> first + half
          \<and> (\<forall>i<lower_bound_from xs v first half. xs ! i < v)
          \<and> (\<forall>i. lower_bound_from xs v first half \<le> i \<and> i < length xs \<longrightarrow> v \<le> xs ! i)"
        using "1.IH"(2)[OF False half_def middle_def nlt "1.prems"(1)] "1.prems"(2,3) above mid
        by (simp add: middle_def)
      have unf: "lower_bound_from xs v first len = lower_bound_from xs v first half"
        using False nlt by (subst lower_bound_from.simps) (simp add: half_def middle_def Let_def)
      show ?thesis using IH mid unfolding unf by (auto simp: middle_def)
    qed
  qed
qed

lemma lower_bound_spec:
  assumes "sorted xs"
  shows "lower_bound xs v \<le> length xs"
    and "\<forall>i<lower_bound xs v. xs ! i < v"
    and "\<forall>i. lower_bound xs v \<le> i \<and> i < length xs \<longrightarrow> v \<le> xs ! i"
proof -
  have "0 + length xs \<le> length xs" "\<forall>i<(0::nat). xs ! i < v"
    "\<forall>i. 0 + length xs \<le> i \<and> i < length xs \<longrightarrow> v \<le> xs ! i"
    by auto
  from lower_bound_from_spec[OF assms this]
  show "lower_bound xs v \<le> length xs"
    and "\<forall>i<lower_bound xs v. xs ! i < v"
    and "\<forall>i. lower_bound xs v \<le> i \<and> i < length xs \<longrightarrow> v \<le> xs ! i"
    by (simp_all add: lower_bound_def)
qed

lemma lower_bound_mem:
  assumes "sorted xs" "v \<in> set xs"
  shows "lower_bound xs v < length xs \<and> xs ! lower_bound xs v = v"
proof -
  from assms(2) obtain k where k: "k < length xs" "xs ! k = v"
    by (auto simp: in_set_conv_nth)
  have le: "lower_bound xs v \<le> k"
  proof (rule ccontr)
    assume "\<not> lower_bound xs v \<le> k"
    then have "xs ! k < v" using lower_bound_spec(2)[OF assms(1), of v] by simp
    with k show False by simp
  qed
  then have lt: "lower_bound xs v < length xs" using k by simp
  have "v \<le> xs ! lower_bound xs v"
    using lower_bound_spec(3)[OF assms(1), of v] lt by simp
  moreover have "xs ! lower_bound xs v \<le> xs ! k"
    using sorted_nth_mono[OF assms(1) le k(1)] .
  ultimately show ?thesis using lt k by simp
qed

lemma first_reloc_from_None:
  "sorted rs \<Longrightarrow> first_reloc_from ins rs i = None \<Longrightarrow>
   i \<le> j \<Longrightarrow> j < unat (insn_size ins) \<Longrightarrow> address ins + of_nat j \<notin> set rs"
proof (induction ins rs i rule: first_reloc_from.induct)
  case (1 ins rs i)
  from "1.prems" have lt: "i < unat (insn_size ins)" by simp
  let ?v = "address ins + of_nat i"
  have nf: "\<not> (lower_bound rs ?v \<noteq> length rs \<and> rs ! lower_bound rs ?v = ?v)"
    using "1.prems"(2) lt by (subst (asm) first_reloc_from.simps) (auto simp: Let_def split: if_splits)
  have rec: "first_reloc_from ins rs (i + 1) = None"
    using "1.prems"(2) lt nf by (subst (asm) first_reloc_from.simps) (auto simp: Let_def split: if_splits)
  show ?case
  proof (cases "j = i")
    case True
    show ?thesis
    proof
      assume "address ins + of_nat j \<in> set rs"
      with True lower_bound_mem[OF "1.prems"(1), of ?v] nf show False by auto
    qed
  next
    case False
    with "1.prems"(3) have "i + 1 \<le> j" by simp
    from "1.IH"[OF lt refl refl nf "1.prems"(1) rec this "1.prems"(4)] show ?thesis .
  qed
qed

lemma first_reloc_from_Some:
  "sorted rs \<Longrightarrow> first_reloc_from ins rs i = Some it \<Longrightarrow>
   \<exists>j. i \<le> j \<and> j < unat (insn_size ins) \<and> it < length rs \<and> rs ! it = address ins + of_nat j
     \<and> (\<forall>k. i \<le> k \<and> k < j \<longrightarrow> address ins + of_nat k \<notin> set rs)
     \<and> (\<forall>m<it. rs ! m < address ins + of_nat j)"
proof (induction ins rs i rule: first_reloc_from.induct)
  case (1 ins rs i)
  have lt: "i < unat (insn_size ins)"
    using "1.prems"(2) by (subst (asm) first_reloc_from.simps) (auto split: if_splits)
  let ?v = "address ins + of_nat i"
  show ?case
  proof (cases "lower_bound rs ?v \<noteq> length rs \<and> rs ! lower_bound rs ?v = ?v")
    case True
    then have it: "it = lower_bound rs ?v"
      using "1.prems"(2) lt by (subst (asm) first_reloc_from.simps) (auto simp: Let_def)
    have "it < length rs" using True lower_bound_spec(1)[OF "1.prems"(1), of ?v] it by simp
    moreover have "\<forall>m<it. rs ! m < ?v" using lower_bound_spec(2)[OF "1.prems"(1), of ?v] it by simp
    ultimately show ?thesis using True it lt by (intro exI[of _ i]) auto
  next
    case False
    then have rec: "first_reloc_from ins rs (i + 1) = Some it"
      using "1.prems"(2) lt by (subst (asm) first_reloc_from.simps) (auto simp: Let_def)
    from "1.IH"[OF lt refl refl False "1.prems"(1) rec]
    obtain j where j: "i + 1 \<le> j" "j < unat (insn_size ins)" "it < length rs"
      "rs ! it = address ins + of_nat j"
      "\<forall>k. i + 1 \<le> k \<and> k < j \<longrightarrow> address ins + of_nat k \<notin> set rs"
      "\<forall>m<it. rs ! m < address ins + of_nat j" by blast
    have "address ins + of_nat i \<notin> set rs"
      using lower_bound_mem[OF "1.prems"(1), of ?v] False by auto
    then have "\<forall>k. i \<le> k \<and> k < j \<longrightarrow> address ins + of_nat k \<notin> set rs"
      using j(5) by (metis Suc_eq_plus1 Suc_leI le_neq_implies_less)
    with j show ?thesis by (intro exI[of _ j]) auto
  qed
qed


lemma unat_add_of_nat_no_wrap:
  fixes a :: u64
  assumes "unat a + n < 2 ^ 64" "j \<le> n"
  shows "unat (a + of_nat j) = unat a + j"
proof -
  have j: "unat (of_nat j :: u64) = j" using assms by (simp add: unat_of_nat)
  have "unat a + unat (of_nat j :: u64) < 2 ^ LENGTH(64)" using assms j by simp
  then have "unat (a + of_nat j) = unat a + unat (of_nat j :: u64)"
    by (simp only: unat_add_lem[THEN iffD1])
  with j show ?thesis by simp
qed

lemma insn_end_no_wrap:
  fixes a :: u64 and s :: u16
  assumes "unat a + unat s < 2 ^ 64"
  shows "unat (a + ucast s) = unat a + unat s"
proof -
  have "(ucast s :: u64) = of_nat (unat s)" by simp
  then show ?thesis using unat_add_of_nat_no_wrap[OF assms order_refl] by simp
qed


lemma within_iff_offset:
  assumes "unat (address ins) + unat (insn_size ins) < 2 ^ 64"
  shows "within ins r \<longleftrightarrow> (\<exists>j<unat (insn_size ins). r = address ins + of_nat j)"
proof
  assume w: "within ins r"
  define j where "j = unat r - unat (address ins)"
  have jlt: "j < unat (insn_size ins)" using w by (auto simp: within_def j_def)
  have "unat (address ins + of_nat j) = unat (address ins) + j"
    using unat_add_of_nat_no_wrap[OF assms, of j] jlt by simp
  also have "\<dots> = unat r" using w by (auto simp: within_def j_def)
  finally have "address ins + of_nat j = r" by (simp only: word_unat_eq_iff)
  with jlt show "\<exists>j<unat (insn_size ins). r = address ins + of_nat j" by auto
next
  assume "\<exists>j<unat (insn_size ins). r = address ins + of_nat j"
  then obtain j where j: "j < unat (insn_size ins)" "r = address ins + of_nat j" by blast
  have "unat r = unat (address ins) + j"
    using unat_add_of_nat_no_wrap[OF assms, of j] j by simp
  with j(1) show "within ins r" by (simp add: within_def)
qed

lemma loop_test_within:
  assumes "unat (address ins) + unat (insn_size ins) < 2 ^ 64"
  shows "(r \<ge> address ins \<and> r < address ins + ucast (insn_size ins)) \<longleftrightarrow> within ins r"
  using insn_end_no_wrap[OF assms]
  by (simp add: within_def word_le_nat_alt word_less_nat_alt)

lemma relocs_following_filter:
  assumes nw: "unat (address ins) + unat (insn_size ins) < 2 ^ 64"
  shows "sorted ys \<Longrightarrow> \<forall>y\<in>set ys. address ins \<le> y \<Longrightarrow>
         relocs_following ins ys = filter (within ins) ys"
proof (induction ys)
  case Nil
  then show ?case by simp
next
  case (Cons y ys)
  show ?case
  proof (cases "within ins y")
    case True
    then have "y \<ge> address ins \<and> y < address ins + ucast (insn_size ins)"
      using loop_test_within[OF nw, of y] by simp
    with True Cons show ?thesis by simp
  next
    case False
    then have nt: "\<not> (y \<ge> address ins \<and> y < address ins + ucast (insn_size ins))"
      using loop_test_within[OF nw, of y] by simp
    have "\<forall>z\<in>set ys. \<not> within ins z"
    proof
      fix z assume "z \<in> set ys"
      with Cons.prems(1) have "y \<le> z" by simp
      moreover have "address ins \<le> y" using Cons.prems(2) by simp
      ultimately show "\<not> within ins z" using False
        by (auto simp: within_def word_le_nat_alt)
    qed
    then have "filter (within ins) ys = []" by (simp add: filter_empty_conv)
    with False nt show ?thesis by simp
  qed
qed

lemma GetRelocationsWithinInstruction_is_filter:
  assumes srt: "sorted_wrt (<) relocations_to_search"
    and nw: "unat (address instruction) + unat (insn_size instruction) < 2 ^ 64"
  shows "GetRelocationsWithinInstruction instruction relocations_to_search
           = filter (\<lambda>r. unat (address instruction) \<le> unat r
                        \<and> unat r < unat (address instruction) + unat (insn_size instruction))
               relocations_to_search
         \<and> sorted_wrt (<) (GetRelocationsWithinInstruction instruction relocations_to_search)"
proof -
  let ?rs = relocations_to_search and ?ins = instruction
  have s: "sorted ?rs" using srt by (simp add: strict_sorted_iff)
  have flt: "(\<lambda>r. unat (address ?ins) \<le> unat r \<and> unat r < unat (address ?ins) + unat (insn_size ?ins))
      = within ?ins" by (auto simp: within_def fun_eq_iff)
  have main: "GetRelocationsWithinInstruction ?ins ?rs = filter (within ?ins) ?rs"
  proof (cases "first_reloc_from ?ins ?rs 0")
    case None
    have "\<forall>r\<in>set ?rs. \<not> within ?ins r"
    proof
      fix r assume r: "r \<in> set ?rs"
      show "\<not> within ?ins r"
      proof
        assume "within ?ins r"
        then obtain j where "j < unat (insn_size ?ins)" "r = address ?ins + of_nat j"
          using within_iff_offset[OF nw] by blast
        with first_reloc_from_None[OF s None, of j] r show False by simp
      qed
    qed
    then have "filter (within ?ins) ?rs = []" by (simp add: filter_empty_conv)
    with None show ?thesis by (simp add: GetRelocationsWithinInstruction_def)
  next
    case (Some it)
    from first_reloc_from_Some[OF s Some]
    obtain j where j: "j < unat (insn_size ?ins)" "it < length ?rs"
      "?rs ! it = address ?ins + of_nat j"
      "\<forall>k. k < j \<longrightarrow> address ?ins + of_nat k \<notin> set ?rs"
      "\<forall>m<it. ?rs ! m < address ?ins + of_nat j" by auto
    have uj: "unat (?rs ! it) = unat (address ?ins) + j"
      using unat_add_of_nat_no_wrap[OF nw, of j] j by simp
    have split: "?rs = take it ?rs @ ?rs ! it # drop (it + 1) ?rs"
      using j(2) by (simp add: id_take_nth_drop)
    have w_it: "within ?ins (?rs ! it)" using uj j(1) by (simp add: within_def)
    have before: "filter (within ?ins) (take it ?rs) = []"
    proof -
      have "\<forall>r\<in>set (take it ?rs). \<not> within ?ins r"
      proof
        fix r assume "r \<in> set (take it ?rs)"
        then obtain m where m: "m < it" "r = ?rs ! m"
          using j(2) by (auto simp: in_set_conv_nth)
        then have rlt: "unat r < unat (address ?ins) + j"
          using j(5) uj j(3) by (auto simp: word_less_nat_alt)
        have rin: "r \<in> set ?rs" using m j(2) by simp
        show "\<not> within ?ins r"
        proof
          assume "within ?ins r"
          then obtain k where k: "k < unat (insn_size ?ins)" "r = address ?ins + of_nat k"
            using within_iff_offset[OF nw] by blast
          have "unat r = unat (address ?ins) + k"
            using unat_add_of_nat_no_wrap[OF nw, of k] k by simp
          with rlt have "k < j" by simp
          with j(4) k rin show False by auto
        qed
      qed
      then show ?thesis by (simp add: filter_empty_conv)
    qed
    have sd: "sorted (drop (it + 1) ?rs)" using s by (rule sorted_wrt_drop)
    have ge: "\<forall>y\<in>set (drop (it + 1) ?rs). address ?ins \<le> y"
    proof
      fix y assume "y \<in> set (drop (it + 1) ?rs)"
      moreover have "sorted (drop it ?rs)" using s by (rule sorted_wrt_drop)
      then have "sorted (?rs ! it # drop (it + 1) ?rs)"
        using j(2) by (simp add: Cons_nth_drop_Suc)
      ultimately have "?rs ! it \<le> y" by simp
      then show "address ?ins \<le> y" using uj by (simp add: word_le_nat_alt)
    qed
    have after: "relocs_following ?ins (drop (it + 1) ?rs) = filter (within ?ins) (drop (it + 1) ?rs)"
      by (rule relocs_following_filter[OF nw sd ge])
    have "filter (within ?ins) ?rs
          = filter (within ?ins) (take it ?rs @ ?rs ! it # drop (it + 1) ?rs)"
      using split by simp
    also have "\<dots> = ?rs ! it # filter (within ?ins) (drop (it + 1) ?rs)"
      using before w_it by simp
    finally show ?thesis using Some after by (simp add: GetRelocationsWithinInstruction_def)
  qed
  have "sorted_wrt (<) (filter (within ?ins) ?rs)" using srt by (rule sorted_wrt_filter)
  with main flt show ?thesis by simp
qed

text \<open>
  Claim C9. For an instruction with address \<open>a\<close> and size \<open>s\<close> and a strictly ascending
  (sorted, duplicate-free) list of relocation RVAs, \<open>GetRelocationsWithinInstruction\<close>
  returns exactly the elements \<open>r\<close> of the list with \<open>a \<le> r < a + s\<close>, in ascending order.
  The sum \<open>a + s\<close> is the mathematical one: the instruction does not wrap around the
  64-bit address space, which holds of every RVA.
\<close>

theorem GetRelocationsWithinInstruction_exact:
  assumes "sorted_wrt (<) relocations_to_search"
    and "unat (address instruction) + unat (insn_size instruction) < 2 ^ 64"
  shows "GetRelocationsWithinInstruction instruction relocations_to_search
           = filter (\<lambda>r. unat (address instruction) \<le> unat r
                        \<and> unat r < unat (address instruction) + unat (insn_size instruction))
               relocations_to_search
         \<and> sorted_wrt (<) (GetRelocationsWithinInstruction instruction relocations_to_search)"
  using assms by (rule GetRelocationsWithinInstruction_is_filter)

theorem GetRelocationsWithinInstruction_exact_witness:
  "sorted_wrt (<) [0xFFE, 0x1001, 0x1003, 0x1005 :: u64]
   \<and> unat (address (temp_instruction 0x1000 5)) + unat (insn_size (temp_instruction 0x1000 5))
       < 2 ^ 64
   \<and> GetRelocationsWithinInstruction (temp_instruction 0x1000 5) [0xFFE, 0x1001, 0x1003, 0x1005]
       = [0x1001, 0x1003]"
  using GetRelocationsWithinInstruction_exact
    [of "[0xFFE, 0x1001, 0x1003, 0x1005]" "temp_instruction 0x1000 5"]
  by (simp add: temp_instruction_def)

subsection \<open>The relocation rebuilder\<close>

lemmas reloc_defs = AddRelocations_def DetermineFirstRelocationBlockVirtualAddress_def AlignDown_def
  k4kPage_def TrimRelocSectionPadding_def AppendRelocationBlock_def AppendCode_def
  CreateRelocationBlockBuffer_def le32_def le16_def Relocation_bytes_def uptr_def
  s4_state_def s4_desc_def CreateEmptySection_def AlignUp_def
  IMAGE_DIRECTORY_ENTRY_BASERELOC_def sizeof_IMAGE_BASE_RELOCATION_def sizeof_Relocation_def
  IMAGE_REL_BASED_HIGHLOW_def IMAGE_REL_BASED_DIR64_def IMAGE_REL_BASED_ABSOLUTE_def Let_def

lemma AppendCode_written:
  "take (length bytes) (drop (sec_offset s) (sec_data (snd (AppendCode bytes sa fa s)))) = bytes"
  by (simp add: AppendCode_def Let_def)

lemma AppendCode_offset: "fst (AppendCode bytes sa fa s) = of_nat (sec_offset s)"
  by (simp add: AppendCode_def Let_def)

lemma AppendRelocationBlock_padded:
  "fst (snd (AppendRelocationBlock va relocations st0))
     = (if odd (length relocations)
        then relocations @ [\<lparr>reloc_offset = 0, reloc_type = IMAGE_REL_BASED_ABSOLUTE\<rparr>]
        else relocations)"
  by (simp add: AppendRelocationBlock_def Let_def IMAGE_REL_BASED_ABSOLUTE_def split: prod.splits)
    (auto simp: odd_iff_mod_2_eq_one)

lemma AppendRelocationBlock_bytes:
  "take (length (CreateRelocationBlockBuffer va (fst (snd (AppendRelocationBlock va relocations st0)))))
        (drop (sec_offset (reloc_section st0))
           (sec_data (reloc_section (snd (snd (AppendRelocationBlock va relocations st0))))))
     = CreateRelocationBlockBuffer va (fst (snd (AppendRelocationBlock va relocations st0)))"
  using AppendCode_written
  by (auto simp add: AppendRelocationBlock_def Let_def split: prod.splits) (metis snd_conv)+

lemma s4_run:
  "\<exists>st. AddRelocations win64 s4_desc [0x100, 0x500, 0x1010] s4_state = Inr st
      \<and> dir_Size (DataDirectory (nt_headers st) IMAGE_DIRECTORY_ENTRY_BASERELOC) = 24
      \<and> take 24 (sec_data (reloc_section st))
         = CreateRelocationBlockBuffer 0
             [\<lparr>reloc_offset = 0x100,
               reloc_type = (if win64 then IMAGE_REL_BASED_DIR64 else IMAGE_REL_BASED_HIGHLOW)\<rparr>,
              \<lparr>reloc_offset = 0x500,
               reloc_type = (if win64 then IMAGE_REL_BASED_DIR64 else IMAGE_REL_BASED_HIGHLOW)\<rparr>]
           @ CreateRelocationBlockBuffer 0x1000
             [\<lparr>reloc_offset = 0x10,
               reloc_type = (if win64 then IMAGE_REL_BASED_DIR64 else IMAGE_REL_BASED_HIGHLOW)\<rparr>,
              \<lparr>reloc_offset = 0, reloc_type = IMAGE_REL_BASED_ABSOLUTE\<rparr>]
      \<and> map offset (fixup_vector st) = [0, 12]"
  by (cases win64) (simp_all add: reloc_defs)

text \<open>
  Claim C4, as the claim states it, fails: for the offsets \<open>[0x100, 0x500, 0x1010]\<close> the
  block at \<open>0x0\<close> holds the two entries \<open>0x100\<close> and \<open>0x500\<close> and no padding entry. The
  relocation data the code leaves (the first \<open>Size\<close> bytes of \<^verbatim>\<open>.reloc\<close>, \<open>Size\<close> being
  that of the relocation directory) is not the layout of the claim, in which the first
  block carries a type-0 entry after its two entries.
\<close>

theorem AddRelocations_s4_first_block_not_padded:
  "\<exists>st. AddRelocations False s4_desc [0x100, 0x500, 0x1010] s4_state = Inr st
      \<and> take (unat (dir_Size (DataDirectory (nt_headers st) IMAGE_DIRECTORY_ENTRY_BASERELOC)))
           (sec_data (reloc_section st))
         \<noteq> CreateRelocationBlockBuffer 0
             [\<lparr>reloc_offset = 0x100, reloc_type = IMAGE_REL_BASED_HIGHLOW\<rparr>,
              \<lparr>reloc_offset = 0x500, reloc_type = IMAGE_REL_BASED_HIGHLOW\<rparr>,
              \<lparr>reloc_offset = 0, reloc_type = IMAGE_REL_BASED_ABSOLUTE\<rparr>]
           @ CreateRelocationBlockBuffer 0x1000
             [\<lparr>reloc_offset = 0x10, reloc_type = IMAGE_REL_BASED_HIGHLOW\<rparr>,
              \<lparr>reloc_offset = 0, reloc_type = IMAGE_REL_BASED_ABSOLUTE\<rparr>]"
  by (simp add: reloc_defs)

text \<open>
  Claim C4, amended. For the sorted offsets \<open>[0x100, 0x500, 0x1010]\<close> and 4096-byte pages
  the rebuilder, on either build, appends exactly two blocks to an empty \<^verbatim>\<open>.reloc\<close>
  (24 bytes, the new size of the relocation directory): one at \<open>VirtualAddress 0x0\<close> with
  the entries \<open>0x100\<close> and \<open>0x500\<close> and no padding entry, its entry count being even, and
  one at \<open>VirtualAddress 0x1000\<close> with the entry \<open>0x10\<close> and one type-0 padding entry; each
  block gets a fixup at its offset in the section (0 and 12). In general
  \<^verbatim>\<open>AppendRelocationBlock\<close> appends the type-0 entry (\<^verbatim>\<open>IMAGE_REL_BASED_ABSOLUTE\<close>, offset
  0) exactly when the number of entries of the block is odd, and the block it writes at
  the write offset of the section is the one of these padded entries.
\<close>

theorem AddRelocations_s4_blocks_and_padding:
  "(\<exists>st. AddRelocations win64 s4_desc [0x100, 0x500, 0x1010] s4_state = Inr st
      \<and> dir_Size (DataDirectory (nt_headers st) IMAGE_DIRECTORY_ENTRY_BASERELOC) = 24
      \<and> take 24 (sec_data (reloc_section st))
         = CreateRelocationBlockBuffer 0
             [\<lparr>reloc_offset = 0x100,
               reloc_type = (if win64 then IMAGE_REL_BASED_DIR64 else IMAGE_REL_BASED_HIGHLOW)\<rparr>,
              \<lparr>reloc_offset = 0x500,
               reloc_type = (if win64 then IMAGE_REL_BASED_DIR64 else IMAGE_REL_BASED_HIGHLOW)\<rparr>]
           @ CreateRelocationBlockBuffer 0x1000
             [\<lparr>reloc_offset = 0x10,
               reloc_type = (if win64 then IMAGE_REL_BASED_DIR64 else IMAGE_REL_BASED_HIGHLOW)\<rparr>,
              \<lparr>reloc_offset = 0, reloc_type = IMAGE_REL_BASED_ABSOLUTE\<rparr>]
      \<and> map offset (fixup_vector st) = [0, 12])
   \<and> fst (snd (AppendRelocationBlock va relocations st0))
       = (if odd (length relocations)
          then relocations @ [\<lparr>reloc_offset = 0, reloc_type = IMAGE_REL_BASED_ABSOLUTE\<rparr>]
          else relocations)
   \<and> take (length (CreateRelocationBlockBuffer va
                      (fst (snd (AppendRelocationBlock va relocations st0)))))
        (drop (sec_offset (reloc_section st0))
           (sec_data (reloc_section (snd (snd (AppendRelocationBlock va relocations st0))))))
       = CreateRelocationBlockBuffer va (fst (snd (AppendRelocationBlock va relocations st0)))"
  using s4_run[of win64] AppendRelocationBlock_padded[of va relocations st0]
    AppendRelocationBlock_bytes[of va relocations st0]
  by blast

subsection \<open>The jump-table parser on scenario S1\<close>

lemmas s1_defs = s1_engine_def s1_jmp_def s1_image_def s1_text_header_def blank_operand_def

lemmas jump_table_defs = GetOperandDestinationValueDisassasemblyPoint_def uptr_def FromRva_def
  IsRvaWithinSection_def read_u32_def read_bytes_def of_le32_def AddDisassemblyPoint_def Let_def

lemma s1_loop:
  "ParseJumpTable_loop False s1_jmp (operands (x86 (detail s1_jmp)) 0) 0x1020 0 s1_engine
     = Inr (8, s1_engine
              \<lparr>disassembly_points :=
                 [\<lparr>rva = 0x1030, code = 0x430\<rparr>, \<lparr>rva = 0x1040, code = 0x440\<rparr>],
               disassembly_points_cache := {0x1030, 0x1040}\<rparr>)"
  apply (subst ParseJumpTable_loop.simps)
  apply (simp add: s1_defs jump_table_defs)
  apply (subst ParseJumpTable_loop.simps)
  apply (simp add: s1_defs jump_table_defs)
  apply (subst ParseJumpTable_loop.simps)
  apply (simp add: s1_defs jump_table_defs)
  apply auto
  done

lemma s1_operand_rva:
  "GetOperandRva False (operands (x86 (detail s1_jmp)) 0) (pe_image_base s1_engine) = Inr 0x1020"
  by (simp add: GetOperandRva_def s1_defs uptr_def)

lemma s1_parse:
  "ParseJumpTable False s1_engine s1_jmp (operands (x86 (detail s1_jmp)) 0)
     = Inr (s1_engine
              \<lparr>disassembly_points :=
                 [\<lparr>rva = 0x1030, code = 0x430\<rparr>, \<lparr>rva = 0x1040, code = 0x440\<rparr>],
               disassembly_points_cache := {0x1030, 0x1040},
               data_ranges := [\<lparr>begin_address = 0x1020, end_address = 0x1028\<rparr>]\<rparr>)"
proof -
  have t: "op_type (operands (x86 (detail s1_jmp)) 0) = X86_OP_MEM"
    by (simp add: s1_defs)
  show ?thesis
    by (simp add: ParseJumpTable_def t s1_operand_rva s1_loop uptr_def)
      (simp add: s1_engine_def)
qed

lemma s1_is_jump_table:
  "IsJumpTable False dec s1_engine s1_jmp (current_instruction_code s1_engine) (address s1_jmp)
     = Inr True"
  by (simp add: IsJumpTable_def IsJumpTableX86_def IsGuaranteedJump_def GetOperandRva_def
      IsRvaWithinSection_def s1_defs uptr_def)

lemma s1_parse_instruction:
  "ParseInstruction False dec s1_engine s1_jmp
     = Some (Inr (NextDisassemblyPoint,
          s1_engine
            \<lparr>disassembly_points :=
               [\<lparr>rva = 0x1030, code = 0x430\<rparr>, \<lparr>rva = 0x1040, code = 0x440\<rparr>],
             disassembly_points_cache := {0x1030, 0x1040},
             data_ranges := [\<lparr>begin_address = 0x1020, end_address = 0x1028\<rparr>]\<rparr>))"
proof -
  have g: "\<not> cs_insn_group s1_jmp CS_GRP_RET" "cs_insn_group s1_jmp CS_GRP_JUMP"
    "op_count (x86 (detail s1_jmp)) = 1"
    "op_type (operands (x86 (detail s1_jmp)) 0) \<noteq> X86_OP_IMM"
    by (simp_all add: cs_insn_group_def s1_defs)
  show ?thesis
    unfolding ParseInstruction_def Let_def using g
    by (simp add: s1_is_jump_table s1_parse)
qed

text \<open>
  Claim C3, as the claim states it, fails: the data range the parser records on the S1
  input is not \<open>[0x1020, 0x102C)\<close>.
\<close>

theorem ParseJumpTable_s1_range_is_not_0x102C:
  "\<exists>E'. ParseJumpTable False s1_engine s1_jmp (operands (x86 (detail s1_jmp)) 0) = Inr E'
      \<and> data_ranges E' \<noteq> [\<lparr>begin_address = 0x1020, end_address = 0x102C\<rparr>]"
  by (simp add: s1_parse)

text \<open>
  Claim C3, amended. On the S1 input of the 32-bit build (a \<^verbatim>\<open>JMP [eax*4+0x401020]\<close> at
  RVA \<open>0x1000\<close> with image base \<open>0x400000\<close>, and a table at RVA \<open>0x1020\<close> holding
  \<open>0x00401030\<close>, \<open>0x00401040\<close>, \<open>0\<close>) the jump-table parser enqueues exactly the RVAs
  \<open>0x1030\<close> and \<open>0x1040\<close>, stops at the zero entry, and records the data range
  \<open>[0x1020, 0x1028)\<close>: the range ends behind the last entry enqueued,
  \<open>table_rva + entries_enqueued * 4\<close>, and leaves the terminating entry out.
  \<^verbatim>\<open>ParseInstruction\<close> takes the instruction for a jump table, whatever the decoder,
  and ends the stream (\<open>NextDisassemblyPoint\<close>).
\<close>

theorem ParseJumpTable_s1:
  "(\<exists>E'. ParseJumpTable False s1_engine s1_jmp (operands (x86 (detail s1_jmp)) 0) = Inr E'
      \<and> ParseInstruction False dec s1_engine s1_jmp = Some (Inr (NextDisassemblyPoint, E'))
      \<and> disassembly_points E' = [\<lparr>rva = 0x1030, code = 0x430\<rparr>, \<lparr>rva = 0x1040, code = 0x440\<rparr>]
      \<and> disassembly_points_cache E' = {0x1030, 0x1040}
      \<and> data_ranges E' = [\<lparr>begin_address = 0x1020, end_address = 0x1028\<rparr>])
   \<and> read_u32 (pe_image s1_engine) (0x420 + 8) = Some 0"
  by (simp add: s1_parse s1_parse_instruction)
    (simp add: s1_defs read_u32_def read_bytes_def of_le32_def)

subsection \<open>Immediates that point at a function\<close>

lemmas fp_defs = fp_engine_def s1_text_header_def fp_mov_mem_imm_def fp_mov_reg_imm_def
  mk_insn_def imm_operand_def mem_operand_def reg_operand_def blank_operand_def

lemma fp_drop: "drop 0x430 fp_image = [0x55, 0x8B, 0xEC, 0xC3] @ replicate 460 0xCC"
  by (simp add: fp_image_def)

lemma fp_drop1: "drop 0x431 fp_image = [0x8B, 0xEC, 0xC3] @ replicate 460 0xCC"
  by (simp add: fp_image_def)

lemma fp_drop3: "drop 0x433 fp_image = [0xC3] @ replicate 460 0xCC"
  by (simp add: fp_image_def)

lemma fp_disasm3:
  "sz = 0x1F6 \<or> sz = 0x1EB \<Longrightarrow>
   cs_disasm tiny_decode fp_image (0x430, sz, 0x1030) 3 =
     [mk_insn X86_INS_PUSH 0x1030 1 [] [reg_operand X86_REG_EBP],
      mk_insn X86_INS_MOV 0x1031 2 [] [reg_operand X86_REG_EBP, reg_operand X86_REG_ESP],
      mk_insn (X86_INS_OTHER 0) 0x1033 1 [CS_GRP_RET] []]"
  by (erule disjE)
    (simp_all add: numeral_3_eq_3 cs_disasm_iter_def fp_drop fp_drop1 fp_drop3 tiny_decode_def
      mk_insn_def)

lemma fp_is_function:
  "(a = 0 \<and> b = 10) \<or> (a = 0x10 \<and> b = 5) \<Longrightarrow>
   IsFunction False tiny_decode (fp_engine a b) 0x430 0x1030 = Some (Inr True)"
  apply (simp add: IsFunction_def)
  apply (subst IsFunctionX86.simps)
  apply (erule disjE)
   apply (simp_all add: fp_engine_def fp_disasm3 IsGuaranteedJump_def Let_def)
   apply (simp_all add: mk_insn_def reg_operand_def blank_operand_def)
  done

lemma IsJumpTable_mov_mem_imm:
  "op_count (x86 (detail instruction)) = 2 \<Longrightarrow>
   op_type (operands (x86 (detail instruction)) 0) \<noteq> X86_OP_REG \<Longrightarrow>
   IsJumpTable win64 dec E instruction code0 rva0 = Inr False"
  by (simp add: IsJumpTable_def IsJumpTableX64_def Let_def)

lemma IsJumpTable_mov_imm:
  "op_count (x86 (detail instruction)) = 2 \<Longrightarrow>
   op_type (operands (x86 (detail instruction)) 1) \<noteq> X86_OP_MEM \<Longrightarrow>
   IsJumpTable win64 dec E instruction code0 rva0 = Inr False"
  by (simp add: IsJumpTable_def IsJumpTableX64_def Let_def)

text \<open>
  Claim C8, as the claim states it, fails for a register destination. On the 32-bit
  build \<^verbatim>\<open>MOV EAX, 0x401030\<close> has an immediate whose RVA \<open>0x1030\<close> lies in \<^verbatim>\<open>.text\<close> and
  passes the prologue test, and \<^verbatim>\<open>ParseInstruction\<close> leaves the engine as it was: no
  disassembly point is enqueued.
\<close>

theorem ParseInstruction_mov_reg_imm_not_enqueued:
  "insn_id fp_mov_reg_imm = X86_INS_MOV
   \<and> op_type (operands (x86 (detail fp_mov_reg_imm)) 0) = X86_OP_REG
   \<and> GetOperandRva False (operands (x86 (detail fp_mov_reg_imm)) 1)
        (pe_image_base (fp_engine 0x10 5)) = Inr 0x1030
   \<and> FromRva (pe_section_headers (fp_engine 0x10 5)) 0x1030 \<noteq> None
   \<and> IsRvaWithinSection (pe_text_section_header (fp_engine 0x10 5)) 0x1030
   \<and> IsFunction False tiny_decode (fp_engine 0x10 5)
        (uptr False (RvaToFileOffset (pe_section_headers (fp_engine 0x10 5)) 0x1030)) 0x1030
       = Some (Inr True)
   \<and> ParseInstruction False tiny_decode (fp_engine 0x10 5) fp_mov_reg_imm
       = Some (Inr (NextInstruction, fp_engine 0x10 5))
   \<and> disassembly_points (fp_engine 0x10 5) = []"
proof -
  have off: "uptr False (RvaToFileOffset (pe_section_headers (fp_engine 0x10 5)) 0x1030) = 0x430"
    by (simp add: RvaToFileOffset_def FromRva_def IsRvaWithinSection_def fp_defs uptr_def)
  have isf: "IsFunction False tiny_decode (fp_engine 0x10 5) 0x430 0x1030 = Some (Inr True)"
    by (rule fp_is_function) simp
  have jt: "IsJumpTable False tiny_decode (fp_engine 0x10 5) fp_mov_reg_imm
              (current_instruction_code (fp_engine 0x10 5)) (address fp_mov_reg_imm) = Inr False"
    by (rule IsJumpTable_mov_imm) (simp_all add: fp_defs)
  have vt: "IsVTableOrFunction False (fp_engine 0x10 5)
              (operands (x86 (detail fp_mov_reg_imm)) 0)
              (operands (x86 (detail fp_mov_reg_imm)) 1) = Inr False"
    by (simp add: IsVTableOrFunction_def fp_defs)
  have g: "\<not> cs_insn_group fp_mov_reg_imm CS_GRP_RET" "\<not> cs_insn_group fp_mov_reg_imm CS_GRP_CALL"
    "\<not> cs_insn_group fp_mov_reg_imm CS_GRP_JUMP" "\<not> cs_insn_group fp_mov_reg_imm CS_GRP_INT"
    "insn_id fp_mov_reg_imm = X86_INS_MOV" "op_count (x86 (detail fp_mov_reg_imm)) = 2"
    by (simp_all add: cs_insn_group_def fp_defs)
  have pi: "ParseInstruction False tiny_decode (fp_engine 0x10 5) fp_mov_reg_imm
       = Some (Inr (NextInstruction, fp_engine 0x10 5))"
    unfolding ParseInstruction_def Let_def using g by (simp add: jt vt del: One_nat_def)
  have rest: "op_type (operands (x86 (detail fp_mov_reg_imm)) 0) = X86_OP_REG"
    "GetOperandRva False (operands (x86 (detail fp_mov_reg_imm)) 1)
        (pe_image_base (fp_engine 0x10 5)) = Inr 0x1030"
    "FromRva (pe_section_headers (fp_engine 0x10 5)) 0x1030 \<noteq> None"
    "IsRvaWithinSection (pe_text_section_header (fp_engine 0x10 5)) 0x1030"
    "disassembly_points (fp_engine 0x10 5) = []"
    by (simp_all add: GetOperandRva_def FromRva_def IsRvaWithinSection_def fp_defs uptr_def)
  show ?thesis using g(5) rest pi isf unfolding off by simp
qed

text \<open>
  Claim C8, amended. For every decoded two-operand \<^verbatim>\<open>MOV mem, imm\<close> (the destination a
  memory operand, the instruction in none of the return, call, jump and interrupt groups)
  whose immediate-derived RVA lands inside some section: if the target lies in \<^verbatim>\<open>.text\<close>
  and passes the function-prologue test, the engine enqueues the target RVA as a
  disassembly point, with the code pointer at its file offset, and disassembly goes on
  with the next instruction of the current stream. Enqueueing is \<^verbatim>\<open>AddDisassemblyPoint\<close>:
  afterwards the target is among the RVAs enqueued, and it is pushed on the work stack
  unless it had been enqueued before.
\<close>

theorem ParseInstruction_mov_mem_imm_enqueues:
  assumes "insn_id instruction = X86_INS_MOV"
    and "\<not> cs_insn_group instruction CS_GRP_RET" and "\<not> cs_insn_group instruction CS_GRP_CALL"
    and "\<not> cs_insn_group instruction CS_GRP_JUMP" and "\<not> cs_insn_group instruction CS_GRP_INT"
    and "op_count (x86 (detail instruction)) = 2"
    and "op_type (operands (x86 (detail instruction)) 0) = X86_OP_MEM"
    and "op_type (operands (x86 (detail instruction)) 1) = X86_OP_IMM"
    and "GetOperandRva win64 (operands (x86 (detail instruction)) 1) (pe_image_base E) = Inr target"
    and "FromRva (pe_section_headers E) target \<noteq> None"
    and "IsRvaWithinSection (pe_text_section_header E) target"
    and "IsFunction win64 dec E (uptr win64 (RvaToFileOffset (pe_section_headers E) target)) target
           = Some (Inr True)"
  shows "ParseInstruction win64 dec E instruction
           = Some (Inr (NextInstruction,
               AddDisassemblyPoint
                 \<lparr>rva = target, code = uptr win64 (RvaToFileOffset (pe_section_headers E) target)\<rparr>
                 E))
         \<and> target \<in> disassembly_points_cache
              (AddDisassemblyPoint
                 \<lparr>rva = target, code = uptr win64 (RvaToFileOffset (pe_section_headers E) target)\<rparr>
                 E)
         \<and> disassembly_points
              (AddDisassemblyPoint
                 \<lparr>rva = target, code = uptr win64 (RvaToFileOffset (pe_section_headers E) target)\<rparr>
                 E)
             = (if target \<in> disassembly_points_cache E then disassembly_points E
                else disassembly_points E
                  @ [\<lparr>rva = target,
                      code = uptr win64 (RvaToFileOffset (pe_section_headers E) target)\<rparr>])"
proof -
  have jt: "IsJumpTable win64 dec E instruction (current_instruction_code E) (address instruction)
              = Inr False"
    using assms(6,7) by (intro IsJumpTable_mov_mem_imm) simp_all
  have vt: "IsVTableOrFunction win64 E (operands (x86 (detail instruction)) 0)
              (operands (x86 (detail instruction)) 1) = Inr True"
    using assms(7,8,9,10) by (auto simp: IsVTableOrFunction_def)
  have dest: "GetOperandDestinationValueDisassasemblyPoint win64 E instruction
                (current_instruction_code E) target
              = \<lparr>rva = target, code = uptr win64 (RvaToFileOffset (pe_section_headers E) target)\<rparr>"
    using assms(1) by (simp add: GetOperandDestinationValueDisassasemblyPoint_def)
  have "ParseInstruction win64 dec E instruction
           = Some (Inr (NextInstruction,
               AddDisassemblyPoint
                 \<lparr>rva = target, code = uptr win64 (RvaToFileOffset (pe_section_headers E) target)\<rparr>
                 E))"
    unfolding ParseInstruction_def Let_def
    using assms(1-6) by (simp add: jt vt assms(9) dest assms(11) assms(12) del: One_nat_def)
  then show ?thesis by (simp add: AddDisassemblyPoint_def)
qed

theorem ParseInstruction_mov_mem_imm_enqueues_witness:
  "ParseInstruction False tiny_decode (fp_engine 0 10) fp_mov_mem_imm
     = Some (Inr (NextInstruction,
         fp_engine 0 10\<lparr>disassembly_points := [\<lparr>rva = 0x1030, code = 0x430\<rparr>],
                         disassembly_points_cache := {0x1030}\<rparr>))"
proof -
  have off: "uptr False (RvaToFileOffset (pe_section_headers (fp_engine 0 10)) 0x1030) = 0x430"
    by (simp add: RvaToFileOffset_def FromRva_def IsRvaWithinSection_def fp_defs uptr_def)
  have isf: "IsFunction False tiny_decode (fp_engine 0 10)
               (uptr False (RvaToFileOffset (pe_section_headers (fp_engine 0 10)) 0x1030)) 0x1030
             = Some (Inr True)"
    unfolding off by (rule fp_is_function) simp
  have h: "insn_id fp_mov_mem_imm = X86_INS_MOV"
    "\<not> cs_insn_group fp_mov_mem_imm CS_GRP_RET" "\<not> cs_insn_group fp_mov_mem_imm CS_GRP_CALL"
    "\<not> cs_insn_group fp_mov_mem_imm CS_GRP_JUMP" "\<not> cs_insn_group fp_mov_mem_imm CS_GRP_INT"
    "op_count (x86 (detail fp_mov_mem_imm)) = 2"
    "op_type (operands (x86 (detail fp_mov_mem_imm)) 0) = X86_OP_MEM"
    "op_type (operands (x86 (detail fp_mov_mem_imm)) 1) = X86_OP_IMM"
    "GetOperandRva False (operands (x86 (detail fp_mov_mem_imm)) 1)
       (pe_image_base (fp_engine 0 10)) = Inr 0x1030"
    "FromRva (pe_section_headers (fp_engine 0 10)) 0x1030 \<noteq> None"
    "IsRvaWithinSection (pe_text_section_header (fp_engine 0 10)) 0x1030"
    by (simp_all add: cs_insn_group_def GetOperandRva_def FromRva_def IsRvaWithinSection_def
        fp_defs uptr_def)
  from ParseInstruction_mov_mem_imm_enqueues[OF h isf]
  show ?thesis unfolding off by (simp add: AddDisassemblyPoint_def fp_engine_def)
qed

subsection \<open>The scan of .rdata\<close>

text \<open>
  Claim C10. If the input PE has no section named \<^verbatim>\<open>.rdata\<close>, \<^verbatim>\<open>ParseRDataSection\<close>
  throws the runtime error ".rdata was not found": it does not skip the scan and hand
  back an engine to go on with.
\<close>

theorem ParseRDataSection_without_rdata_throws:
  assumes "\<forall>h \<in> set (pe_section_headers E). Name h \<noteq> ''.rdata''"
  shows "ParseRDataSection win64 dec E = Some (Inl (RuntimeError ''.rdata was not found''))"
proof -
  have "FromName (pe_section_headers E) ''.rdata'' = None"
    using assms by (simp add: FromName_def find_None_iff)
  then show ?thesis by (simp add: ParseRDataSection_def)
qed

theorem ParseRDataSection_without_rdata_throws_witness:
  "map Name (pe_section_headers s1_engine) = [''.text'']
   \<and> ParseRDataSection False tiny_decode s1_engine
       = Some (Inl (RuntimeError ''.rdata was not found''))"
proof -
  have h: "\<forall>h \<in> set (pe_section_headers s1_engine). Name h \<noteq> ''.rdata''"
    by (simp add: s1_engine_def s1_text_header_def)
  have n: "map Name (pe_section_headers s1_engine) = [''.text'']"
    by (simp add: s1_engine_def s1_text_header_def)
  from ParseRDataSection_without_rdata_throws[OF h, of False tiny_decode] n
  show ?thesis by blast
qed

subsection \<open>The depth of the function-prologue test\<close>

lemma IsFunctionX86_bound_exceeded:
  "recursion_counter > 10 \<Longrightarrow> IsFunctionX86 win64 dec E code0 rva0 recursion_counter = Inr False"
  by (subst IsFunctionX86.simps) simp

lemma IsFunctionX86_self_jump:
  assumes size: "code_buf_size E - current_code_index E > 0"
    and dis: "cs_disasm dec (pe_image E) (code0, code_buf_size E - current_code_index E, rva0) 3
                = [i1, i2, i3]"
    and jmp: "IsGuaranteedJump i1"
    and tgt: "uptr win64 (imm (operands (x86 (detail i1)) 0)) = rva0" "address i1 = rva0"
    and ptr: "uptr win64 code0 = code0"
  shows "IsFunctionX86 win64 dec E code0 rva0 recursion_counter = Inr False"
proof (induction "11 - recursion_counter" arbitrary: recursion_counter)
  case 0
  then show ?case by (intro IsFunctionX86_bound_exceeded) simp
next
  case (Suc n)
  then have le: "\<not> recursion_counter > 10" and n: "n = 11 - Suc recursion_counter" by simp_all
  have dest: "GetOperandDestinationValueDisassasemblyPoint win64 E i1 code0 rva0
                = \<lparr>rva = rva0, code = code0\<rparr>"
    using jmp tgt(2) ptr
    by (auto simp: GetOperandDestinationValueDisassasemblyPoint_def IsGuaranteedJump_def)
  show ?case
    by (subst IsFunctionX86.simps)
      (simp add: le size dis jmp tgt(1) dest Let_def Suc.hyps(1)[of "Suc recursion_counter"] n)
qed

lemma IsFunctionX64_never_returns_on_self_jump:
  assumes size: "code_buf_size E - current_code_index E > 0"
    and dis: "cs_disasm_iter dec (pe_image E)
                (code0, code_buf_size E - current_code_index E, rva0) = Some (ins, cur)"
    and jmp: "IsGuaranteedJump ins"
    and tgt: "imm (operands (x86 (detail ins)) 0) = rva0" "address ins = rva0"
    and intext: "IsRvaWithinSection (pe_text_section_header E) rva0"
  shows "IsFunctionX64 w d e c r = Some y \<Longrightarrow>
         \<not> (w = True \<and> d = dec \<and> e = E \<and> c = code0 \<and> r = rva0)"
proof -
  assume major: "IsFunctionX64 w d e c r = Some y"
  show ?thesis
  proof (rule IsFunctionX64.raw_induct
      [where P = "\<lambda>w d e c r y. \<not> (w = True \<and> d = dec \<and> e = E \<and> c = code0 \<and> r = rva0)",
        OF _ major])
    fix f :: "bool \<Rightarrow> decoder \<Rightarrow> PeDisassemblyEngine \<Rightarrow> u64 \<Rightarrow> u64 \<Rightarrow> bool result option"
      and w d e c r y
    assume IH: "\<And>w d e c r y. f w d e c r = Some y \<Longrightarrow>
        \<not> (w = True \<and> d = dec \<and> e = E \<and> c = code0 \<and> r = rva0)"
    assume step: "(if \<not> 0 < code_buf_size e - current_code_index e
      then Some (Inl AssertionFailed)
      else case cs_disasm_iter d (pe_image e)
                 (c, code_buf_size e - current_code_index e, r) of
           None \<Rightarrow> Some (Inr False)
           | Some (instruction, cur) \<Rightarrow>
               if IsGuaranteedJump instruction
               then let operand = operands (x86 (detail instruction)) 0;
                        jump_target_rva = imm operand;
                        jump_dest_disasm_point =
                          GetOperandDestinationValueDisassasemblyPoint w
                           e instruction c (uptr w jump_target_rva)
                    in if \<not> IsRvaWithinSection (pe_text_section_header e)
                             (rva jump_dest_disasm_point)
                       then Some (Inr False)
                       else f w d e
                             (code jump_dest_disasm_point)
                             (rva jump_dest_disasm_point)
               else Some
                     (IsFunctionX64_prologue d (pe_image e) instruction
                       cur)) =
     Some y"
    show "\<not> (w = True \<and> d = dec \<and> e = E \<and> c = code0 \<and> r = rva0)"
    proof
      assume eq: "w = True \<and> d = dec \<and> e = E \<and> c = code0 \<and> r = rva0"
      have dest: "GetOperandDestinationValueDisassasemblyPoint True E ins code0 rva0
                    = \<lparr>rva = rva0, code = code0\<rparr>"
        using jmp tgt(2)
        by (auto simp: GetOperandDestinationValueDisassasemblyPoint_def IsGuaranteedJump_def
            uptr_def)
      from step eq have "f True dec E code0 rva0 = Some y"
        by (simp add: size dis jmp tgt(1) intext dest uptr_def Let_def)
      from IH[OF this] show False by simp
    qed
  qed
qed

text \<open>
  Claim C6 on its failing input. On the 64-bit build, when the code at the target of the
  test is a direct jump to its own address inside \<^verbatim>\<open>.text\<close>, \<^verbatim>\<open>IsFunctionX64\<close> never
  returns: it calls itself on the same target again and again, and no counter bounds the
  depth of the recursion.
\<close>

theorem IsFunctionX64_self_jump_diverges:
  assumes "code_buf_size E - current_code_index E > 0"
    and "cs_disasm_iter dec (pe_image E)
           (code0, code_buf_size E - current_code_index E, rva0) = Some (ins, cur)"
    and "IsGuaranteedJump ins"
    and "imm (operands (x86 (detail ins)) 0) = rva0" and "address ins = rva0"
    and "IsRvaWithinSection (pe_text_section_header E) rva0"
  shows "IsFunctionX64 True dec E code0 rva0 = None"
proof (rule ccontr)
  assume "IsFunctionX64 True dec E code0 rva0 \<noteq> None"
  then obtain y where "IsFunctionX64 True dec E code0 rva0 = Some y" by auto
  from IsFunctionX64_never_returns_on_self_jump[OF assms this] show False by simp
qed

lemma sj_iter:
  "cs_disasm_iter tiny_decode (pe_image sj_engine)
     (0x400, code_buf_size sj_engine - current_code_index sj_engine, 0x1000)
   = Some (mk_insn X86_INS_JMP 0x1000 2 [CS_GRP_JUMP] [imm_operand 0x1000], 0x402, 0x1FE, 0x1002)"
  by (simp add: cs_disasm_iter_def sj_engine_def sj_image_def tiny_decode_def mk_insn_def)

theorem IsFunctionX64_self_jump_diverges_witness:
  "IsFunctionX64 True tiny_decode sj_engine 0x400 0x1000 = None
   \<and> IsFunction True tiny_decode sj_engine 0x400 0x1000 = None"
proof -
  have h: "code_buf_size sj_engine - current_code_index sj_engine > 0"
    "IsGuaranteedJump (mk_insn X86_INS_JMP 0x1000 2 [CS_GRP_JUMP] [imm_operand 0x1000])"
    "imm (operands (x86 (detail (mk_insn X86_INS_JMP 0x1000 2 [CS_GRP_JUMP]
        [imm_operand 0x1000]))) 0) = 0x1000"
    "address (mk_insn X86_INS_JMP 0x1000 2 [CS_GRP_JUMP] [imm_operand 0x1000]) = 0x1000"
    "IsRvaWithinSection (pe_text_section_header sj_engine) 0x1000"
    by (simp_all add: sj_engine_def IsGuaranteedJump_def mk_insn_def imm_operand_def
        blank_operand_def IsRvaWithinSection_def s1_text_header_def)
  from IsFunctionX64_self_jump_diverges[OF h(1) sj_iter h(2-5)]
  show ?thesis by (simp add: IsFunction_def)
qed

text \<open>
  The 32-bit sibling on the same code: its counter stops the recursion and the test
  returns false.
\<close>

lemma sj_disasm3:
  "cs_disasm tiny_decode (pe_image sj_engine)
     (0x400, code_buf_size sj_engine - current_code_index sj_engine, 0x1000) 3
   = [mk_insn X86_INS_JMP 0x1000 2 [CS_GRP_JUMP] [imm_operand 0x1000],
      mk_insn X86_INS_PUSH 0x1002 1 [] [reg_operand X86_REG_EBP],
      mk_insn (X86_INS_OTHER 0) 0x1003 1 [CS_GRP_RET] []]"
  by (simp add: numeral_3_eq_3 cs_disasm_iter_def sj_engine_def sj_image_def tiny_decode_def
      mk_insn_def)

lemma IsFunctionX86_self_jump_returns_false:
  "IsFunction False tiny_decode sj_engine 0x400 0x1000 = Some (Inr False)"
proof -
  have h: "code_buf_size sj_engine - current_code_index sj_engine > 0"
    "IsGuaranteedJump (mk_insn X86_INS_JMP 0x1000 2 [CS_GRP_JUMP] [imm_operand 0x1000])"
    "uptr False (imm (operands (x86 (detail (mk_insn X86_INS_JMP 0x1000 2 [CS_GRP_JUMP]
        [imm_operand 0x1000]))) 0)) = 0x1000"
    "address (mk_insn X86_INS_JMP 0x1000 2 [CS_GRP_JUMP] [imm_operand 0x1000]) = 0x1000"
    "uptr False 0x400 = 0x400"
    by (simp_all add: sj_engine_def IsGuaranteedJump_def mk_insn_def imm_operand_def
        blank_operand_def uptr_def)
  from IsFunctionX86_self_jump[OF h(1) sj_disasm3 h(2-5), of 0]
  show ?thesis by (simp add: IsFunction_def)
qed

subsection \<open>Bytes and fixups\<close>




lemma of_le32_le32: "of_le32 (le32 w) = w"
  unfolding of_le32_def le32_def
proof (rule bit_word_eqI)
  fix n :: nat
  assume "n < LENGTH(32)"
  then consider "n < 8" | "8 \<le> n" "n < 16" | "16 \<le> n" "n < 24" | "24 \<le> n" "n < 32"
    by fastforce
  then show "bit (ucast ([ucast w, ucast (drop_bit 8 w), ucast (drop_bit 16 w),
                ucast (drop_bit 24 w) :: u8] ! 0)
            OR push_bit 8 (ucast ([ucast w, ucast (drop_bit 8 w), ucast (drop_bit 16 w),
                ucast (drop_bit 24 w) :: u8] ! 1))
            OR push_bit 16 (ucast ([ucast w, ucast (drop_bit 8 w), ucast (drop_bit 16 w),
                ucast (drop_bit 24 w) :: u8] ! 2))
            OR push_bit 24 (ucast ([ucast w, ucast (drop_bit 8 w), ucast (drop_bit 16 w),
                ucast (drop_bit 24 w) :: u8] ! 3)) :: u32) n = bit w n"
    by cases (auto simp add: bit_simps le_add_diff_inverse)
qed

lemma length_le32 [simp]: "length (le32 w) = 4"
  by (simp add: le32_def)

lemma write_bytes_length: "write_bytes buf pos bs = Some buf' \<Longrightarrow> length buf' = length buf"
  by (auto simp: write_bytes_def split: if_splits)

lemma write_bytes_same:
  "write_bytes buf pos bs = Some buf' \<Longrightarrow> take (length bs) (drop pos buf') = bs"
  by (auto simp: write_bytes_def split: if_splits)

lemma write_bytes_frame:
  assumes "write_bytes buf pos bs = Some buf'"
    and "p + n \<le> pos \<or> pos + length bs \<le> p"
  shows "take n (drop p buf') = take n (drop p buf)"
proof -
  from assms(1) have le: "pos + length bs \<le> length buf"
    and eq: "buf' = take pos buf @ bs @ drop (pos + length bs) buf"
    by (auto simp: write_bytes_def split: if_splits)
  have l1: "length (take pos buf) = pos" using le by simp
  from assms(2) show ?thesis
  proof
    assume a: "p + n \<le> pos"
    then have "take n (drop p buf') = take n (drop p (take pos buf))"
      unfolding eq using l1 by simp
    also have "\<dots> = take n (drop p buf)"
      using a by (simp add: drop_take min_def)
    finally show ?thesis .
  next
    assume a: "pos + length bs \<le> p"
    then have "drop p buf' = drop (p - pos - length bs) (drop (pos + length bs) buf)"
      unfolding eq using l1 by simp
    also have "\<dots> = drop p buf"
      using a by simp
    finally show ?thesis by simp
  qed
qed

lemma length_le64 [simp]: "length (le64 w) = 8"
  by (simp add: le64_def)

lemma apply_fixup_length:
  "apply_fixup names hs text_section g img = Inr img' \<Longrightarrow> length img' = length img"
  by (auto simp: apply_fixup_def write_bytes_length
      split: sum.splits option.splits if_splits)

lemma apply_fixup_frame:
  assumes "apply_fixup names hs text_section g img = Inr img'"
    and "fixup_leaves names hs text_section p n g"
  shows "take n (drop p img') = take n (drop p img)"
proof -
  from assms(1) obtain fo bs where fo: "fixup_file_offset names hs text_section g = Inr fo"
    and w: "write_bytes img (unat fo) bs = Some img'"
    and l: "length bs = unat (fixup_size (desc g))"
    by (auto simp: apply_fixup_def split: sum.splits option.splits if_splits)
  from assms(2) fo have "p + n \<le> unat fo \<or> unat fo + length bs \<le> p"
    by (simp add: fixup_leaves_def l)
  with w show ?thesis by (rule write_bytes_frame)
qed

lemma FixFinishedPe_fixups_frame:
  "FixFinishedPe_fixups names hs text_section gs img = Inr img' \<Longrightarrow>
   list_all (fixup_leaves names hs text_section p n) gs \<Longrightarrow>
   take n (drop p img') = take n (drop p img) \<and> length img' = length img"
proof (induction gs arbitrary: img)
  case Nil
  then show ?case by simp
next
  case (Cons g gs)
  from Cons.prems(1) obtain img1 where a: "apply_fixup names hs text_section g img = Inr img1"
    and r: "FixFinishedPe_fixups names hs text_section gs img1 = Inr img'"
    by (auto split: sum.splits)
  from Cons.prems(2) have lv: "fixup_leaves names hs text_section p n g"
    and rest: "list_all (fixup_leaves names hs text_section p n) gs" by simp_all
  from Cons.IH[OF r rest] apply_fixup_frame[OF a lv] apply_fixup_length[OF a]
  show ?case by simp
qed

lemma FixFinishedPe_fixups_append:
  "FixFinishedPe_fixups names hs text_section (gs @ gs') img = Inr img' \<Longrightarrow>
   \<exists>img1. FixFinishedPe_fixups names hs text_section gs img = Inr img1
     \<and> FixFinishedPe_fixups names hs text_section gs' img1 = Inr img'"
  by (induction gs arbitrary: img) (auto split: sum.splits)

lemma apply_fixup_add_vm_loader_32:
  assumes run: "apply_fixup names hs text_section f img = Inr img'"
    and fo: "fixup_file_offset names hs text_section f = Inr fo"
    and f: "fixup_size (desc f) = 4" "operation (desc f) = AddVmLoaderSectionVirtualAddress"
    and vm: "FromName hs (VM_LOADER_SECTION_NAME names) = Some vm_loader"
  shows "take 4 (drop (unat fo) img')
           = le32 (of_le32 (take 4 (drop (unat fo) img)) + VirtualAddress vm_loader)"
proof -
  from run fo f vm
  have "write_bytes img (unat fo)
          (le32 (of_le32 (take 4 (drop (unat fo) img)) + VirtualAddress vm_loader)) = Some img'"
    by (auto simp: apply_fixup_def fixup_operand_def read_u32_def read_bytes_def
        split: sum.splits option.splits if_splits)
  from write_bytes_same[OF this] show ?thesis by simp
qed




lemma pv_relocs: "GetRelocationsWithinInstruction fp_mov_mem_imm [0x1002, 0x1006] = [0x1002, 0x1006]"
  using GetRelocationsWithinInstruction_is_filter[of "[0x1002, 0x1006]" fp_mov_mem_imm]
  by (simp add: fp_mov_mem_imm_def mk_insn_def)

lemma pv_text: "drop 0x400 fp_image =
   [0xC7, 0x05, 0x00, 0x20, 0x40, 0x00, 0x30, 0x10, 0x40, 0x00] @ drop 0x40A fp_image"
  by (simp add: fp_image_def)

lemma fp_image_len: "length fp_image = 0x600"
  by (simp add: fp_image_def)

lemma pv_text_len: "length (drop 0x40A fp_image) = 502"
  by (simp add: fp_image_def)

lemma pv_toy:
  "GetVmOpcode toy_virtualizer fp_mov_mem_imm = 1"
  "IsVirtualizeable toy_virtualizer i v = (v = 1)"
  "CreateVirtualizedShellcode toy_virtualizer i v k r = le32 k"
  "GetLoaderShellcodeForVirtualizedCode toy_virtualizer i v b = replicate 28 0x90"
  "GetBuffer toy_virtualizer sc = sc"
  "GetNamedValueOffset toy_virtualizer sc name = of_nat (toy_offset name)"
  "ModifyVariable toy_virtualizer name bytes sc
     = take (toy_offset name) sc @ bytes @ drop (toy_offset name + length bytes) sc"
  by (simp_all add: toy_virtualizer_def fp_mov_mem_imm_def mk_insn_def)

lemma pv_offsets:
  "toy_offset VmOpcodeEncryptionKeyVariable = 0" "toy_offset VmCodeAddrVariable = 4"
  "toy_offset ImageBaseVariable = 12" "toy_offset VmCoreFunctionVariable = 20"
  "toy_offset OrigAddrVariable = 24"
  by (simp_all add: toy_offset_def VmOpcodeEncryptionKeyVariable_def VmCodeAddrVariable_def
      ImageBaseVariable_def VmCoreFunctionVariable_def OrigAddrVariable_def)

lemma pv_callback:
  "EachInstructionCallback False toy_virtualizer pv_env pv_draws fp_mov_mem_imm pv_state
     = Inr pv_state1"
  unfolding EachInstructionCallback_def pv_toy Let_def
  apply (simp add: pv_env_def pv_relocs pv_offsets pv_state_def pv_draws_def AppendCode_def CreateEmptySection_def AlignUp_def
     GetCurrentOffset_def kCallInstructionSize_def kJmpInstructionSize_def kJmpOpcode_def uintptr_bytes_def
      RvaToSectionOffset_def s1_text_header_def pv_text write_bytes_def pv_text_len Let_def
      map_replicate_const)
  apply (simp add: fp_mov_mem_imm_def mk_insn_def imm_operand_def mem_operand_def blank_operand_def le32_def pv_state1_def)
  done


lemmas pv_pe_defs = fixup_file_offset_def fixup_operand_def FromName_def FromRva_def
  RvaToFileOffset_def SectionOffsetToRva_def IsRvaWithinSection_def pv_headers_def pv_names_def
  s1_text_header_def

lemma apply_fixup_succeeds:
  assumes "fixup_applies names hs text_section (length img) g"
  shows "\<exists>img'. apply_fixup names hs text_section g img = Inr img'"
proof -
  from assms obtain fo where
    fo: "fixup_file_offset names hs text_section g = Inr fo"
    and sz: "fixup_size (desc g) = 4 \<or> fixup_size (desc g) = 8"
    and nl: "\<not> isl (fixup_operand names hs (operation (desc g)))"
    and fit: "unat fo + unat (fixup_size (desc g)) \<le> length img"
    by (auto simp: fixup_applies_def split: sum.splits)
  from nl obtain va where va: "fixup_operand names hs (operation (desc g)) = Inr va"
    by (cases "fixup_operand names hs (operation (desc g))") auto
  from sz show ?thesis
  proof
    assume "fixup_size (desc g) = 4"
    then show ?thesis using fo va fit
      by (simp add: apply_fixup_def read_u32_def read_bytes_def write_bytes_def)
  next
    assume "fixup_size (desc g) = 8"
    then show ?thesis using fo va fit
      by (simp add: apply_fixup_def read_u64_def read_bytes_def write_bytes_def)
  qed
qed

lemma FixFinishedPe_fixups_succeeds:
  "list_all (fixup_applies names hs text_section (length img)) gs \<Longrightarrow>
   \<exists>img'. FixFinishedPe_fixups names hs text_section gs img = Inr img'"
proof (induction gs arbitrary: img)
  case Nil
  then show ?case by simp
next
  case (Cons g gs)
  then obtain img1 where a: "apply_fixup names hs text_section g img = Inr img1"
    using apply_fixup_succeeds[of names hs text_section img g] by auto
  have "length img1 = length img" using a by (rule apply_fixup_length)
  with Cons.prems have "list_all (fixup_applies names hs text_section (length img1)) gs"
    by simp
  from Cons.IH[OF this] a show ?case by simp
qed

subsection \<open>Instructions that touch the flags\<close>

lemma run_callbacks_append:
  "run_callbacks win64 V env (pre @ rest) st =
     (case run_callbacks win64 V env pre st of
        Inl e \<Rightarrow> Inl e
      | Inr st' \<Rightarrow> run_callbacks win64 V env rest st')"
proof (induction pre arbitrary: st)
  case Nil
  then show ?case by simp
next
  case (Cons ev pre)
  then show ?case by (cases ev) (auto split: sum.splits)
qed

text \<open>
  Claim C2. Whenever the per-instruction callback receives an instruction that is
  classified virtualizable and whose \<open>eflags\<close> bitmask is not zero, it throws, whatever
  the state; and when this happens in a run whose earlier events went through, the whole
  run of \<^verbatim>\<open>Protect\<close> ends with that error: what follows the driver is not run, no image
  is produced and the state reached so far is dropped.
\<close>

theorem eflags_instruction_aborts_run:
  assumes "IsVirtualizeable V instruction (GetVmOpcode V instruction)"
    and "eflags (x86 (detail instruction)) \<noteq> 0"
    and "run_callbacks win64 V env pre st = Inr st1"
  shows "EachInstructionCallback win64 V env rnd instruction st0
           = Inl (RuntimeError eflags_message)
         \<and> Protect_from_disassembly win64 V env finish
              (pre @ InstructionEvent instruction rnd # post) st
           = Inl (RuntimeError eflags_message)"
proof -
  have cb: "\<And>s. EachInstructionCallback win64 V env rnd instruction s
                 = Inl (RuntimeError eflags_message)"
    using assms(1,2) by (simp add: EachInstructionCallback_def Let_def)
  then show ?thesis
    using assms(3) by (simp add: Protect_from_disassembly_def run_callbacks_append)
qed

theorem eflags_instruction_aborts_run_witness:
  "Protect_from_disassembly False toy_virtualizer pv_env (\<lambda>st. Inr st)
     [InstructionEvent fp_mov_mem_imm pv_draws,
      InstructionEvent
        (fp_mov_reg_imm\<lparr>detail := (detail fp_mov_reg_imm)
           \<lparr>x86 := (x86 (detail fp_mov_reg_imm))\<lparr>eflags := 0x40\<rparr>\<rparr>\<rparr>)
        pv_draws]
     pv_state
   = Inl (RuntimeError eflags_message)"
proof -
  let ?ins = "fp_mov_reg_imm\<lparr>detail := (detail fp_mov_reg_imm)
           \<lparr>x86 := (x86 (detail fp_mov_reg_imm))\<lparr>eflags := 0x40\<rparr>\<rparr>\<rparr>"
  have v: "IsVirtualizeable toy_virtualizer ?ins (GetVmOpcode toy_virtualizer ?ins)"
    by (simp add: toy_virtualizer_def fp_mov_reg_imm_def mk_insn_def)
  have e: "eflags (x86 (detail ?ins)) \<noteq> 0" by simp
  have r: "run_callbacks False toy_virtualizer pv_env
             [InstructionEvent fp_mov_mem_imm pv_draws] pv_state = Inr pv_state1"
    by (simp add: pv_callback)
  from eflags_instruction_aborts_run[OF v e r, of pv_draws pv_state "\<lambda>st. Inr st" "[]"]
  show ?thesis by simp
qed

subsection \<open>The rollback of a virtualized instruction\<close>

lemma EachInstructionCallback_records_fixup:
  assumes cb: "EachInstructionCallback win64 V env rnd instruction st = Inr st'"
    and virt: "IsVirtualizeable V instruction (GetVmOpcode V instruction)"
    and created: "CreateVirtualizedShellcode V instruction (GetVmOpcode V instruction)
                    (key_draw rnd)
                    (GetRelocationsWithinInstruction instruction (original_pe_relocation_rvas env))
                  \<noteq> []"
  shows "\<exists>jb vc. fixups (fixup_context (protector_context st'))
           = fixups (fixup_context (protector_context st))
             @ [jb, vc, jmp_to_vm_loader_fixup env instruction]"
proof -
  have ef: "eflags (x86 (detail instruction)) = 0"
    using cb virt by (auto simp: EachInstructionCallback_def Let_def split: if_splits)
  from cb virt created ef show ?thesis
    unfolding EachInstructionCallback_def jmp_to_vm_loader_fixup_def
      instruction_text_section_offset_def
    by (auto simp: Let_def split: prod.splits option.splits)
qed

lemma InvalidInstructionCallback_frame:
  assumes "InvalidInstructionCallback env address0 ins_data st1 = Inr st2"
  shows "fixups (fixup_context (protector_context st2))
           = fixups (fixup_context (protector_context st1))"
    and "vm_section_offsets_to_add_to_relocation_table (fixup_context (protector_context st2))
           = vm_section_offsets_to_add_to_relocation_table
               (fixup_context (protector_context st1))"
    and "vm_loader_section (protector_context st2) = vm_loader_section (protector_context st1)"
    and "virtualized_code_section (protector_context st2)
           = virtualized_code_section (protector_context st1)"
  using assms
  by (auto simp: InvalidInstructionCallback_def Let_def split: option.splits)

lemma InvalidInstructionCallback_restores:
  assumes "InvalidInstructionCallback env address0 ins_data st1 = Inr st2"
  shows "take (unat (instruction_size ins_data))
           (drop (unat (RvaToSectionOffset (original_text_section_header env) address0))
              (sec_data (new_text_section (protector_context st2))))
         = take (unat (instruction_size ins_data))
             (drop (unat (RvaToSectionOffset (original_text_section_header env) address0))
                (sec_data (original_text_section_copy env)))"
proof -
  let ?off = "unat (RvaToSectionOffset (original_text_section_header env) address0)"
  let ?n = "unat (instruction_size ins_data)"
  let ?orig = "sec_data (original_text_section_copy env)"
  from assms obtain restored where
    fit: "?off + ?n \<le> length ?orig"
    and w: "write_bytes (sec_data (new_text_section (protector_context st1))) ?off
              (take ?n (drop ?off ?orig)) = Some restored"
    and r: "sec_data (new_text_section (protector_context st2)) = restored"
    by (auto simp: InvalidInstructionCallback_def Let_def read_bytes_def
        split: option.splits if_splits)
  have "length (take ?n (drop ?off ?orig)) = ?n" using fit by simp
  with write_bytes_same[OF w] r show ?thesis by simp
qed

text \<open>
  Claim C5 on its failing input. Let the callback virtualize an instruction and let the
  rollback callback then be called for it, at its address and with its size. The bytes
  of the instruction in the new text section are the original ones again; but the fixup
  list is what it was before the rollback, and the fixup of the jump that had been
  written over the instruction (origin \<^verbatim>\<open>TextSection\<close>, offset of the instruction plus
  one, operation \<^verbatim>\<open>AddVmLoaderSectionVirtualAddress\<close>) is still in it, as is the entry
  for the relocation table of the VM section.
\<close>

theorem rollback_leaves_text_fixup:
  assumes "EachInstructionCallback win64 V env rnd instruction st = Inr st1"
    and "IsVirtualizeable V instruction (GetVmOpcode V instruction)"
    and "CreateVirtualizedShellcode V instruction (GetVmOpcode V instruction)
           (key_draw rnd)
           (GetRelocationsWithinInstruction instruction (original_pe_relocation_rvas env))
         \<noteq> []"
    and "InvalidInstructionCallback env (address instruction)
           \<lparr>instruction_size = insn_size instruction\<rparr> st1 = Inr st2"
  shows "take (unat (insn_size instruction))
           (drop (unat (RvaToSectionOffset (original_text_section_header env)
                          (address instruction)))
              (sec_data (new_text_section (protector_context st2))))
         = take (unat (insn_size instruction))
             (drop (unat (RvaToSectionOffset (original_text_section_header env)
                            (address instruction)))
                (sec_data (original_text_section_copy env)))
       \<and> fixups (fixup_context (protector_context st2))
           = fixups (fixup_context (protector_context st1))
       \<and> jmp_to_vm_loader_fixup env instruction
           \<in> set (fixups (fixup_context (protector_context st2)))
       \<and> vm_section_offsets_to_add_to_relocation_table (fixup_context (protector_context st2))
           = vm_section_offsets_to_add_to_relocation_table
               (fixup_context (protector_context st1))"
proof -
  from EachInstructionCallback_records_fixup[OF assms(1-3)]
  have "jmp_to_vm_loader_fixup env instruction
          \<in> set (fixups (fixup_context (protector_context st1)))" by auto
  with InvalidInstructionCallback_frame(1,2)[OF assms(4)]
    InvalidInstructionCallback_restores[OF assms(4)]
  show ?thesis by simp
qed

lemma pv_rollback:
  "InvalidInstructionCallback pv_env 0x1000 \<lparr>instruction_size = 10\<rparr> pv_state1 = Inr pv_state2"
proof -
  have r: "GetRelocationsWithinInstruction (temp_instruction 0x1000 10) [0x1002, 0x1006]
             = [0x1002, 0x1006]"
    using GetRelocationsWithinInstruction_is_filter[of "[0x1002, 0x1006]" "temp_instruction 0x1000 10"]
    by (simp add: temp_instruction_def)
  show ?thesis
    unfolding InvalidInstructionCallback_def Let_def
    by (simp add: pv_env_def r RvaToSectionOffset_def s1_text_header_def read_bytes_def
        write_bytes_def pv_state1_def pv_state2_def pv_state_def pv_text pv_text_len
        fp_image_len)
qed

lemma last_fixup_adds_vm_loader_va:
  assumes run: "FixFinishedPe_fixups names hs text_section (pre @ [f]) img = Inr img'"
    and fo: "fixup_file_offset names hs text_section f = Inr fo"
    and f: "fixup_size (desc f) = 4" "operation (desc f) = AddVmLoaderSectionVirtualAddress"
    and vm: "FromName hs (VM_LOADER_SECTION_NAME names) = Some vm_loader"
    and others: "list_all (fixup_leaves names hs text_section (unat fo) 4) pre"
  shows "take 4 (drop (unat fo) img')
           = le32 (of_le32 (take 4 (drop (unat fo) img)) + VirtualAddress vm_loader)"
proof -
  from FixFinishedPe_fixups_append[OF run] obtain img1 where
    r1: "FixFinishedPe_fixups names hs text_section pre img = Inr img1"
    and r2: "FixFinishedPe_fixups names hs text_section [f] img1 = Inr img'"
    by blast
  from r2 have a: "apply_fixup names hs text_section f img1 = Inr img'"
    by (auto split: sum.splits)
  from FixFinishedPe_fixups_frame[OF r1 others]
  have "take 4 (drop (unat fo) img1) = take 4 (drop (unat fo) img)" by simp
  with apply_fixup_add_vm_loader_32[OF a fo f vm] show ?thesis by simp
qed

lemma pv_fixups2:
  "fixups (fixup_context (protector_context pv_state2)) =
     [\<lparr>offset = 0x58,
       desc = \<lparr>offset_type = VmLoaderSection, fixup_size = 4,
               operation = SubtractVmLoaderSectionVirtualAddress\<rparr>\<rparr>,
      \<lparr>offset = 0x44,
       desc = \<lparr>offset_type = VmLoaderSection, fixup_size = 4,
               operation = AddVirtualizedCodeSectionVirtualAddress\<rparr>\<rparr>]
     @ [\<lparr>offset = 1,
        desc = \<lparr>offset_type = TextSection, fixup_size = 4,
                operation = AddVmLoaderSectionVirtualAddress\<rparr>\<rparr>]"
  by (simp add: pv_state2_def pv_state1_def)

lemma pv_image2_len: "length (pv_image pv_state2) = 0xA00"
  by (simp add: pv_image_def pv_state2_def pv_state1_def pv_state_def fp_image_len)

lemma pv_image2_text: "take 5 (drop 0x400 (pv_image pv_state2)) = [0xC7, 0x05, 0x00, 0x20, 0x40]"
  by (simp add: pv_image_def pv_state2_def pv_state1_def pv_state_def pv_text)

theorem rollback_leaves_text_fixup_witness:
  "EachInstructionCallback False toy_virtualizer pv_env pv_draws fp_mov_mem_imm pv_state
     = Inr pv_state1
   \<and> InvalidInstructionCallback pv_env 0x1000 \<lparr>instruction_size = 10\<rparr> pv_state1
       = Inr pv_state2
   \<and> sec_data (new_text_section (protector_context pv_state2))
       = sec_data (original_text_section_copy pv_env)
   \<and> relocation_rvas_to_remove (fixup_context (protector_context pv_state2)) = []
   \<and> \<lparr>offset = 1,
       desc = \<lparr>offset_type = TextSection, fixup_size = 4,
               operation = AddVmLoaderSectionVirtualAddress\<rparr>\<rparr>
       \<in> set (fixups (fixup_context (protector_context pv_state2)))
   \<and> take 5 (drop 0x400 (pv_image pv_state2)) = [0xC7, 0x05, 0x00, 0x20, 0x40]
   \<and> (\<exists>img'. FixFinishedPe_fixups pv_names pv_headers s1_text_header
                (fixups (fixup_context (protector_context pv_state2))) (pv_image pv_state2)
              = Inr img'
            \<and> take 5 (drop 0x400 img') = [0xC7, 0x05, 0x30, 0x20, 0x40])"
proof -
  have virt: "IsVirtualizeable toy_virtualizer fp_mov_mem_imm
                (GetVmOpcode toy_virtualizer fp_mov_mem_imm)"
    by (simp add: pv_toy)
  have created: "CreateVirtualizedShellcode toy_virtualizer fp_mov_mem_imm
                   (GetVmOpcode toy_virtualizer fp_mov_mem_imm) (key_draw pv_draws)
                   (GetRelocationsWithinInstruction fp_mov_mem_imm
                      (original_pe_relocation_rvas pv_env)) \<noteq> []"
    by (simp add: pv_toy le32_def)
  have rb: "InvalidInstructionCallback pv_env (address fp_mov_mem_imm)
              \<lparr>instruction_size = insn_size fp_mov_mem_imm\<rparr> pv_state1 = Inr pv_state2"
    using pv_rollback by (simp add: fp_mov_mem_imm_def mk_insn_def)
  have f: "jmp_to_vm_loader_fixup pv_env fp_mov_mem_imm
             = \<lparr>offset = 1,
                desc = \<lparr>offset_type = TextSection, fixup_size = 4,
                        operation = AddVmLoaderSectionVirtualAddress\<rparr>\<rparr>"
    by (simp add: jmp_to_vm_loader_fixup_def instruction_text_section_offset_def
        RvaToSectionOffset_def pv_env_def s1_text_header_def fp_mov_mem_imm_def mk_insn_def)
  from rollback_leaves_text_fixup[OF pv_callback virt created rb]
  have "jmp_to_vm_loader_fixup pv_env fp_mov_mem_imm
          \<in> set (fixups (fixup_context (protector_context pv_state2)))"
    by blast
  then have kept: "\<lparr>offset = 1,
       desc = \<lparr>offset_type = TextSection, fixup_size = 4,
               operation = AddVmLoaderSectionVirtualAddress\<rparr>\<rparr>
       \<in> set (fixups (fixup_context (protector_context pv_state2)))"
    by (simp only: f)
  have restored: "sec_data (new_text_section (protector_context pv_state2))
       = sec_data (original_text_section_copy pv_env)"
    "relocation_rvas_to_remove (fixup_context (protector_context pv_state2)) = []"
    by (simp_all add: pv_state2_def pv_state1_def pv_state_def pv_env_def)
  have "\<exists>img'. FixFinishedPe_fixups pv_names pv_headers s1_text_header
            (fixups (fixup_context (protector_context pv_state2))) (pv_image pv_state2)
          = Inr img'"
    by (rule FixFinishedPe_fixups_succeeds)
      (simp add: pv_fixups2 pv_image2_len fixup_applies_def pv_pe_defs)
  then obtain img' where
    run: "FixFinishedPe_fixups pv_names pv_headers s1_text_header
            (fixups (fixup_context (protector_context pv_state2))) (pv_image pv_state2)
          = Inr img'" by blast
  have fo: "fixup_file_offset pv_names pv_headers s1_text_header
              \<lparr>offset = 1,
               desc = \<lparr>offset_type = TextSection, fixup_size = 4,
                       operation = AddVmLoaderSectionVirtualAddress\<rparr>\<rparr> = Inr 0x401"
    by (simp add: pv_pe_defs)
  have vm: "FromName pv_headers (VM_LOADER_SECTION_NAME pv_names)
              = Some \<lparr>Name = ''.vmldr'', VirtualSize = 0x200, VirtualAddress = 0x3000,
                      SizeOfRawData = 0x200, PointerToRawData = 0x600\<rparr>"
    by (simp add: pv_pe_defs)
  have others: "list_all (fixup_leaves pv_names pv_headers s1_text_header (unat (0x401 :: u64)) 4)
     [\<lparr>offset = 0x58,
       desc = \<lparr>offset_type = VmLoaderSection, fixup_size = 4,
               operation = SubtractVmLoaderSectionVirtualAddress\<rparr>\<rparr>,
      \<lparr>offset = 0x44,
       desc = \<lparr>offset_type = VmLoaderSection, fixup_size = 4,
               operation = AddVirtualizedCodeSectionVirtualAddress\<rparr>\<rparr>]"
    by (simp add: fixup_leaves_def pv_pe_defs)
  have all1: "list_all (fixup_leaves pv_names pv_headers s1_text_header 0x400 1)
                (fixups (fixup_context (protector_context pv_state2)))"
    by (simp add: pv_fixups2 fixup_leaves_def pv_pe_defs)
  have src1: "take 1 (drop 0x400 (pv_image pv_state2)) = [0xC7]"
    by (simp add: pv_image_def pv_state2_def pv_state1_def pv_state_def pv_text)
  have b0: "take 1 (drop 0x400 img') = [0xC7]"
    using FixFinishedPe_fixups_frame[OF run all1] src1 by simp
  have src4: "take 4 (drop 0x401 (pv_image pv_state2)) = [0x05, 0x00, 0x20, 0x40]"
    by (simp add: pv_image_def pv_state2_def pv_state1_def pv_state_def pv_text)
  from last_fixup_adds_vm_loader_va[OF run[unfolded pv_fixups2] fo _ _ vm others]
  have b4: "take 4 (drop 0x401 img') = [0x05, 0x30, 0x20, 0x40]"
    by (simp add: src4 of_le32_def le32_def)
  have "take 5 (drop 0x400 img') = take 1 (drop 0x400 img') @ take 4 (drop 0x401 img')"
    by (simp add: take_add[of 1 4, simplified])
  with b0 b4 have "take 5 (drop 0x400 img') = [0xC7, 0x05, 0x30, 0x20, 0x40]" by simp
  with run pv_callback pv_rollback kept restored pv_image2_text show ?thesis by blast
qed

subsection \<open>The TLS injector on an image with a TLS directory\<close>

lemma of_le64_le64: "of_le64 (le64 w) = w"
proof -
  have "(ucast (ucast w :: u32) :: u64) OR push_bit 32 (ucast (ucast (drop_bit 32 w) :: u32)) = w"
  proof (rule bit_word_eqI)
    fix n :: nat
    assume "n < LENGTH(64)"
    then show "bit ((ucast (ucast w :: u32) :: u64)
                 OR push_bit 32 (ucast (ucast (drop_bit 32 w) :: u32))) n = bit w n"
      by (cases "n < 32") (auto simp add: bit_simps le_add_diff_inverse)
  qed
  then show ?thesis
    by (simp add: of_le64_def le64_def of_le32_le32)
qed

lemma length_uintptr_bytes [simp]: "length (uintptr_bytes win64 v) = sizeof_uintptr win64"
  by (simp add: uintptr_bytes_def sizeof_uintptr_def le64_def)

lemma ucast_ucast_u32: "(ucast (ucast (v :: u64) :: u32) :: u64) = take_bit 32 v"
  by transfer (simp add: min_def)

lemma read_uintptr_written:
  assumes "write_bytes buf pos (uintptr_bytes win64 v) = Some buf'"
  shows "read_uintptr win64 buf' pos = Some (uptr win64 v)"
proof -
  from assms have le: "pos + sizeof_uintptr win64 \<le> length buf'"
    using write_bytes_length[OF assms] by (auto simp: write_bytes_def split: if_splits)
  from write_bytes_same[OF assms]
  have same: "take (sizeof_uintptr win64) (drop pos buf') = uintptr_bytes win64 v"
    by simp
  show ?thesis
  proof (cases win64)
    case True
    with le same show ?thesis
      by (simp add: read_uintptr_def read_u64_def read_bytes_def sizeof_uintptr_def
          uintptr_bytes_def uptr_def of_le64_le64)
  next
    case False
    with le same show ?thesis
      by (simp add: read_uintptr_def read_u32_def read_bytes_def sizeof_uintptr_def
          uintptr_bytes_def uptr_def of_le32_le32 ucast_ucast_u32)
  qed
qed

lemma ucast_down_up_u32: "(ucast (ucast (v :: u32) :: u64) :: u32) = v"
  by transfer (simp add: min_def)

lemma ucast_add_u32_u64:
  "(ucast (a + b :: u32) :: u64) = take_bit 32 (ucast a + ucast b)"
  by transfer (simp add: min_def take_bit_add)

lemma apply_fixup_adds_vm_loader_va:
  assumes run: "apply_fixup names hs text_section f img = Inr img'"
    and fo: "fixup_file_offset names hs text_section f = Inr fo"
    and sz: "fixup_size (desc f) = of_nat (sizeof_uintptr win64)"
    and fop: "operation (desc f) = AddVmLoaderSectionVirtualAddress"
    and vm: "FromName hs (VM_LOADER_SECTION_NAME names) = Some vm_loader"
    and v: "read_uintptr win64 img (unat fo) = Some v"
  shows "read_uintptr win64 img' (unat fo)
           = Some (uptr win64 (v + ucast (VirtualAddress vm_loader)))"
proof (cases win64)
  case True
  with run fo sz fop vm v
  have "write_bytes img (unat fo) (uintptr_bytes True (v + ucast (VirtualAddress vm_loader)))
          = Some img'"
    by (auto simp: apply_fixup_def fixup_operand_def read_uintptr_def sizeof_uintptr_def
        uintptr_bytes_def split: sum.splits option.splits if_splits)
  from read_uintptr_written[OF this] True show ?thesis by simp
next
  case False
  with v obtain v32 where v32: "read_u32 img (unat fo) = Some v32" and vv: "v = ucast v32"
    by (auto simp: read_uintptr_def)
  from False run fo sz fop vm v32
  have "write_bytes img (unat fo) (le32 (v32 + VirtualAddress vm_loader)) = Some img'"
    by (auto simp: apply_fixup_def fixup_operand_def sizeof_uintptr_def
        split: sum.splits option.splits if_splits)
  then have "write_bytes img (unat fo)
               (uintptr_bytes False (ucast (v32 + VirtualAddress vm_loader))) = Some img'"
    by (simp add: uintptr_bytes_def ucast_down_up_u32)
  from read_uintptr_written[OF this] False vv show ?thesis
    by (simp add: uptr_def ucast_add_u32_u64)
qed

lemma take_bit_32_add_left:
  fixes a b :: u64
  shows "take_bit 32 (take_bit 32 a + b) = take_bit 32 (a + b)"
  apply transfer
  apply (simp add: min_def)
  apply (metis add.commute diff_minus_eq_add take_bit_diff take_bit_minus)
  done

lemma uptr_add_left: "uptr win64 (uptr win64 a + b) = uptr win64 (a + b)"
  unfolding uptr_def by (simp add: take_bit_32_add_left)

lemma AddTlsCallbacks_existing_run:
  assumes has: "dir_Size (DataDirectory (image_nt_headers pe) IMAGE_DIRECTORY_ENTRY_TLS) \<noteq> 0"
    and fo: "tls_dir_file_offset
               = RvaToFileOffset (image_section_headers pe)
                   (ucast (dir_VirtualAddress
                      (DataDirectory (image_nt_headers pe) IMAGE_DIRECTORY_ENTRY_TLS)))"
    and aoc: "read_uintptr win64 (image_bytes pe)
                (unat tls_dir_file_offset + offsetof_AddressOfCallBacks win64)
              = Some address_of_callbacks"
    and copied: "CopyTlsCallbackList win64 (image_bytes pe)
                   \<lparr>StartAddressOfRawData = 0, EndAddressOfRawData = 0, AddressOfIndex = 0,
                    AddressOfCallBacks = address_of_callbacks, SizeOfZeroFill = 0,
                    Characteristics = 0\<rparr>
                   (image_section_headers pe) (ImageBase (image_nt_headers pe))
                 = Inr copied"
    and cb: "GetExportedFunctionOffsetRelativeToSection interpreter_pe ''TlsCallback''
               = Inr function_offset"
    and run: "AddTlsCallbacks win64 default_base interpreter_pe pe ctx = Inr (pe', ctx')"
    and slots: "slots = copied @ [uptr win64 (default_base + ucast function_offset)]
                          @ [0, 0, 0, 0, 0]"
    and off: "table_offset = GetCurrentOffset (virtualized_code_section ctx)"
  shows "write_bytes (image_bytes pe)
           (unat tls_dir_file_offset + offsetof_AddressOfCallBacks win64)
           (uintptr_bytes win64 (uptr win64 (default_base + table_offset)))
         = Some (image_bytes pe')"
    and "virtualized_code_section ctx'
           = snd (AppendCode (concat (map (uintptr_bytes win64) slots))
                    (SectionAlignment (image_nt_headers pe)) (FileAlignment (image_nt_headers pe))
                    (virtualized_code_section ctx))"
    and "fixup_context ctx'
           = (fixup_context ctx)
               \<lparr>virtualized_code_section_offsets_to_add_to_relocation_table :=
                  virtualized_code_section_offsets_to_add_to_relocation_table (fixup_context ctx)
                  @ callback_relocation_offsets win64 table_offset slots,
                fixups := fixups (fixup_context ctx)
                  @ [\<lparr>offset = table_offset + of_nat (length copied * sizeof_uintptr win64),
                      desc = \<lparr>offset_type = VirtualizedCodeSection,
                              fixup_size = of_nat (sizeof_uintptr win64),
                              operation = AddVmLoaderSectionVirtualAddress\<rparr>\<rparr>,
                     \<lparr>offset = tls_dir_file_offset + of_nat (offsetof_AddressOfCallBacks win64),
                      desc = \<lparr>offset_type = Beginning,
                              fixup_size = of_nat (sizeof_uintptr win64),
                              operation = AddVirtualizedCodeSectionVirtualAddress\<rparr>\<rparr>]\<rparr>"
proof -
  obtain o1 s1 where app: "AppendCode (concat (map (uintptr_bytes win64) slots))
                    (SectionAlignment (image_nt_headers pe)) (FileAlignment (image_nt_headers pe))
                    (virtualized_code_section ctx) = (o1, s1)"
    by (cases "AppendCode (concat (map (uintptr_bytes win64) slots))
                    (SectionAlignment (image_nt_headers pe)) (FileAlignment (image_nt_headers pe))
                    (virtualized_code_section ctx)") 
  from AppendCode_offset[of "concat (map (uintptr_bytes win64) slots)"
      "SectionAlignment (image_nt_headers pe)" "FileAlignment (image_nt_headers pe)"
      "virtualized_code_section ctx"] app off
  have o1: "o1 = table_offset" by (simp add: GetCurrentOffset_def)
  from run has aoc[unfolded fo] copied cb app[unfolded slots] 
  have r: "write_bytes (image_bytes pe)
           (unat tls_dir_file_offset + offsetof_AddressOfCallBacks win64)
           (uintptr_bytes win64 (uptr win64 (default_base + o1))) = Some (image_bytes pe')
     \<and> virtualized_code_section ctx' = s1
     \<and> fixup_context ctx'
           = (fixup_context ctx)
               \<lparr>virtualized_code_section_offsets_to_add_to_relocation_table :=
                  virtualized_code_section_offsets_to_add_to_relocation_table (fixup_context ctx)
                  @ callback_relocation_offsets win64 o1 slots,
                fixups := fixups (fixup_context ctx)
                  @ [\<lparr>offset = o1 + of_nat (length copied * sizeof_uintptr win64),
                      desc = \<lparr>offset_type = VirtualizedCodeSection,
                              fixup_size = of_nat (sizeof_uintptr win64),
                              operation = AddVmLoaderSectionVirtualAddress\<rparr>\<rparr>,
                     \<lparr>offset = tls_dir_file_offset + of_nat (offsetof_AddressOfCallBacks win64),
                      desc = \<lparr>offset_type = Beginning,
                              fixup_size = of_nat (sizeof_uintptr win64),
                              operation = AddVirtualizedCodeSectionVirtualAddress\<rparr>\<rparr>]\<rparr>"
    unfolding AddTlsCallbacks_def fo slots
    by (auto simp add: Let_def split: if_splits option.splits)
  from r o1 app show "write_bytes (image_bytes pe)
           (unat tls_dir_file_offset + offsetof_AddressOfCallBacks win64)
           (uintptr_bytes win64 (uptr win64 (default_base + table_offset)))
         = Some (image_bytes pe')" by simp
  from r o1 app show "virtualized_code_section ctx'
           = snd (AppendCode (concat (map (uintptr_bytes win64) slots))
                    (SectionAlignment (image_nt_headers pe)) (FileAlignment (image_nt_headers pe))
                    (virtualized_code_section ctx))" by simp
  from r o1 show "fixup_context ctx'
           = (fixup_context ctx)
               \<lparr>virtualized_code_section_offsets_to_add_to_relocation_table :=
                  virtualized_code_section_offsets_to_add_to_relocation_table (fixup_context ctx)
                  @ callback_relocation_offsets win64 table_offset slots,
                fixups := fixups (fixup_context ctx)
                  @ [\<lparr>offset = table_offset + of_nat (length copied * sizeof_uintptr win64),
                      desc = \<lparr>offset_type = VirtualizedCodeSection,
                              fixup_size = of_nat (sizeof_uintptr win64),
                              operation = AddVmLoaderSectionVirtualAddress\<rparr>\<rparr>,
                     \<lparr>offset = tls_dir_file_offset + of_nat (offsetof_AddressOfCallBacks win64),
                      desc = \<lparr>offset_type = Beginning,
                              fixup_size = of_nat (sizeof_uintptr win64),
                              operation = AddVirtualizedCodeSectionVirtualAddress\<rparr>\<rparr>]\<rparr>" by simp
qed

lemma length_concat_uintptr_bytes:
  "length (concat (map (uintptr_bytes win64) slots)) = length slots * sizeof_uintptr win64"
  by (induction slots) simp_all

lemma tls_dir: "DataDirectory (image_nt_headers tls_image) IMAGE_DIRECTORY_ENTRY_TLS
                  = \<lparr>dir_VirtualAddress = 0x2000, dir_Size = 24\<rparr>"
  by (simp add: tls_image_def)

lemma tls_fo:
  "RvaToFileOffset (image_section_headers tls_image) 0x2000 = 0x600"
  "RvaToFileOffset (image_section_headers tls_image) 0x2020 = 0x620"
  by (simp_all add: tls_image_def RvaToFileOffset_def FromRva_def IsRvaWithinSection_def
      s1_text_header_def)

lemma tls_image_len: "length (image_bytes tls_image) = 0x800"
  by (simp add: tls_image_def)

lemma tls_bytes:
  "take 4 (drop 0x60C (image_bytes tls_image)) = le32 0x402020"
  "take 4 (drop 0x620 (image_bytes tls_image)) = le32 0x401030"
  "take 4 (drop 0x624 (image_bytes tls_image)) = le32 0"
  by (simp_all add: tls_image_def)

lemma tls_reads:
  "read_uintptr False (image_bytes tls_image) 0x60C = Some 0x402020"
  "read_uintptr False (image_bytes tls_image) 0x620 = Some 0x401030"
  "read_uintptr False (image_bytes tls_image) 0x624 = Some 0"
  by (simp_all add: read_uintptr_def read_u32_def read_bytes_def tls_image_len tls_bytes
      of_le32_le32)

lemma tls_copied:
  "CopyTlsCallbackList False (image_bytes tls_image)
     \<lparr>StartAddressOfRawData = 0, EndAddressOfRawData = 0, AddressOfIndex = 0,
      AddressOfCallBacks = 0x402020, SizeOfZeroFill = 0, Characteristics = 0\<rparr>
     (image_section_headers tls_image) (ImageBase (image_nt_headers tls_image))
   = Inr [0x401030]"
proof -
  have base: "ImageBase (image_nt_headers tls_image) = 0x400000"
    by (simp add: tls_image_def)
  have "CopyTlsCallbackList_loop False (image_bytes tls_image) 0x620 1 [0x401030]
          = Inr [0x401030]"
    by (subst CopyTlsCallbackList_loop.simps) (simp add: sizeof_uintptr_def tls_reads)
  then have "CopyTlsCallbackList_loop False (image_bytes tls_image) 0x620 0 [] = Inr [0x401030]"
    by (subst CopyTlsCallbackList_loop.simps) (simp add: sizeof_uintptr_def tls_reads)
  then show ?thesis
    by (simp add: CopyTlsCallbackList_def base uptr_def tls_fo)
qed

lemma tls_export:
  "GetExportedFunctionOffsetRelativeToSection tls_interpreter ''TlsCallback'' = Inr 0x50"
  by (simp add: GetExportedFunctionOffsetRelativeToSection_def tls_interpreter_def FromRva_def
      IsRvaWithinSection_def RvaToSectionOffset_def)

lemma tls_run:
  "\<exists>pe' ctx'. AddTlsCallbacks False 0x400000 tls_interpreter tls_image tls_context
                 = Inr (pe', ctx')"
proof -
  have w: "write_bytes (image_bytes tls_image) 0x60C (uintptr_bytes False v) \<noteq> None" for v
    by (simp add: write_bytes_def tls_image_len sizeof_uintptr_def)
  show ?thesis
    unfolding AddTlsCallbacks_def
    by (simp add: w tls_dir tls_fo tls_reads tls_copied tls_export sizeof_IMAGE_TLS_DIRECTORY_def
        offsetof_AddressOfCallBacks_def sizeof_uintptr_def Let_def
        split: prod.splits option.splits)
qed

text \<open>
  Against claim C7 as worded. On the 32-bit image with a TLS directory, with
  \<^verbatim>\<open>DEFAULT_PE_BASE_ADDRESS\<close> \<open>0x400000\<close>, the callback list is written at offset \<open>0x10\<close> of
  the virtualized-code section, and the value stored in \<^verbatim>\<open>AddressOfCallBacks\<close> of the
  directory (file offset \<open>0x60C\<close>) is \<open>0x400010\<close>, the default base plus that offset; it
  is not the section offset \<open>0x10\<close> of the new table.
\<close>

theorem AddressOfCallBacks_is_not_the_section_offset:
  "\<exists>pe' ctx'. AddTlsCallbacks False 0x400000 tls_interpreter tls_image tls_context
                 = Inr (pe', ctx')
      \<and> GetCurrentOffset (virtualized_code_section tls_context) = 0x10
      \<and> read_uintptr False (image_bytes pe') 0x60C = Some 0x400010
      \<and> read_uintptr False (image_bytes pe') 0x60C
          \<noteq> Some (GetCurrentOffset (virtualized_code_section tls_context))"
proof -
  from tls_run obtain pe' ctx'
    where run: "AddTlsCallbacks False 0x400000 tls_interpreter tls_image tls_context
                  = Inr (pe', ctx')"
    by blast
  have off: "GetCurrentOffset (virtualized_code_section tls_context) = 0x10"
    by (simp add: GetCurrentOffset_def tls_context_def)
  have has: "dir_Size (DataDirectory (image_nt_headers tls_image) IMAGE_DIRECTORY_ENTRY_TLS) \<noteq> 0"
    by (simp add: tls_dir)
  have fo: "(0x600 :: u64)
              = RvaToFileOffset (image_section_headers tls_image)
                  (ucast (dir_VirtualAddress
                     (DataDirectory (image_nt_headers tls_image) IMAGE_DIRECTORY_ENTRY_TLS)))"
    by (simp add: tls_dir tls_fo)
  have aoc: "read_uintptr False (image_bytes tls_image)
               (unat (0x600 :: u64) + offsetof_AddressOfCallBacks False) = Some 0x402020"
    by (simp add: offsetof_AddressOfCallBacks_def sizeof_uintptr_def tls_reads)
  from AddTlsCallbacks_existing_run(1)[OF has fo aoc tls_copied tls_export run refl off [symmetric]]
  have "write_bytes (image_bytes tls_image) 0x60C (uintptr_bytes False (uptr False 0x400010))
          = Some (image_bytes pe')"
    by (simp add: offsetof_AddressOfCallBacks_def sizeof_uintptr_def)
  from read_uintptr_written[OF this]
  have "read_uintptr False (image_bytes pe') 0x60C = Some 0x400010"
    by (simp add: uptr_def)
  with run off show ?thesis by simp
qed

text \<open>
  Claim C7, amended. When the image has a TLS directory and \<^verbatim>\<open>AddTlsCallbacks\<close> returns,
  with \<open>copied\<close> the callbacks the image had and \<open>function_offset\<close> the offset of the
  interpreter's \<^verbatim>\<open>TlsCallback\<close> in its section:
  \<^item> the list appended to the virtualized-code section, at the offset \<open>table_offset\<close> the
    section had reached, is \<open>copied\<close>, then \<open>default_base + function_offset\<close>, then five
    zero slots, each slot of the size of a pointer;
  \<^item> the offset of each slot that is not 0 is added to the offsets of the
    virtualized-code section to relocate;
  \<^item> two fixups are added. The first is on the slot of the interpreter's callback,
    relative to the virtualized-code section, and adds the virtual address of the VM
    loader section: applied to the slot it turns \<open>default_base + function_offset\<close> into
    \<open>default_base + function_offset + VmLoaderSectionVA\<close>, and the default base stays in
    the sum. The second is on \<^verbatim>\<open>AddressOfCallBacks\<close> of the directory, relative to the
    beginning of the file, and adds the virtual address of the virtualized-code section;
  \<^item> \<^verbatim>\<open>AddressOfCallBacks\<close> of the directory in the image is overwritten with
    \<open>default_base + table_offset\<close>, the default base plus the section offset of the list.
\<close>

theorem AddTlsCallbacks_existing_directory:
  assumes has: "dir_Size (DataDirectory (image_nt_headers pe) IMAGE_DIRECTORY_ENTRY_TLS) \<noteq> 0"
    and fo: "tls_dir_file_offset
               = RvaToFileOffset (image_section_headers pe)
                   (ucast (dir_VirtualAddress
                      (DataDirectory (image_nt_headers pe) IMAGE_DIRECTORY_ENTRY_TLS)))"
    and aoc: "read_uintptr win64 (image_bytes pe)
                (unat tls_dir_file_offset + offsetof_AddressOfCallBacks win64)
              = Some address_of_callbacks"
    and copied: "CopyTlsCallbackList win64 (image_bytes pe)
                   \<lparr>StartAddressOfRawData = 0, EndAddressOfRawData = 0, AddressOfIndex = 0,
                    AddressOfCallBacks = address_of_callbacks, SizeOfZeroFill = 0,
                    Characteristics = 0\<rparr>
                   (image_section_headers pe) (ImageBase (image_nt_headers pe))
                 = Inr copied"
    and cb: "GetExportedFunctionOffsetRelativeToSection interpreter_pe ''TlsCallback''
               = Inr function_offset"
    and run: "AddTlsCallbacks win64 default_base interpreter_pe pe ctx = Inr (pe', ctx')"
    and slots: "slots = copied @ [uptr win64 (default_base + ucast function_offset)]
                          @ [0, 0, 0, 0, 0]"
    and off: "table_offset = GetCurrentOffset (virtualized_code_section ctx)"
    and cf: "callback_addr_fixup
               = \<lparr>offset = table_offset + of_nat (length copied * sizeof_uintptr win64),
                  desc = \<lparr>offset_type = VirtualizedCodeSection,
                          fixup_size = of_nat (sizeof_uintptr win64),
                          operation = AddVmLoaderSectionVirtualAddress\<rparr>\<rparr>"
    and af: "addr_of_callbacks_fixup
               = \<lparr>offset = tls_dir_file_offset + of_nat (offsetof_AddressOfCallBacks win64),
                  desc = \<lparr>offset_type = Beginning,
                          fixup_size = of_nat (sizeof_uintptr win64),
                          operation = AddVirtualizedCodeSectionVirtualAddress\<rparr>\<rparr>"
  shows "take (length slots * sizeof_uintptr win64)
           (drop (sec_offset (virtualized_code_section ctx))
              (sec_data (virtualized_code_section ctx')))
         = concat (map (uintptr_bytes win64) slots)
       \<and> virtualized_code_section_offsets_to_add_to_relocation_table (fixup_context ctx')
           = virtualized_code_section_offsets_to_add_to_relocation_table (fixup_context ctx)
             @ callback_relocation_offsets win64 table_offset slots
       \<and> fixups (fixup_context ctx')
           = fixups (fixup_context ctx) @ [callback_addr_fixup, addr_of_callbacks_fixup]
       \<and> (\<forall>names hs text_section img img' p vm_loader.
             apply_fixup names hs text_section callback_addr_fixup img = Inr img'
             \<longrightarrow> fixup_file_offset names hs text_section callback_addr_fixup = Inr p
             \<longrightarrow> FromName hs (VM_LOADER_SECTION_NAME names) = Some vm_loader
             \<longrightarrow> read_uintptr win64 img (unat p)
                   = Some (uptr win64 (default_base + ucast function_offset))
             \<longrightarrow> read_uintptr win64 img' (unat p)
                   = Some (uptr win64 (default_base + ucast function_offset
                                         + ucast (VirtualAddress vm_loader))))
       \<and> read_uintptr win64 (image_bytes pe')
             (unat tls_dir_file_offset + offsetof_AddressOfCallBacks win64)
           = Some (uptr win64 (default_base + table_offset))"
proof -
  note r = AddTlsCallbacks_existing_run[OF has fo aoc copied cb run slots off]
  have c1: "take (length slots * sizeof_uintptr win64)
           (drop (sec_offset (virtualized_code_section ctx))
              (sec_data (virtualized_code_section ctx')))
         = concat (map (uintptr_bytes win64) slots)"
    unfolding r(2)
    using AppendCode_written[where bytes = "concat (map (uintptr_bytes win64) slots)"
        and sa = "SectionAlignment (image_nt_headers pe)"
        and fa = "FileAlignment (image_nt_headers pe)"
        and s = "virtualized_code_section ctx"]
    by (simp add: length_concat_uintptr_bytes)
  have c2: "virtualized_code_section_offsets_to_add_to_relocation_table (fixup_context ctx')
           = virtualized_code_section_offsets_to_add_to_relocation_table (fixup_context ctx)
             @ callback_relocation_offsets win64 table_offset slots"
    unfolding r(3) by simp
  have c3: "fixups (fixup_context ctx')
           = fixups (fixup_context ctx) @ [callback_addr_fixup, addr_of_callbacks_fixup]"
    unfolding r(3) cf af by simp
  have c4: "read_uintptr win64 img' (unat p)
              = Some (uptr win64 (default_base + ucast function_offset
                                    + ucast (VirtualAddress vm_loader)))"
    if "apply_fixup names hs text_section callback_addr_fixup img = Inr img'"
      and "fixup_file_offset names hs text_section callback_addr_fixup = Inr p"
      and "FromName hs (VM_LOADER_SECTION_NAME names) = Some vm_loader"
      and "read_uintptr win64 img (unat p)
             = Some (uptr win64 (default_base + ucast function_offset))"
    for names hs text_section img img' p vm_loader
    using apply_fixup_adds_vm_loader_va[OF that(1) that(2) _ _ that(3) that(4)]
    by (simp add: cf uptr_add_left)
  have c5: "read_uintptr win64 (image_bytes pe')
             (unat tls_dir_file_offset + offsetof_AddressOfCallBacks win64)
           = Some (uptr win64 (default_base + table_offset))"
    using read_uintptr_written[OF r(1)] by (simp add: uptr_def)
  from c1 c2 c3 c4 c5 show ?thesis by blast
qed

theorem AddTlsCallbacks_existing_directory_witness:
  "\<exists>pe' ctx'. AddTlsCallbacks False 0x400000 tls_interpreter tls_image tls_context
                 = Inr (pe', ctx')
      \<and> take 28 (drop 0x10 (sec_data (virtualized_code_section ctx')))
          = le32 0x401030 @ le32 0x400050 @ le32 0 @ le32 0 @ le32 0 @ le32 0 @ le32 0
      \<and> virtualized_code_section_offsets_to_add_to_relocation_table (fixup_context ctx')
          = [0x10, 0x14]
      \<and> fixups (fixup_context ctx')
          = [\<lparr>offset = 0x14,
              desc = \<lparr>offset_type = VirtualizedCodeSection, fixup_size = 4,
                      operation = AddVmLoaderSectionVirtualAddress\<rparr>\<rparr>,
             \<lparr>offset = 0x60C,
              desc = \<lparr>offset_type = Beginning, fixup_size = 4,
                      operation = AddVirtualizedCodeSectionVirtualAddress\<rparr>\<rparr>]
      \<and> read_uintptr False (image_bytes pe') 0x60C = Some 0x400010"
proof -
  from tls_run obtain pe' ctx'
    where run: "AddTlsCallbacks False 0x400000 tls_interpreter tls_image tls_context
                  = Inr (pe', ctx')"
    by blast
  have off: "(0x10 :: u64) = GetCurrentOffset (virtualized_code_section tls_context)"
    by (simp add: GetCurrentOffset_def tls_context_def)
  have has: "dir_Size (DataDirectory (image_nt_headers tls_image) IMAGE_DIRECTORY_ENTRY_TLS) \<noteq> 0"
    by (simp add: tls_dir)
  have fo: "(0x600 :: u64)
              = RvaToFileOffset (image_section_headers tls_image)
                  (ucast (dir_VirtualAddress
                     (DataDirectory (image_nt_headers tls_image) IMAGE_DIRECTORY_ENTRY_TLS)))"
    by (simp add: tls_dir tls_fo)
  have aoc: "read_uintptr False (image_bytes tls_image)
               (unat (0x600 :: u64) + offsetof_AddressOfCallBacks False) = Some 0x402020"
    by (simp add: offsetof_AddressOfCallBacks_def sizeof_uintptr_def tls_reads)
  have u: "[0..<7] = [0, 1, 2, 3, 4, 5, 6 :: nat]"
    by (simp add: upt_rec)
  have rel: "callback_relocation_offsets False 0x10
               ([0x401030] @ [uptr False (0x400000 + ucast (0x50 :: u32))] @ [0, 0, 0, 0, 0])
             = [0x10, 0x14]"
    by (simp add: callback_relocation_offsets_def u uptr_def sizeof_uintptr_def)
  have ctx0: "sec_offset (virtualized_code_section tls_context) = 0x10"
    "virtualized_code_section_offsets_to_add_to_relocation_table (fixup_context tls_context) = []"
    "fixups (fixup_context tls_context) = []"
    by (simp_all add: tls_context_def)
  from AddTlsCallbacks_existing_directory[OF has fo aoc tls_copied tls_export run refl off
      refl refl]
  have "take 28 (drop 0x10 (sec_data (virtualized_code_section ctx')))
          = le32 0x401030 @ le32 0x400050 @ le32 0 @ le32 0 @ le32 0 @ le32 0 @ le32 0"
    and "virtualized_code_section_offsets_to_add_to_relocation_table (fixup_context ctx')
          = [0x10, 0x14]"
    and "fixups (fixup_context ctx')
          = [\<lparr>offset = 0x14,
              desc = \<lparr>offset_type = VirtualizedCodeSection, fixup_size = 4,
                      operation = AddVmLoaderSectionVirtualAddress\<rparr>\<rparr>,
             \<lparr>offset = 0x60C,
              desc = \<lparr>offset_type = Beginning, fixup_size = 4,
                      operation = AddVirtualizedCodeSectionVirtualAddress\<rparr>\<rparr>]"
    and "read_uintptr False (image_bytes pe') 0x60C = Some 0x400010"
    unfolding rel ctx0
    by (simp_all add: uptr_def sizeof_uintptr_def offsetof_AddressOfCallBacks_def
        uintptr_bytes_def)
  with run show ?thesis by blast
qed

subsection \<open>The jump written over a virtualized instruction\<close>



























end
